theory Spec2Isabelle
  imports Complex_Main "HOL-Library.Word" "HOL-Library.Code_Target_Numeral"
begin

chapter \<open>Miracle-Grue: Segmenter, Pather and GCoder\<close>

text \<open>
  A shallow embedding of the parts of the slicing pipeline that live in
  \<^verbatim>\<open>segmenter.cc\<close>, \<^verbatim>\<open>pather.cc\<close> and \<^verbatim>\<open>gcoder.cc\<close>.
  A value of the C++ type \<^verbatim>\<open>Scalar\<close> (an IEEE double) is the real number it denotes, and
  every addition, subtraction and multiplication of the code is the exact operation
  followed by rounding to the nearest double (section "Double arithmetic").
  \<^verbatim>\<open>unsigned int\<close> is a 32-bit word, \<^verbatim>\<open>size_t\<close> a natural number with the wrap-around
  written out where the code subtracts.  Reading a container
  out of range and dereferencing the begin iterator of an empty container are undefined
  behaviour in C++; the model makes them explicit results (\<open>None\<close>, or the fault
  \<open>OutOfRange\<close>).
\<close>

section \<open>Data model\<close>

type_synonym Scalar = real

subsection \<open>Double arithmetic\<close>

text \<open>
  \<open>fl\<close> rounds a real number to the nearest binary64 number, ties to even: the number is
  divided by the spacing \<open>ulp\<close> of the doubles in its binade (52 fraction bits; below
  \<open>2^-1022\<close> the spacing of the subnormal numbers, \<open>2^-1074\<close>), the quotient is rounded to
  the nearest integer, and the result is scaled back.  \<open>binaryExponent x\<close> is the \<open>e\<close> with
  \<open>2^e \<le> \<bar>x\<bar> < 2^(e + 1)\<close>, searched upwards from \<open>0\<close> for \<open>\<bar>x\<bar> \<ge> 1\<close> and downwards, not
  below \<open>-1022\<close>, otherwise.  Overflow to infinity and NaN are not represented: a number
  of magnitude \<open>2^1024\<close> or more is outside the model.  \<open>dadd\<close>, \<open>dsub\<close> and \<open>dmul\<close> are
  \<^verbatim>\<open>+\<close>, \<^verbatim>\<open>-\<close> and \<^verbatim>\<open>*\<close> on doubles, each rounded once; comparisons are exact.
\<close>

fun expUp :: "nat \<Rightarrow> real \<Rightarrow> int \<Rightarrow> int" where
  "expUp 0 x e = e"
| "expUp (Suc n) x e = (if x < 2 powi (e + 1) then e else expUp n x (e + 1))"

fun expDown :: "nat \<Rightarrow> real \<Rightarrow> int \<Rightarrow> int" where
  "expDown 0 x e = e"
| "expDown (Suc n) x e = (if 2 powi e \<le> x then e else expDown n x (e - 1))"

definition binaryExponent :: "real \<Rightarrow> int" where
  "binaryExponent x = (if 1 \<le> \<bar>x\<bar> then expUp 1024 \<bar>x\<bar> 0 else expDown 1022 \<bar>x\<bar> 0)"

definition ulp :: "real \<Rightarrow> real" where
  "ulp x = 2 powi (binaryExponent x - 52)"

definition roundHalfEven :: "real \<Rightarrow> int" where
  "roundHalfEven r =
     (let n = \<lfloor>r\<rfloor> in
      if r - of_int n < 1/2 then n
      else if 1/2 < r - of_int n then n + 1
      else if even n then n else n + 1)"

definition fl :: "real \<Rightarrow> Scalar" where
  "fl x = (if x = 0 then 0 else of_int (roundHalfEven (x / ulp x)) * ulp x)"

definition dadd :: "Scalar \<Rightarrow> Scalar \<Rightarrow> Scalar" where
  "dadd a b = fl (a + b)"

definition dsub :: "Scalar \<Rightarrow> Scalar \<Rightarrow> Scalar" where
  "dsub a b = fl (a - b)"

definition dmul :: "Scalar \<Rightarrow> Scalar \<Rightarrow> Scalar" where
  "dmul a b = fl (a * b)"

subsection \<open>Points and triangles\<close>

record Point2Type =
  pt_x :: Scalar
  pt_y :: Scalar

record Point3Type =
  v_x :: Scalar
  v_y :: Scalar
  v_z :: Scalar

record TriangleType =
  v0 :: Point3Type
  v1 :: Point3Type
  v2 :: Point3Type

text \<open>
  Modelled from the spec: \<^verbatim>\<open>Triangle::zSort\<close> is declared in a header that is not part of
  the sources.  The data model says it returns the three vertices ordered by ascending Z.
\<close>

definition zSort :: "TriangleType \<Rightarrow> Point3Type \<times> Point3Type \<times> Point3Type" where
  "zSort t =
     (let p = v0 t; q = v1 t; r = v2 t in
      if v_z p \<le> v_z q then
        (if v_z q \<le> v_z r then (p, q, r)
         else if v_z p \<le> v_z r then (p, r, q) else (r, p, q))
      else
        (if v_z p \<le> v_z r then (q, p, r)
         else if v_z q \<le> v_z r then (q, r, p) else (r, q, p)))"

subsection \<open>Configuration\<close>

text \<open>
  Modelled from the spec: the classes \<^verbatim>\<open>Extrusion\<close>, \<^verbatim>\<open>Extruder\<close> and \<^verbatim>\<open>GrueConfig\<close> are
  declared in headers that are not part of the sources.  An extrusion profile is a bundle
  of feedrate and width; the extruder and configuration records hold the members that
  the code below reads, under the names it reads them by (\<open>get_doRaft\<close> for
  \<^verbatim>\<open>grueCfg.get_doRaft()\<close>; \<open>extruder_id\<close> for \<^verbatim>\<open>extruder.id\<close>).  Counts and indices are
  unsigned.
\<close>

record Extrusion =
  feedrate :: Scalar
  extrusionWidth :: Scalar

record Extruder =
  extruder_id :: nat
  code :: nat
  isVolumetric :: bool
  feedDiameter :: Scalar
  firstLayerExtrusionProfile :: string
  outlinesExtrusionProfile :: string
  insetsExtrusionProfile :: string
  infillsExtrusionProfile :: string

record GrueConfig =
  get_doGraphOptimization :: bool
  get_coarseness :: Scalar
  get_directionWeight :: Scalar
  get_doRaft :: bool
  get_raftLayers :: "32 word"
  get_raftAligned :: bool
  get_doOutlines :: bool
  get_doInsets :: bool
  get_doInfills :: bool
  get_doSupport :: bool
  get_infillDensity :: Scalar
  get_roofLayerCount :: nat
  get_floorLayerCount :: nat
  get_defaultExtruder :: nat
  get_extruders :: "Extruder list"
  get_extrusionProfiles :: "string \<rightharpoonup> Extrusion"
  get_scalingFactor :: Scalar
  get_doPrintProgress :: bool
  get_doPrintLayerMessages :: bool
  get_doFanCommand :: bool
  get_fanLayer :: nat
  get_doAnchor :: bool
  get_startingX :: Scalar
  get_startingY :: Scalar
  get_rapidMoveFeedRateZ :: Scalar
  get_header :: string
  get_footer :: string

section \<open>Segmenter (segmenter.cc)\<close>

type_synonym TriangleIndices = "nat list"
type_synonym SliceTable = "TriangleIndices list"

text \<open>
  The Segmenter object.  Its tape measure \<open>zTapeMeasure\<close> is a \<^verbatim>\<open>LayerMeasure\<close>, a class
  that is not part of the sources: the type is left open (\<open>'lm\<close>) and the one method the
  Segmenter calls, \<^verbatim>\<open>zToLayerAbove\<close>, is a parameter of the functions below.  \<open>'l\<close> is the
  type of the mesh limits, which the Segmenter only copies.
\<close>

record ('lm, 'l) Segmenter =
  zTapeMeasure :: 'lm
  allTriangles :: "TriangleType list"
  sliceTable :: SliceTable
  limits :: 'l

record 'l Meshy =
  readAllTriangles :: "TriangleType list"
  readLimits :: 'l

text \<open>\<^verbatim>\<open>std::vector::resize\<close>: cut to \<open>n\<close> entries, or fill up with empty entries.\<close>

definition resize :: "SliceTable \<Rightarrow> nat \<Rightarrow> SliceTable" where
  "resize tbl n = take n tbl @ replicate (n - length tbl) []"

text \<open>
  The loop \<^verbatim>\<open>for (size_t i = minSliceIndex; i <= maxSliceIndex; i++) sliceTable[i].push_back(id)\<close>,
  over the indices it visits; an index past the end of the table is undefined behaviour.
\<close>

fun pushBackRange :: "nat \<Rightarrow> nat list \<Rightarrow> SliceTable \<Rightarrow> SliceTable option" where
  "pushBackRange newTriangleId [] tbl = Some tbl"
| "pushBackRange newTriangleId (i # rest) tbl =
     (if i < length tbl
      then pushBackRange newTriangleId rest (tbl[i := tbl ! i @ [newTriangleId]])
      else None)"

definition minSliceIndexOf :: "32 word \<Rightarrow> 32 word" where
  "minSliceIndexOf layerAboveA = (if layerAboveA > 0 then layerAboveA - 1 else layerAboveA)"

definition maxSliceIndexOf :: "32 word \<Rightarrow> 32 word \<Rightarrow> 32 word" where
  "maxSliceIndexOf minSliceIndex layerAboveC =
     (if layerAboveC - minSliceIndex > 1 then layerAboveC - 1 else layerAboveC)"

definition updateSlicesTriangle ::
  "('lm \<Rightarrow> Scalar \<Rightarrow> 32 word) \<Rightarrow> ('lm, 'l) Segmenter \<Rightarrow> nat \<Rightarrow> ('lm, 'l) Segmenter option" where
  "updateSlicesTriangle zToLayerAbove seg newTriangleId =
     (if newTriangleId < length (allTriangles seg) then
        (case zSort (allTriangles seg ! newTriangleId) of (a, b, c) \<Rightarrow>
           let minSliceIndex = minSliceIndexOf (zToLayerAbove (zTapeMeasure seg) (v_z a));
               maxSliceIndex = maxSliceIndexOf minSliceIndex (zToLayerAbove (zTapeMeasure seg) (v_z c));
               currentSliceCount = (word_of_nat (length (sliceTable seg)) :: 32 word);
               tbl = (if maxSliceIndex \<ge> currentSliceCount
                      then resize (sliceTable seg) (unat (maxSliceIndex + 1))
                      else sliceTable seg)
           in map_option (\<lambda>tbl'. seg\<lparr>sliceTable := tbl'\<rparr>)
                (pushBackRange newTriangleId [unat minSliceIndex ..< Suc (unat maxSliceIndex)] tbl))
      else None)"

fun tablaturizeLoop ::
  "('lm \<Rightarrow> Scalar \<Rightarrow> 32 word) \<Rightarrow> nat list \<Rightarrow> ('lm, 'l) Segmenter \<Rightarrow> ('lm, 'l) Segmenter option" where
  "tablaturizeLoop zToLayerAbove [] seg = Some seg"
| "tablaturizeLoop zToLayerAbove (i # rest) seg =
     (case updateSlicesTriangle zToLayerAbove seg i of
        None \<Rightarrow> None
      | Some seg' \<Rightarrow> tablaturizeLoop zToLayerAbove rest seg')"

definition tablaturize ::
  "('lm \<Rightarrow> Scalar \<Rightarrow> 32 word) \<Rightarrow> ('lm, 'l) Segmenter \<Rightarrow> 'l Meshy \<Rightarrow> ('lm, 'l) Segmenter option" where
  "tablaturize zToLayerAbove seg mesh =
     (let seg1 = seg\<lparr>allTriangles := readAllTriangles mesh, limits := readLimits mesh\<rparr>
      in tablaturizeLoop zToLayerAbove [0 ..< length (allTriangles seg1)] seg1)"

subsection \<open>Notions used in the statements about the slice table\<close>

text \<open>
  These four are not functions of the program.  \<open>zLow\<close> and \<open>zHigh\<close> are the ends of the
  Z-range of a triangle.  \<open>spansLayers\<close> is the test of \<open>updateSlicesTriangle\<close> under which
  it decrements the upper index, read on the values of the helper at the two ends.
  \<open>listedIn\<close> is a condition on the heights alone, for a sequence \<open>layerTop\<close> of layer tops:
  the lowest vertex is at or below the top of layer \<open>s + 1\<close>, and the highest vertex is
  above the top of layer \<open>s\<close> (for a triangle that spans layers), or above the top of
  layer \<open>s - 1\<close> or \<open>s = 0\<close> (for one that does not).
\<close>

definition zLow :: "TriangleType \<Rightarrow> Scalar" where
  "zLow t = min (v_z (v0 t)) (min (v_z (v1 t)) (v_z (v2 t)))"

definition zHigh :: "TriangleType \<Rightarrow> Scalar" where
  "zHigh t = max (v_z (v0 t)) (max (v_z (v1 t)) (v_z (v2 t)))"

definition spansLayers :: "('lm \<Rightarrow> Scalar \<Rightarrow> 32 word) \<Rightarrow> 'lm \<Rightarrow> TriangleType \<Rightarrow> bool" where
  "spansLayers zToLayerAbove lm t =
     (1 < unat (zToLayerAbove lm (zHigh t)) - (unat (zToLayerAbove lm (zLow t)) - 1))"

definition listedIn ::
  "('lm \<Rightarrow> Scalar \<Rightarrow> 32 word) \<Rightarrow> 'lm \<Rightarrow> (nat \<Rightarrow> Scalar) \<Rightarrow> TriangleType \<Rightarrow> nat \<Rightarrow> bool" where
  "listedIn zToLayerAbove lm layerTop t s =
     (zLow t \<le> layerTop (Suc s) \<and>
      (if spansLayers zToLayerAbove lm t then layerTop s < zHigh t
       else s = 0 \<or> layerTop (s - 1) < zHigh t))"

section \<open>Pather (pather.cc)\<close>

subsection \<open>Labeled paths\<close>

text \<open>
  Modelled from the spec: \<^verbatim>\<open>PathLabel\<close>, \<^verbatim>\<open>OpenPath\<close> and the \<^verbatim>\<open>Point2Type\<close> operators are
  declared in headers that are not part of the sources.  A label is a (type, owner,
  shell-index) tuple with type in OUTLINE, INSET, INFILL, CONNECTION and owner in MODEL,
  SUPPORT; an open path is an ordered sequence of points, \<^verbatim>\<open>fromStart()\<close> pointing at its
  first and \<^verbatim>\<open>fromEnd()\<close> at its last point.  The difference of two points is taken by
  coordinate and the squared magnitude is \<open>x * x + y * y\<close>, in double arithmetic.
\<close>

datatype PathLabelType = TYP_OUTLINE | TYP_INSET | TYP_INFILL | TYP_CONNECTION

datatype PathLabelOwner = OWN_MODEL | OWN_SUPPORT

record PathLabel =
  myType :: PathLabelType
  myOwner :: PathLabelOwner
  myValue :: int

definition isInset :: "PathLabel \<Rightarrow> bool" where
  "isInset l = (myType l = TYP_INSET)"

definition isConnection :: "PathLabel \<Rightarrow> bool" where
  "isConnection l = (myType l = TYP_CONNECTION)"

type_synonym OpenPath = "Point2Type list"

record LabeledOpenPath =
  myPath :: OpenPath
  myLabel :: PathLabel

type_synonym LabeledOpenPaths = "LabeledOpenPath list"

definition pointMinus :: "Point2Type \<Rightarrow> Point2Type \<Rightarrow> Point2Type" where
  "pointMinus p q = \<lparr>pt_x = dsub (pt_x p) (pt_x q), pt_y = dsub (pt_y p) (pt_y q)\<rparr>"

definition squaredMagnitude :: "Point2Type \<Rightarrow> Scalar" where
  "squaredMagnitude p = dadd (dmul (pt_x p) (pt_x p)) (dmul (pt_y p) (pt_y p))"

text \<open>The three settings the Pather constructor copies out of the configuration.\<close>

record PatherConfig =
  doGraphOptimization :: bool
  coarseness :: Scalar
  directionWeight :: Scalar

subsection \<open>cleanPaths\<close>

text \<open>
  The body of the loop of \<^verbatim>\<open>Pather::cleanPaths\<close> for one adjacent pair.  The block guarded
  by \<^verbatim>\<open>if(false)\<close> never runs and is left out.  The body first dereferences
  \<^verbatim>\<open>fromStart()\<close> and \<^verbatim>\<open>fromEnd()\<close> of both paths, which is undefined for an empty path
  (\<open>None\<close>).  The result is the pair as the body leaves it in the list, and whether the
  iterator \<^verbatim>\<open>current\<close> was pushed onto \<^verbatim>\<open>eraseMe\<close>.
\<close>

definition cleanPathsStep ::
  "PatherConfig \<Rightarrow> LabeledOpenPath \<Rightarrow> LabeledOpenPath
     \<Rightarrow> (LabeledOpenPath \<times> LabeledOpenPath \<times> bool) option" where
  "cleanPathsStep patherCfg current nxt =
     (if myPath current = [] \<or> myPath nxt = [] then None
      else
        let currentStart = hd (myPath current);
            currentEnd = last (myPath current);
            nextStart = hd (myPath nxt);
            nextEnd = last (myPath nxt)
        in
          if squaredMagnitude (pointMinus currentEnd nextStart)
               > dmul (coarseness patherCfg) (coarseness patherCfg)
          then Some (current, nxt, False)
          else if (isConnection (myLabel current) \<or> isInset (myLabel current)) \<and>
                  (isConnection (myLabel nxt) \<or> isInset (myLabel nxt))
          then
            if (currentStart = currentEnd \<and> length (myPath current) > 2) \<or>
               (nextStart = nextEnd \<and> length (myPath nxt) > 2)
            then Some (current, nxt, False)
            else
              let current1 = current\<lparr>myPath := myPath current @ tl (myPath nxt)\<rparr>;
                  next1 = (if isInset (myLabel current1)
                           then nxt\<lparr>myLabel := myLabel current1\<rparr> else nxt);
                  next2 = next1\<lparr>myPath := myPath current1\<rparr>
              in Some (current1, next2, True)
          else Some (current, nxt, False))"

text \<open>
  The loop \<^verbatim>\<open>for(++next; next != result.end(); ++current, ++next)\<close>: the list elements as
  the loop leaves them, each with the flag "its iterator is in \<^verbatim>\<open>eraseMe\<close>".
\<close>

fun cleanPathsLoop ::
  "PatherConfig \<Rightarrow> LabeledOpenPath \<Rightarrow> LabeledOpenPaths
     \<Rightarrow> ((LabeledOpenPath \<times> bool) list) option" where
  "cleanPathsLoop patherCfg current [] = Some [(current, False)]"
| "cleanPathsLoop patherCfg current (nxt # rest) =
     (case cleanPathsStep patherCfg current nxt of
        None \<Rightarrow> None
      | Some (current1, next1, erase) \<Rightarrow>
          map_option (\<lambda>marked. (current1, erase) # marked) (cleanPathsLoop patherCfg next1 rest))"

text \<open>
  \<^verbatim>\<open>cleanPaths\<close>: nothing to do on an empty list; otherwise the loop, then every element
  whose iterator was collected in \<^verbatim>\<open>eraseMe\<close> is erased.
\<close>

definition cleanPaths :: "PatherConfig \<Rightarrow> LabeledOpenPaths \<Rightarrow> LabeledOpenPaths option" where
  "cleanPaths patherCfg result =
     (case result of
        [] \<Rightarrow> Some []
      | current # rest \<Rightarrow>
          map_option (\<lambda>marked. map fst (filter (\<lambda>m. \<not> snd m) marked))
            (cleanPathsLoop patherCfg current rest))"

subsection \<open>generatePaths\<close>

text \<open>
  One layer of the skeleton (\<^verbatim>\<open>RegionList\<close> entry).  The loop and path containers are
  left open: \<open>generatePaths\<close> only hands them on.
\<close>

record ('loops, 'paths, 'ranges) LayerRegions =
  layerMeasureId :: nat
  outlines :: 'loops
  supportLoops :: 'loops
  interiorLoops :: 'loops
  insetLoops :: "'loops list"
  spurs :: "'paths list"
  infill :: 'ranges
  support :: 'ranges

datatype axis_e = X_AXIS | Y_AXIS

text \<open>
  The calls that the loop body makes on the optimizer, by the container they pass:
  \<open>FromInsetLoops k\<close> is the \<open>k\<close>-th list of \<open>insetLoops\<close>, added under the shell value
  \<^verbatim>\<open>INSET_LABEL_VALUE + k\<close>.
\<close>

datatype BoundarySource = FromOutlines | FromInteriorLoops | FromOutsetSupportLoops

datatype PathSource = FromSupportRanges | FromInsetLoops nat | FromSpurs nat | FromInfillRanges

datatype OptimizerCall =
    ClearBoundaries
  | ClearPaths
  | AddBoundaries BoundarySource
  | AddPaths PathSource PathLabelType PathLabelOwner
  | Optimize

text \<open>
  The optimizer calls of one pass through the loop body (pather.cc, lines 121 to 229), in
  program order, for a pass in which no call throws.
\<close>

definition layerOptimizerCalls ::
  "GrueConfig \<Rightarrow> ('loops, 'paths, 'ranges) LayerRegions \<Rightarrow> OptimizerCall list" where
  "layerOptimizerCalls grueCfg layerRegions =
     (let hasInfill = (get_doInfills grueCfg \<and> get_infillDensity grueCfg > 0);
          hasSolidLayers = (get_roofLayerCount grueCfg > 0 \<or> get_floorLayerCount grueCfg > 0)
      in [ClearBoundaries, ClearPaths, AddBoundaries FromOutlines]
         @ (if \<not> hasInfill \<and> \<not> hasSolidLayers then [AddBoundaries FromInteriorLoops] else [])
         @ (if get_doRaft grueCfg \<or> get_doSupport grueCfg
            then [AddBoundaries FromOutsetSupportLoops,
                  AddPaths FromSupportRanges TYP_INFILL OWN_SUPPORT]
            else [])
         @ (if get_doInsets grueCfg
            then map (\<lambda>k. AddPaths (FromInsetLoops k) TYP_INSET OWN_MODEL)
                   [0 ..< length (insetLoops layerRegions)]
               @ map (\<lambda>k. AddPaths (FromSpurs k) TYP_INSET OWN_MODEL)
                   [0 ..< length (spurs layerRegions)]
            else [])
         @ (if get_doInfills grueCfg then [AddPaths FromInfillRanges TYP_INFILL OWN_MODEL] else [])
         @ [Optimize])"

text \<open>
  What \<open>generatePaths\<close> decides per processed layer: the value of \<^verbatim>\<open>currentSlice\<close>, the
  raster direction after the flip, the axis chosen from it, and the optimizer calls.
\<close>

record ProcessedLayer =
  sliceIndex :: "32 word"
  direction :: bool
  axis :: axis_e
  optimizerCalls :: "OptimizerCall list"

text \<open>
  The loop over the skeleton.  \<^verbatim>\<open>continue\<close> jumps over the \<^verbatim>\<open>++currentSlice\<close> at the end of
  the body, so a skipped layer leaves \<^verbatim>\<open>currentSlice\<close> as it is; \<^verbatim>\<open>break\<close> ends the loop.
  The flip of \<^verbatim>\<open>direction\<close> comes before every statement that can throw, and the
  \<^verbatim>\<open>catch\<close> sits inside the body: an exception in a layer changes neither the direction
  nor the count.
\<close>

fun generatePathsLoop ::
  "GrueConfig \<Rightarrow> nat \<Rightarrow> nat \<Rightarrow> ('loops, 'paths, 'ranges) LayerRegions list
     \<Rightarrow> 32 word \<Rightarrow> bool \<Rightarrow> ProcessedLayer list" where
  "generatePathsLoop grueCfg firstSliceIdx lastSliceIdx [] currentSlice dir = []"
| "generatePathsLoop grueCfg firstSliceIdx lastSliceIdx (layerRegions # rest) currentSlice dir =
     (if unat currentSlice < firstSliceIdx
      then generatePathsLoop grueCfg firstSliceIdx lastSliceIdx rest currentSlice dir
      else if unat currentSlice > lastSliceIdx then []
      else
        let dir1 = (if get_doRaft grueCfg \<and> currentSlice > 1 \<and>
                       currentSlice < get_raftLayers grueCfg \<and> get_raftAligned grueCfg
                    then dir else \<not> dir)
        in \<lparr>sliceIndex = currentSlice, direction = dir1,
             axis = (if dir1 then X_AXIS else Y_AXIS),
             optimizerCalls = layerOptimizerCalls grueCfg layerRegions\<rparr>
           # generatePathsLoop grueCfg firstSliceIdx lastSliceIdx rest (currentSlice + 1) dir1)"

definition generatePaths ::
  "GrueConfig \<Rightarrow> ('loops, 'paths, 'ranges) LayerRegions list \<Rightarrow> int \<Rightarrow> int
     \<Rightarrow> ProcessedLayer list" where
  "generatePaths grueCfg skeleton sfirstSliceIdx slastSliceIdx =
     (let firstSliceIdx = (if sfirstSliceIdx > 0 then nat sfirstSliceIdx else 0);
          lastSliceIdx = (if slastSliceIdx > 0 then nat slastSliceIdx else 2147483647)
      in generatePathsLoop grueCfg firstSliceIdx lastSliceIdx skeleton 0 False)"

subsection \<open>Notions used in the proofs about cleanPaths\<close>

text \<open>
  These four are not functions of the program.  \<open>joinable\<close> collects the three tests of the
  loop body under which it joins a pair, \<open>joined\<close> is what the body leaves in \<^verbatim>\<open>next\<close> after a
  join, \<open>settled\<close> says that no adjacent pair of a list would be joined, and
  \<open>continues current x\<close> says that \<open>x\<close> is \<open>current\<close> or a path grown from \<open>current\<close> by
  joins (same first point, both labels of a joining type, \<open>current\<close> not a closed loop).
\<close>

definition joinable :: "PatherConfig \<Rightarrow> LabeledOpenPath \<Rightarrow> LabeledOpenPath \<Rightarrow> bool" where
  "joinable patherCfg current nxt =
     (\<not> squaredMagnitude (pointMinus (last (myPath current)) (hd (myPath nxt)))
           > dmul (coarseness patherCfg) (coarseness patherCfg) \<and>
      (isConnection (myLabel current) \<or> isInset (myLabel current)) \<and>
      (isConnection (myLabel nxt) \<or> isInset (myLabel nxt)) \<and>
      \<not> (hd (myPath current) = last (myPath current) \<and> length (myPath current) > 2) \<and>
      \<not> (hd (myPath nxt) = last (myPath nxt) \<and> length (myPath nxt) > 2))"

definition joined :: "LabeledOpenPath \<Rightarrow> LabeledOpenPath \<Rightarrow> LabeledOpenPath" where
  "joined current nxt =
     \<lparr>myPath = myPath current @ tl (myPath nxt),
      myLabel = (if isInset (myLabel current) then myLabel current else myLabel nxt)\<rparr>"

fun settled :: "PatherConfig \<Rightarrow> LabeledOpenPaths \<Rightarrow> bool" where
  "settled patherCfg (a # b # rest) =
     (myPath a \<noteq> [] \<and> myPath b \<noteq> [] \<and> \<not> joinable patherCfg a b \<and> settled patherCfg (b # rest))"
| "settled patherCfg xs = True"

definition continues :: "LabeledOpenPath \<Rightarrow> LabeledOpenPath \<Rightarrow> bool" where
  "continues current x =
     (x = current \<or>
      (myPath x \<noteq> [] \<and> hd (myPath x) = hd (myPath current) \<and>
       (isConnection (myLabel current) \<or> isInset (myLabel current)) \<and>
       (isConnection (myLabel x) \<or> isInset (myLabel x)) \<and>
       \<not> (hd (myPath current) = last (myPath current) \<and> length (myPath current) > 2)))"

section \<open>GCoder (gcoder.cc)\<close>

subsection \<open>Text output\<close>

text \<open>\<^verbatim>\<open>std::endl\<close>, and \<^verbatim>\<open>operator<<\<close> for unsigned numbers and (without \<^verbatim>\<open>boolalpha\<close>) for bool.\<close>

definition endl :: string where
  "endl = [CHR 0x0A]"

fun showNat :: "nat \<Rightarrow> string" where
  "showNat n =
     (if n < 10 then [''0123456789'' ! n]
      else showNat (n div 10) @ [''0123456789'' ! (n mod 10)])"

declare showNat.simps [simp del]

definition showBool :: "bool \<Rightarrow> string" where
  "showBool b = (if b then ''1'' else ''0'')"

subsection \<open>Faults\<close>

text \<open>
  \<open>GcoderException\<close> is the exception class of the GCoder, with its message.  \<open>OutOfRange\<close>
  stands for indexing a \<^verbatim>\<open>std::vector\<close> past its end, which is undefined behaviour and is
  caught by no handler.
\<close>

datatype GcoderFault = GcoderException string | OutOfRange

subsection \<open>polygonLeadInAndLeadOut\<close>

type_synonym Polygon = "Point2Type list"

text \<open>\<^verbatim>\<open>polygon[i]\<close>, and the \<^verbatim>\<open>size_t\<close> subtraction \<^verbatim>\<open>count - k\<close> (64 bits, wrapping).\<close>

definition polygonAt :: "Polygon \<Rightarrow> nat \<Rightarrow> GcoderFault + Point2Type" where
  "polygonAt polygon i = (if i < length polygon then Inr (polygon ! i) else Inl OutOfRange)"

definition sizeMinus :: "nat \<Rightarrow> nat \<Rightarrow> nat" where
  "sizeMinus count k = (count + 18446744073709551616 - k) mod 18446744073709551616"

text \<open>
  The four element accesses come first, in the order of the source; then the test for a
  volumetric extruder.  \<^verbatim>\<open>Point2Type::normalise\<close> is not part of the sources and is a
  parameter.  The result is the pair of the output parameters \<^verbatim>\<open>start\<close> and \<^verbatim>\<open>end\<close>.
\<close>

definition polygonLeadInAndLeadOut ::
  "(Point2Type \<Rightarrow> Point2Type) \<Rightarrow> Polygon \<Rightarrow> Extruder \<Rightarrow> Scalar \<Rightarrow> Scalar
     \<Rightarrow> GcoderFault + (Point2Type \<times> Point2Type)" where
  "polygonLeadInAndLeadOut normalise polygon extruder leadIn leadOut =
     (let count = length polygon in
      case polygonAt polygon 0 of Inl fault \<Rightarrow> Inl fault | Inr a \<Rightarrow>
      case polygonAt polygon 1 of Inl fault \<Rightarrow> Inl fault | Inr b \<Rightarrow>
      case polygonAt polygon (sizeMinus count 2) of Inl fault \<Rightarrow> Inl fault | Inr c \<Rightarrow>
      case polygonAt polygon (sizeMinus count 1) of Inl fault \<Rightarrow> Inl fault | Inr d \<Rightarrow>
        if isVolumetric extruder then Inr (a, d)
        else
          let ab = normalise (pointMinus b a);
              cd = normalise (pointMinus d c)
          in Inr (\<lparr>pt_x = dsub (pt_x a) (dmul (pt_x ab) leadIn),
                    pt_y = dsub (pt_y a) (dmul (pt_y ab) leadIn)\<rparr>,
                  \<lparr>pt_x = dadd (pt_x d) (dmul (pt_x cd) leadOut),
                    pt_y = dadd (pt_y d) (dmul (pt_y cd) leadOut)\<rparr>))"

subsection \<open>Extrusion profiles\<close>

text \<open>\<^verbatim>\<open>grueCfg.get_extruders()[extruderId]\<close> with an \<^verbatim>\<open>unsigned int\<close> index.\<close>

definition extruderAt :: "GrueConfig \<Rightarrow> 32 word \<Rightarrow> GcoderFault + Extruder" where
  "extruderAt grueCfg extruderId =
     (if unat extruderId < length (get_extruders grueCfg)
      then Inr (get_extruders grueCfg ! unat extruderId) else Inl OutOfRange)"

text \<open>
  \<^verbatim>\<open>GCoder::calcInfillExtrusion(unsigned int, unsigned int, Extrusion&)\<close>.  The output
  parameter is written on success only; its incoming value is \<open>extrusion\<close>.
\<close>

definition calcInfillExtrusion ::
  "GrueConfig \<Rightarrow> 32 word \<Rightarrow> 32 word \<Rightarrow> Extrusion \<Rightarrow> GcoderFault + Extrusion" where
  "calcInfillExtrusion grueCfg extruderId sliceId extrusion =
     (case extruderAt grueCfg extruderId of Inl fault \<Rightarrow> Inl fault | Inr extruder \<Rightarrow>
        let profileName = (if sliceId = 0 then firstLayerExtrusionProfile extruder
                           else infillsExtrusionProfile extruder)
        in case get_extrusionProfiles grueCfg profileName of
             None \<Rightarrow> Inl (GcoderException (''Failed to find extrusion profile '' @ profileName))
           | Some it_second \<Rightarrow>
               let extrusion = it_second;
                   extrusion = extrusion\<lparr>feedrate := dmul (feedrate extrusion) (get_scalingFactor grueCfg)\<rparr>
               in Inr extrusion)"

text \<open>
  \<^verbatim>\<open>GCoder::calcInSetExtrusion(unsigned int, unsigned int, unsigned int, unsigned int, Extrusion&)\<close>:
  the profile is assigned in the \<^verbatim>\<open>else\<close> branch and once more after the \<^verbatim>\<open>if\<close>.
\<close>

definition calcInSetExtrusion ::
  "GrueConfig \<Rightarrow> 32 word \<Rightarrow> 32 word \<Rightarrow> 32 word \<Rightarrow> 32 word \<Rightarrow> Extrusion
     \<Rightarrow> GcoderFault + Extrusion" where
  "calcInSetExtrusion grueCfg extruderId sliceId insetId insetCount extrusion =
     (case extruderAt grueCfg extruderId of Inl fault \<Rightarrow> Inl fault | Inr extruder \<Rightarrow>
        let profileName = (if sliceId = 0 then firstLayerExtrusionProfile extruder
                           else insetsExtrusionProfile extruder)
        in case get_extrusionProfiles grueCfg profileName of
             None \<Rightarrow> Inl (GcoderException (''Failed to find extrusion profile '' @ profileName))
           | Some it_second \<Rightarrow>
               let extrusion = it_second;
                   extrusion = it_second;
                   extrusion = extrusion\<lparr>feedrate := dmul (feedrate extrusion) (get_scalingFactor grueCfg)\<rparr>
               in Inr extrusion)"

text \<open>
  The canonical form named by the claim about \<open>calcInSetExtrusion\<close>: the found profile is
  assigned once and its feedrate is scaled.  The second definition is the source with
  the assignment inside the \<^verbatim>\<open>else\<close> branch removed instead: the output parameter is
  first written by the assignment after the \<^verbatim>\<open>if\<close>.
\<close>

definition calcInSetExtrusion_canonical ::
  "GrueConfig \<Rightarrow> 32 word \<Rightarrow> 32 word \<Rightarrow> 32 word \<Rightarrow> 32 word \<Rightarrow> Extrusion
     \<Rightarrow> GcoderFault + Extrusion" where
  "calcInSetExtrusion_canonical grueCfg extruderId sliceId insetId insetCount extrusion =
     (case extruderAt grueCfg extruderId of Inl fault \<Rightarrow> Inl fault | Inr extruder \<Rightarrow>
        let profileName = (if sliceId = 0 then firstLayerExtrusionProfile extruder
                           else insetsExtrusionProfile extruder)
        in case get_extrusionProfiles grueCfg profileName of
             None \<Rightarrow> Inl (GcoderException (''Failed to find extrusion profile '' @ profileName))
           | Some it_second \<Rightarrow>
               Inr (it_second\<lparr>feedrate := dmul (feedrate it_second) (get_scalingFactor grueCfg)\<rparr>))"

definition calcInSetExtrusion_without_first ::
  "GrueConfig \<Rightarrow> 32 word \<Rightarrow> 32 word \<Rightarrow> 32 word \<Rightarrow> 32 word \<Rightarrow> Extrusion
     \<Rightarrow> GcoderFault + Extrusion" where
  "calcInSetExtrusion_without_first grueCfg extruderId sliceId insetId insetCount extrusion =
     (case extruderAt grueCfg extruderId of Inl fault \<Rightarrow> Inl fault | Inr extruder \<Rightarrow>
        let profileName = (if sliceId = 0 then firstLayerExtrusionProfile extruder
                           else insetsExtrusionProfile extruder)
        in case get_extrusionProfiles grueCfg profileName of
             None \<Rightarrow> Inl (GcoderException (''Failed to find extrusion profile '' @ profileName))
           | Some it_second \<Rightarrow>
               let extrusion = it_second;
                   extrusion = extrusion\<lparr>feedrate := dmul (feedrate extrusion) (get_scalingFactor grueCfg)\<rparr>
               in Inr extrusion)"

text \<open>
  \<^verbatim>\<open>GCoder::calcInSetExtrusion(const LayerPaths&, unsigned int, const_layer_iterator, const_inset_iterator, Extrusion&)\<close>,
  the overload that \<open>writeInsets\<close> calls.  \<open>isFirstLayer\<close> is the test
  \<^verbatim>\<open>layerId == layerpaths.begin()\<close>; the other layers use the infill profile name.
\<close>

definition calcInSetExtrusionOfLayer ::
  "GrueConfig \<Rightarrow> 32 word \<Rightarrow> bool \<Rightarrow> Extrusion \<Rightarrow> GcoderFault + Extrusion" where
  "calcInSetExtrusionOfLayer grueCfg extruderId isFirstLayer extrusionParams =
     (case extruderAt grueCfg extruderId of Inl fault \<Rightarrow> Inl fault | Inr extruder \<Rightarrow>
        let profileName = (if isFirstLayer then firstLayerExtrusionProfile extruder
                           else infillsExtrusionProfile extruder)
        in case get_extrusionProfiles grueCfg profileName of
             None \<Rightarrow> Inl (GcoderException (''Failed to find extrusion profile '' @ profileName))
           | Some it_second \<Rightarrow>
               let extrusionParams = it_second;
                   extrusionParams = extrusionParams
                     \<lparr>feedrate := dmul (feedrate extrusionParams) (get_scalingFactor grueCfg)\<rparr>
               in Inr extrusionParams)"

subsection \<open>The emitter state and the group writers\<close>

text \<open>
  What an emitting function acts on: the G-code stream \<open>gout\<close> (the \<^verbatim>\<open>std::ostream\<close> passed
  along as \<^verbatim>\<open>ss\<close>), the two log streams \<^verbatim>\<open>Log::info()\<close> and \<^verbatim>\<open>Log::severe()\<close>, the
  gantry, whose class is not part of the sources (\<open>'g\<close>), and the three progress counters
  of the GCoder object.  An emitting function returns the state it leaves and the fault
  it throws, if any: what was written before a throw stays written.
\<close>

record 'g GCoderState =
  gout :: string
  logInfo :: string
  logSevere :: string
  gantry :: 'g
  progressTotal :: nat
  progressCurrent :: nat
  progressPercent :: nat

type_synonym 'g Emitter = "'g GCoderState \<Rightarrow> 'g GCoderState \<times> GcoderFault option"

definition andThen :: "'g Emitter \<Rightarrow> 'g Emitter \<Rightarrow> 'g Emitter" where
  "andThen first second st =
     (case first st of (st1, None) \<Rightarrow> second st1 | (st1, Some fault) \<Rightarrow> (st1, Some fault))"

fun forEach :: "('a \<Rightarrow> 'g Emitter) \<Rightarrow> 'a list \<Rightarrow> 'g Emitter" where
  "forEach body [] st = (st, None)"
| "forEach body (item # rest) st =
     (case body item st of
        (st1, None) \<Rightarrow> forEach body rest st1
      | (st1, Some fault) \<Rightarrow> (st1, Some fault))"

definition emit :: "string \<Rightarrow> 'g Emitter" where
  "emit txt st = (st\<lparr>gout := gout st @ txt\<rparr>, None)"

definition noop :: "'g Emitter" where
  "noop st = (st, None)"

text \<open>
  The paths of one extruder on one layer, by group (\<^verbatim>\<open>LayerPaths::Layer::ExtruderLayer\<close>;
  \<open>layerExtruderId\<close> is its member \<^verbatim>\<open>extruderId\<close> and \<open>extruderPaths\<close> its member
  \<^verbatim>\<open>paths\<close>, the labeled paths that the Pather produced), and a layer
  (\<^verbatim>\<open>LayerPaths::Layer\<close>).
\<close>

record 'p ExtruderLayer =
  layerExtruderId :: nat
  extruderPaths :: LabeledOpenPaths
  outlinePaths :: "'p list"
  insetPaths :: "'p list list"
  infillPaths :: "'p list"
  supportPaths :: "'p list"

record 'p Layer =
  layerZ :: Scalar
  layerHeight :: Scalar
  layerW :: Scalar
  extruders :: "'p ExtruderLayer list"

text \<open>
  The handler \<^verbatim>\<open>catch (GcoderException& mixup)\<close> of the group writers: the message goes
  to \<^verbatim>\<open>Log::info()\<close> and \<^verbatim>\<open>Log::severe()\<close>, the function returns normally.  Any other fault
  passes through.
\<close>

definition catchGcoderException :: "(string \<Rightarrow> string) \<Rightarrow> 'g Emitter \<Rightarrow> 'g Emitter" where
  "catchGcoderException errormsg tryBlock st =
     (case tryBlock st of
        (st1, Some (GcoderException mixup_error)) \<Rightarrow>
          (st1\<lparr>logInfo := logInfo st1 @ errormsg mixup_error,
                logSevere := logSevere st1 @ errormsg mixup_error\<rparr>, None)
      | other \<Rightarrow> other)"

text \<open>
  The group writers.  \<^verbatim>\<open>Gantry::snort\<close> and \<^verbatim>\<open>GCoder::writePath\<close> are not part of the sources
  and are parameters.  \<open>sliceId\<close> is a \<^verbatim>\<open>size_t\<close> that \<open>calcInfillExtrusion\<close> receives as
  \<^verbatim>\<open>unsigned int\<close>.
\<close>

definition writeInfills ::
  "(Extruder \<Rightarrow> Extrusion \<Rightarrow> 'g Emitter)
   \<Rightarrow> (Scalar \<Rightarrow> Scalar \<Rightarrow> Scalar \<Rightarrow> Extruder \<Rightarrow> Extrusion \<Rightarrow> 'p \<Rightarrow> 'g Emitter)
   \<Rightarrow> GrueConfig \<Rightarrow> Scalar \<Rightarrow> Scalar \<Rightarrow> Scalar \<Rightarrow> nat \<Rightarrow> Extruder \<Rightarrow> 'p ExtruderLayer
   \<Rightarrow> 'g Emitter" where
  "writeInfills snort writePath grueCfg z h w sliceId extruder paths =
     catchGcoderException
       (\<lambda>mixup_error. endl @ ''ERROR writing infills in slice '' @ showNat sliceId @
          '' for extruder '' @ showNat (extruder_id extruder) @ '' : '' @ mixup_error @ endl)
       (andThen (emit (''(infills: '' @ showNat (length (infillPaths paths)) @ '')'' @ endl))
          (\<lambda>st. case calcInfillExtrusion grueCfg (word_of_nat (extruder_id extruder))
                        (word_of_nat sliceId) \<lparr>feedrate = 0, extrusionWidth = 0\<rparr> of
                   Inl fault \<Rightarrow> (st, Some fault)
                 | Inr extrusion \<Rightarrow>
                     andThen (snort extruder extrusion)
                       (andThen (forEach (writePath z h w extruder extrusion) (infillPaths paths))
                          (snort extruder extrusion)) st))"

definition writeSupport ::
  "(Extruder \<Rightarrow> Extrusion \<Rightarrow> 'g Emitter)
   \<Rightarrow> (Scalar \<Rightarrow> Scalar \<Rightarrow> Scalar \<Rightarrow> Extruder \<Rightarrow> Extrusion \<Rightarrow> 'p \<Rightarrow> 'g Emitter)
   \<Rightarrow> GrueConfig \<Rightarrow> Scalar \<Rightarrow> Scalar \<Rightarrow> Scalar \<Rightarrow> nat \<Rightarrow> Extruder \<Rightarrow> 'p ExtruderLayer
   \<Rightarrow> 'g Emitter" where
  "writeSupport snort writePath grueCfg z h w sliceId extruder paths =
     catchGcoderException
       (\<lambda>mixup_error. ''ERROR writing support in slice '' @ showNat sliceId @
          '' for extruder '' @ showNat (extruder_id extruder) @ '' : '' @ mixup_error @ endl)
       (andThen (emit (''(support: '' @ showNat (length (supportPaths paths)) @ '')'' @ endl))
          (\<lambda>st. case calcInfillExtrusion grueCfg (word_of_nat (extruder_id extruder))
                        (word_of_nat sliceId) \<lparr>feedrate = 0, extrusionWidth = 0\<rparr> of
                   Inl fault \<Rightarrow> (st, Some fault)
                 | Inr extrusion \<Rightarrow>
                     andThen (snort extruder extrusion)
                       (andThen (forEach (writePath z h w extruder extrusion) (supportPaths paths))
                          (snort extruder extrusion)) st))"

definition writeOutlines ::
  "(Extruder \<Rightarrow> Extrusion \<Rightarrow> 'g Emitter)
   \<Rightarrow> (Scalar \<Rightarrow> Scalar \<Rightarrow> Scalar \<Rightarrow> Extruder \<Rightarrow> Extrusion \<Rightarrow> 'p \<Rightarrow> 'g Emitter)
   \<Rightarrow> GrueConfig \<Rightarrow> Scalar \<Rightarrow> Scalar \<Rightarrow> Scalar \<Rightarrow> nat \<Rightarrow> Extruder \<Rightarrow> 'p ExtruderLayer
   \<Rightarrow> 'g Emitter" where
  "writeOutlines snort writePath grueCfg z h w sliceId extruder paths =
     catchGcoderException
       (\<lambda>mixup_error. endl @ ''ERROR writing outlines in slice '' @ showNat sliceId @
          '' for extruder '' @ showNat (extruder_id extruder) @ '' : '' @ mixup_error @ endl)
       (andThen (emit (''(outlines: '' @ showNat (length (outlinePaths paths)) @ '')'' @ endl))
          (\<lambda>st. case calcInfillExtrusion grueCfg (word_of_nat (extruder_id extruder))
                        (word_of_nat sliceId) \<lparr>feedrate = 0, extrusionWidth = 0\<rparr> of
                   Inl fault \<Rightarrow> (st, Some fault)
                 | Inr extrusion \<Rightarrow>
                     andThen (snort extruder extrusion)
                       (forEach (writePath z h w extruder extrusion) (outlinePaths paths)) st))"

text \<open>
  \<open>writeInsets\<close> looks the profile up before the first \<^verbatim>\<open>snort\<close>, once per inset inside
  the loop, and once more after it; every lookup overwrites the same local
  \<^verbatim>\<open>Extrusion\<close>.
\<close>

definition writeInsets ::
  "(Extruder \<Rightarrow> Extrusion \<Rightarrow> 'g Emitter)
   \<Rightarrow> (Scalar \<Rightarrow> Scalar \<Rightarrow> Scalar \<Rightarrow> Extruder \<Rightarrow> Extrusion \<Rightarrow> 'p \<Rightarrow> 'g Emitter)
   \<Rightarrow> GrueConfig \<Rightarrow> Scalar \<Rightarrow> Scalar \<Rightarrow> Scalar \<Rightarrow> nat \<Rightarrow> Extruder \<Rightarrow> bool \<Rightarrow> 'p ExtruderLayer
   \<Rightarrow> 'g Emitter" where
  "writeInsets snort writePath grueCfg z h w sliceId extruder isFirstLayer paths =
     catchGcoderException
       (\<lambda>mixup_error. endl @ ''ERROR writing insets in slice '' @ showNat sliceId @
          '' for extruder '' @ showNat (extruder_id extruder) @ '' : '' @ mixup_error @ endl)
       (andThen (emit (''(insets: '' @ showNat (length (insetPaths paths)) @ '')'' @ endl))
          (\<lambda>st. case calcInSetExtrusionOfLayer grueCfg (word_of_nat (extruder_id extruder))
                        isFirstLayer \<lparr>feedrate = 0, extrusionWidth = 0\<rparr> of
                   Inl fault \<Rightarrow> (st, Some fault)
                 | Inr extrusion \<Rightarrow>
                     andThen (snort extruder extrusion)
                       (andThen
                          (forEach
                             (\<lambda>i st1. case calcInSetExtrusionOfLayer grueCfg
                                             (word_of_nat (extruder_id extruder)) isFirstLayer extrusion of
                                         Inl fault \<Rightarrow> (st1, Some fault)
                                       | Inr extrusion1 \<Rightarrow>
                                           forEach (writePath z h w extruder extrusion1) i st1)
                             (insetPaths paths))
                          (\<lambda>st1. case calcInSetExtrusionOfLayer grueCfg
                                         (word_of_nat (extruder_id extruder)) isFirstLayer extrusion of
                                     Inl fault \<Rightarrow> (st1, Some fault)
                                   | Inr extrusion1 \<Rightarrow> snort extruder extrusion1 st1)) st))"

text \<open>
  The four group calls that \<open>writeSlice\<close> makes for one extruder of a layer (gcoder.cc,
  lines 627 to 642), each behind its configuration switch.
\<close>

definition writeSliceGroups ::
  "(Extruder \<Rightarrow> Extrusion \<Rightarrow> 'g Emitter)
   \<Rightarrow> (Scalar \<Rightarrow> Scalar \<Rightarrow> Scalar \<Rightarrow> Extruder \<Rightarrow> Extrusion \<Rightarrow> 'p \<Rightarrow> 'g Emitter)
   \<Rightarrow> GrueConfig \<Rightarrow> Scalar \<Rightarrow> Scalar \<Rightarrow> Scalar \<Rightarrow> nat \<Rightarrow> Extruder \<Rightarrow> bool \<Rightarrow> 'p ExtruderLayer
   \<Rightarrow> 'g Emitter" where
  "writeSliceGroups snort writePath grueCfg currentZ currentH currentW layerSequence
       currentExtruder isFirstLayer paths =
     andThen
       (if get_doOutlines grueCfg
        then writeOutlines snort writePath grueCfg currentZ currentH currentW layerSequence
               currentExtruder paths
        else noop)
       (andThen
          (if get_doInsets grueCfg
           then writeInsets snort writePath grueCfg currentZ currentH currentW layerSequence
                  currentExtruder isFirstLayer paths
           else noop)
          (andThen
             (if get_doInfills grueCfg
              then writeInfills snort writePath grueCfg currentZ currentH currentW layerSequence
                     currentExtruder paths
              else noop)
             (if get_doSupport grueCfg
              then writeSupport snort writePath grueCfg currentZ currentH currentW layerSequence
                     currentExtruder paths
              else noop)))"

subsection \<open>The file header\<close>

text \<open>
  \<open>writeGCodeConfig\<close> appends the configuration comment block to the stream.  The program
  name, the version string and the reading of the clock (\<^verbatim>\<open>hal9000.clock.now()\<close>, a value of
  the environment at the time of the run) come from code that is not part of the
  sources and are parameters.
\<close>

definition writeGCodeConfig ::
  "string \<Rightarrow> string \<Rightarrow> string \<Rightarrow> GrueConfig \<Rightarrow> string \<Rightarrow> string \<Rightarrow> string" where
  "writeGCodeConfig programName versionStr clockNow grueCfg title ss =
     (let indent = ''* '';
          plurial = (if length (get_extruders grueCfg) \<noteq> 0 then [] else ''s'')
      in ss @ endl
         @ ''(Makerbot Industries)'' @ endl
         @ ''(This file contains digital fabrication directives in gcode format)'' @ endl
         @ ''(For your 3D printer)'' @ endl
         @ ''(http://wiki.makerbot.com/gcode)'' @ endl
         @ ''('' @ indent @ ''Generated by '' @ programName @ '' '' @ versionStr @ '')'' @ endl
         @ ''('' @ indent @ clockNow @ '')'' @ endl
         @ ''('' @ indent @ title @ '')'' @ endl
         @ ''('' @ indent @ showNat (length (get_extruders grueCfg)) @ '' extruder'' @ plurial
             @ '')'' @ endl
         @ ''('' @ indent @ ''Extrude infills: '' @ showBool (get_doInfills grueCfg) @ '')'' @ endl
         @ ''('' @ indent @ ''Extrude insets: '' @ showBool (get_doInsets grueCfg) @ '')'' @ endl
         @ ''('' @ indent @ ''Extrude outlines: '' @ showBool (get_doOutlines grueCfg) @ '')'' @ endl
         @ endl)"

text \<open>
  \<open>writeStartDotGCode\<close>: the configuration block, then the header file copied verbatim
  between two marker lines.  Its two formatting calls (\<^verbatim>\<open>precision(3)\<close>, \<^verbatim>\<open>ios::fixed\<close>) set
  how the stream prints a double; no double is printed here.  \<open>files\<close> maps a path to what reading the file gives: \<open>None\<close>
  when it cannot be opened, otherwise the bytes read and whether the reading ended in a
  failure other than the end of the file.  The result is the stream and the exception
  thrown, if any.
\<close>

definition writeStartDotGCode ::
  "string \<Rightarrow> string \<Rightarrow> string \<Rightarrow> (string \<rightharpoonup> string \<times> bool) \<Rightarrow> GrueConfig \<Rightarrow> string \<Rightarrow> string
     \<Rightarrow> string \<times> GcoderFault option" where
  "writeStartDotGCode programName versionStr clockNow files grueCfg sourceName stream =
     (let gout1 = writeGCodeConfig programName versionStr clockNow grueCfg sourceName stream;
          header_file = get_header grueCfg
      in if length header_file > 0 then
           (case files header_file of
              None \<Rightarrow> (gout1, Some (GcoderException
                          (''Unable to open gcode header file ['' @ header_file @ '']'')))
            | Some (content, readFailed) \<Rightarrow>
                let gout2 = gout1 @ ''(header ['' @ header_file @ ''] begin)'' @ endl @ content
                in if readFailed
                   then (gout2, Some (GcoderException
                           (''Error reading gcode header file ['' @ header_file @ '']'')))
                   else (gout2 @ ''(header ['' @ header_file @ ''] end)'' @ endl @ endl, None))
         else (gout1, None))"

text \<open>
  \<open>writeEndDotGCode\<close>: the footer file copied verbatim between two marker lines.
\<close>

definition writeEndDotGCode ::
  "(string \<rightharpoonup> string \<times> bool) \<Rightarrow> GrueConfig \<Rightarrow> string \<Rightarrow> string \<times> GcoderFault option" where
  "writeEndDotGCode files grueCfg ss =
     (let footer_file = get_footer grueCfg
      in if length footer_file > 0 then
           (case files footer_file of
              None \<Rightarrow> (ss, Some (GcoderException
                          (''Unable to open footer file ['' @ footer_file @ '']'')))
            | Some (content, readFailed) \<Rightarrow>
                let ss1 = ss @ ''(footer ['' @ footer_file @ ''] begin)'' @ endl @ content
                in if readFailed
                   then (ss1, Some (GcoderException
                           (''Error reading footer file ['' @ footer_file @ '']'')))
                   else (ss1 @ ''(footer ['' @ footer_file @ ''] end)'' @ endl @ endl, None))
         else (ss, None))"

subsection \<open>Slices and the whole file\<close>

text \<open>
  The code that \<open>writeSlice\<close> and \<open>writeGcodeFile\<close> call and that is not part of the
  sources: the methods of the gantry, \<^verbatim>\<open>GCoder::writePath\<close> and \<^verbatim>\<open>GCoder::writePaths\<close>, the
  progress bar of \<^verbatim>\<open>Progressive\<close>, the formatting of a double by \<^verbatim>\<open>operator<<\<close> (fixed,
  precision 3), the program name and version, and the default constructor of
  \<^verbatim>\<open>Point2Type\<close>.  They are the fields of one record of parameters.
\<close>

record ('g, 'p) Callees =
  gantry_snort :: "Extruder \<Rightarrow> Extrusion \<Rightarrow> 'g Emitter"
  gantry_squirt :: "Extruder \<Rightarrow> Extrusion \<Rightarrow> 'g Emitter"
  gantry_g1 :: "Extruder \<Rightarrow> Extrusion \<Rightarrow> Scalar \<Rightarrow> Scalar \<Rightarrow> Scalar \<Rightarrow> Scalar \<Rightarrow> Scalar \<Rightarrow> Scalar
                  \<Rightarrow> string \<Rightarrow> 'g Emitter"
  gantry_g1Motion :: "Scalar \<Rightarrow> Scalar \<Rightarrow> Scalar \<Rightarrow> Scalar \<Rightarrow> Scalar \<Rightarrow> Scalar \<Rightarrow> Scalar \<Rightarrow> string
                  \<Rightarrow> bool \<Rightarrow> bool \<Rightarrow> bool \<Rightarrow> bool \<Rightarrow> bool \<Rightarrow> 'g Emitter"
  gantry_set_current_extruder_index :: "nat \<Rightarrow> 'g Emitter"
  gcoder_writePath :: "Scalar \<Rightarrow> Scalar \<Rightarrow> Scalar \<Rightarrow> Extruder \<Rightarrow> Extrusion \<Rightarrow> 'p \<Rightarrow> 'g Emitter"
  gcoder_writePaths :: "Scalar \<Rightarrow> Scalar \<Rightarrow> Scalar \<Rightarrow> nat \<Rightarrow> Extruder \<Rightarrow> LabeledOpenPaths
                  \<Rightarrow> 'g Emitter"
  progressive_initProgress :: "string \<Rightarrow> nat \<Rightarrow> 'g Emitter"
  progressive_tick :: "'g Emitter"
  showScalar :: "Scalar \<Rightarrow> string"
  getMiracleGrueProgramName :: string
  getMiracleGrueVersionStr :: string
  defaultPoint :: Point2Type

text \<open>\<^verbatim>\<open>plural(noun, count)\<close> with the default ending.\<close>

definition plural :: "string \<Rightarrow> int \<Rightarrow> string" where
  "plural noun count = (if count > 1 then noun @ ''s'' else noun)"

text \<open>\<open>moveZ\<close>; its third argument has no name and is not used.\<close>

definition moveZ :: "('g, 'p) Callees \<Rightarrow> Scalar \<Rightarrow> nat \<Rightarrow> Scalar \<Rightarrow> 'g Emitter" where
  "moveZ ext z extruderId zFeedrate =
     gantry_g1Motion ext 0 0 z 0 zFeedrate 0 0 ''move Z'' False False True False True"

text \<open>
  The handler around the call of \<open>moveZ\<close> in \<open>writeSlice\<close>: the message goes to
  \<^verbatim>\<open>Log::info()\<close> only.
\<close>

definition catchGcoderExceptionInfo :: "(string \<Rightarrow> string) \<Rightarrow> 'g Emitter \<Rightarrow> 'g Emitter" where
  "catchGcoderExceptionInfo errormsg tryBlock st =
     (case tryBlock st of
        (st1, Some (GcoderException mixup_error)) \<Rightarrow>
          (st1\<lparr>logInfo := logInfo st1 @ errormsg mixup_error\<rparr>, None)
      | other \<Rightarrow> other)"

text \<open>
  The body of the loop of \<open>writeSlice\<close> over the extruders of the layer, for the extruder
  layer \<open>it\<close>.  \<open>isFirstLayer\<close> is the test \<^verbatim>\<open>layerId == layerpaths.begin()\<close> that
  \<open>writeInsets\<close> hands to \<open>calcInSetExtrusion\<close>.
\<close>

definition writeSliceExtruder ::
  "('g, 'p) Callees \<Rightarrow> GrueConfig \<Rightarrow> bool \<Rightarrow> 'p Layer \<Rightarrow> nat \<Rightarrow> 'p ExtruderLayer \<Rightarrow> 'g Emitter" where
  "writeSliceExtruder ext grueCfg isFirstLayer currentLayer layerSequence it =
     (if layerExtruderId it < length (get_extruders grueCfg) then
        let currentExtruder = get_extruders grueCfg ! layerExtruderId it;
            zFeedrate = dmul (get_scalingFactor grueCfg) (get_rapidMoveFeedRateZ grueCfg);
            currentZ = dadd (layerZ currentLayer) (layerHeight currentLayer);
            currentH = layerHeight currentLayer;
            currentW = layerW currentLayer
        in andThen (gantry_set_current_extruder_index ext (code currentExtruder))
          (andThen
             (catchGcoderExceptionInfo
                (\<lambda>mixup_error. ''ERROR writing Z move in slice '' @ showNat layerSequence @
                   '' for extruder '' @ showNat (extruder_id currentExtruder) @ '' : '' @
                   mixup_error @ endl)
                (moveZ ext currentZ (extruder_id currentExtruder) zFeedrate))
          (andThen
             (writeSliceGroups (gantry_snort ext) (gcoder_writePath ext) grueCfg
                currentZ currentH currentW layerSequence currentExtruder isFirstLayer it)
             (gcoder_writePaths ext currentZ currentH currentW layerSequence currentExtruder
                (extruderPaths it))))
      else (\<lambda>st. (st, Some OutOfRange)))"

definition writeSlice ::
  "('g, 'p) Callees \<Rightarrow> GrueConfig \<Rightarrow> bool \<Rightarrow> 'p Layer \<Rightarrow> nat \<Rightarrow> 'g Emitter" where
  "writeSlice ext grueCfg isFirstLayer currentLayer layerSequence =
     (let extruderCount = (word_of_nat (length (extruders currentLayer)) :: 32 word)
      in andThen
           (emit (''(Slice '' @ showNat layerSequence @ '', '' @ showNat (unat extruderCount) @
                  '' '' @ plural ''Extruder'' (sint extruderCount) @ '') '' @ endl))
        (andThen
           (emit (''(Layer Height: '' @ [CHR 0x09] @ showScalar ext (layerHeight currentLayer) @
                  '')'' @ endl))
        (andThen
           (emit (''(Layer Width: '' @ [CHR 0x09] @ showScalar ext (layerW currentLayer) @
                  '')'' @ endl))
        (andThen
           (if get_doPrintLayerMessages grueCfg
            then emit (''M70 P20 (Layer: '' @ showNat layerSequence @ '')'' @ endl) else noop)
        (andThen
           (if get_doFanCommand grueCfg \<and> layerSequence = get_fanLayer grueCfg
            then emit (''M126 T'' @ showNat (get_defaultExtruder grueCfg) @
                       '' (Turn on the fan)'' @ endl)
            else noop)
           (forEach (writeSliceExtruder ext grueCfg isFirstLayer currentLayer layerSequence)
              (extruders currentLayer)))))))"

text \<open>
  The anchor that \<open>writeGcodeFile\<close> writes before the first slice when
  \<^verbatim>\<open>get_doAnchor()\<close> is set.  \<^verbatim>\<open>it->extruders.front()\<close> is undefined on a layer without
  extruders.  The call of \<open>calcInfillExtrusion\<close> is inside no \<^verbatim>\<open>try\<close> block: its exception
  leaves \<open>writeGcodeFile\<close>.
\<close>

definition writeAnchor :: "('g, 'p) Callees \<Rightarrow> GrueConfig \<Rightarrow> 'p Layer \<Rightarrow> 'g Emitter" where
  "writeAnchor ext grueCfg it =
     (case extruders it of
        [] \<Rightarrow> (\<lambda>st. (st, Some OutOfRange))
      | front # others \<Rightarrow>
          if layerExtruderId front < length (get_extruders grueCfg) then
            let struder = get_extruders grueCfg ! layerExtruderId front in
            (\<lambda>st. case calcInfillExtrusion grueCfg (word_of_nat (extruder_id struder)) 0
                          \<lparr>feedrate = 0, extrusionWidth = 0\<rparr> of
                     Inl fault \<Rightarrow> (st, Some fault)
                   | Inr strusion \<Rightarrow>
                       let startPoint =
                             (case extruderPaths front of
                                [] \<Rightarrow> defaultPoint ext
                              | path # paths \<Rightarrow>
                                  (case myPath path of [] \<Rightarrow> defaultPoint ext | pt # pts \<Rightarrow> pt));
                           currentZ = dadd (layerZ it) (layerHeight it);
                           currentH = layerHeight it;
                           currentW = dmul (layerW it) 2
                       in andThen (gantry_set_current_extruder_index ext (code struder))
                         (andThen (gantry_snort ext struder strusion)
                         (andThen (gantry_g1 ext struder strusion (get_startingX grueCfg)
                                     (get_startingY grueCfg) currentZ (feedrate strusion)
                                     currentH currentW ''(Anchor Start)'')
                         (andThen (gantry_squirt ext struder strusion)
                         (andThen (gantry_g1 ext struder strusion (get_startingX grueCfg)
                                     (get_startingY grueCfg) currentZ (feedrate strusion)
                                     currentH currentW ''(Anchor Start)'')
                                  (gantry_g1 ext struder strusion (pt_x startPoint)
                                     (pt_y startPoint) currentZ (feedrate strusion)
                                     currentH currentW ''(Anchor End)''))))) st)
          else (\<lambda>st. (st, Some OutOfRange)))"

text \<open>
  The second loop of \<open>writeGcodeFile\<close>, over the layers from \<^verbatim>\<open>begin\<close> to \<^verbatim>\<open>end\<close>.  \<open>pos\<close> is
  the position of the layer \<open>it\<close> in \<^verbatim>\<open>layerpaths\<close>, so that \<open>pos = 0\<close> is the test
  \<^verbatim>\<open>it == layerpaths.begin()\<close>; \<open>layerSequence\<close> counts from \<^verbatim>\<open>begin\<close>.
\<close>

fun writeLayers ::
  "('g, 'p) Callees \<Rightarrow> GrueConfig \<Rightarrow> nat \<Rightarrow> nat \<Rightarrow> 'p Layer list \<Rightarrow> 'g Emitter" where
  "writeLayers ext grueCfg pos layerSequence [] st = (st, None)"
| "writeLayers ext grueCfg pos layerSequence (it # rest) st =
     andThen (progressive_tick ext)
       (andThen
          (if get_doAnchor grueCfg \<and> layerSequence = 0 then writeAnchor ext grueCfg it else noop)
       (andThen (writeSlice ext grueCfg (pos = 0) it layerSequence)
          (writeLayers ext grueCfg (Suc pos) (Suc layerSequence) rest))) st"

text \<open>The first loop of \<open>writeGcodeFile\<close>: the number of points of all labeled paths.\<close>

definition countProgress :: "'p Layer list \<Rightarrow> nat" where
  "countProgress layers =
     sum_list (map (\<lambda>it. sum_list (map (\<lambda>exit. sum_list (map (\<lambda>pathiter. length (myPath pathiter))
                                                             (extruderPaths exit)))
                                     (extruders it)))
                layers)"

text \<open>A function on the stream alone, as a step of an emitting function.\<close>

definition liftStream :: "(string \<Rightarrow> string \<times> GcoderFault option) \<Rightarrow> 'g Emitter" where
  "liftStream f st = (case f (gout st) of (out, fault) \<Rightarrow> (st\<lparr>gout := out\<rparr>, fault))"

text \<open>
  \<open>writeGcodeFile\<close> with six arguments (here \<open>writeGcodeFileRange\<close>): the iterators \<^verbatim>\<open>begin\<close>
  and \<^verbatim>\<open>end\<close> are the positions \<open>beginPos\<close> and \<open>endPos\<close> in \<open>layerpaths\<close>; a range that is not
  one of \<open>layerpaths\<close> is undefined behaviour.  \<open>clockNow\<close> is the reading of the clock and
  \<open>files\<close> the content of the file system.  The overload with four arguments passes the
  whole of \<open>layerpaths\<close>.
\<close>

definition writeGcodeFileRange ::
  "('g, 'p) Callees \<Rightarrow> string \<Rightarrow> (string \<rightharpoonup> string \<times> bool) \<Rightarrow> GrueConfig \<Rightarrow> 'p Layer list
     \<Rightarrow> string \<Rightarrow> nat \<Rightarrow> nat \<Rightarrow> 'g Emitter" where
  "writeGcodeFileRange ext clockNow files grueCfg layerpaths title beginPos endPos =
     andThen
       (liftStream (writeStartDotGCode (getMiracleGrueProgramName ext)
                      (getMiracleGrueVersionStr ext) clockNow files grueCfg title))
       (if beginPos \<le> endPos \<and> endPos \<le> length layerpaths then
          let layers = take (endPos - beginPos) (drop beginPos layerpaths) in
          andThen (\<lambda>st. (st\<lparr>progressTotal := 1 + countProgress layers,
                             progressCurrent := 0, progressPercent := 0\<rparr>, None))
         (andThen (progressive_initProgress ext ''gcode'' (length layers))
         (andThen (writeLayers ext grueCfg beginPos 0 layers)
         (andThen
            (if get_doFanCommand grueCfg
             then emit (''M127 T'' @ showNat (get_defaultExtruder grueCfg) @
                        '' (Turn off the fan)'' @ endl)
             else noop)
            (liftStream (writeEndDotGCode files grueCfg)))))
        else (\<lambda>st. (st, Some OutOfRange)))"

definition writeGcodeFile ::
  "('g, 'p) Callees \<Rightarrow> string \<Rightarrow> (string \<rightharpoonup> string \<times> bool) \<Rightarrow> GrueConfig \<Rightarrow> 'p Layer list
     \<Rightarrow> string \<Rightarrow> 'g Emitter" where
  "writeGcodeFile ext clockNow files grueCfg layerpaths title =
     writeGcodeFileRange ext clockNow files grueCfg layerpaths title 0 (length layerpaths)"

subsection \<open>Notions used in the statements about the GCoder\<close>






definition appendsOnly :: "'g Emitter \<Rightarrow> bool" where
  "appendsOnly e =
     (\<forall>st pre. e (st\<lparr>gout := pre\<rparr>) =
        (case e (st\<lparr>gout := []\<rparr>) of (st1, fault) \<Rightarrow> (st1\<lparr>gout := pre @ gout st1\<rparr>, fault)))"

definition calleesAppend :: "('g, 'p) Callees \<Rightarrow> bool" where
  "calleesAppend ext =
     ((\<forall>a b. appendsOnly (gantry_snort ext a b)) \<and>
      (\<forall>a b. appendsOnly (gantry_squirt ext a b)) \<and>
      (\<forall>a b c d e f g h i. appendsOnly (gantry_g1 ext a b c d e f g h i)) \<and>
      (\<forall>a b c d e f g h i j k l m. appendsOnly (gantry_g1Motion ext a b c d e f g h i j k l m)) \<and>
      (\<forall>a. appendsOnly (gantry_set_current_extruder_index ext a)) \<and>
      (\<forall>a b c d e f. appendsOnly (gcoder_writePath ext a b c d e f)) \<and>
      (\<forall>a b c d e f. appendsOnly (gcoder_writePaths ext a b c d e f)) \<and>
      (\<forall>a b. appendsOnly (progressive_initProgress ext a b)) \<and>
      appendsOnly (progressive_tick ext))"


section \<open>Concrete inputs\<close>

text \<open>
  A configuration and a layer on which the theorems below are evaluated: one extruder,
  profiles for the first layer and for insets only (the names \<open>outlines\<close> and \<open>infill\<close> are
  not in the profile map), scaling factor \<open>2\<close>.
\<close>

definition exampleConfig :: GrueConfig where
  "exampleConfig =
     \<lparr>get_doGraphOptimization = False, get_coarseness = 1, get_directionWeight = 1,
      get_doRaft = False, get_raftLayers = 0, get_raftAligned = False,
      get_doOutlines = True, get_doInsets = True, get_doInfills = True, get_doSupport = False,
      get_infillDensity = 1/10, get_roofLayerCount = 0, get_floorLayerCount = 0,
      get_defaultExtruder = 0,
      get_extruders = [\<lparr>extruder_id = 0, code = 0, isVolumetric = False, feedDiameter = 3,
                         firstLayerExtrusionProfile = ''firstlayer'',
                         outlinesExtrusionProfile = ''outlines'',
                         insetsExtrusionProfile = ''insets'',
                         infillsExtrusionProfile = ''infill''\<rparr>],
      get_extrusionProfiles = [''firstlayer'' \<mapsto> \<lparr>feedrate = 20, extrusionWidth = 1\<rparr>,
                               ''insets'' \<mapsto> \<lparr>feedrate = 40, extrusionWidth = 1\<rparr>],
      get_scalingFactor = 2, get_doPrintProgress = False, get_doPrintLayerMessages = False,
      get_doFanCommand = False, get_fanLayer = 0, get_doAnchor = False,
      get_startingX = 0, get_startingY = 0, get_rapidMoveFeedRateZ = 10,
      get_header = [], get_footer = []\<rparr>"

definition exampleLayer :: "(unit, unit, unit) LayerRegions" where
  "exampleLayer = \<lparr>layerMeasureId = 0, outlines = (), supportLoops = (), interiorLoops = (),
      insetLoops = [(), ()], spurs = [()], infill = (), support = ()\<rparr>"

text \<open>
  For the GCoder: callees that write one line each (the gantry) or nothing (the progress
  bar, \<^verbatim>\<open>writePaths\<close>), two layers with one extruder layer each (one outline, no insets,
  two infill paths), and a state with empty streams.
\<close>

definition exampleCallees :: "(unit, nat) Callees" where
  "exampleCallees =
     \<lparr>gantry_snort = (\<lambda>extruder extrusion. emit (''G1 E-1'' @ endl)),
      gantry_squirt = (\<lambda>extruder extrusion. emit (''G1 E1'' @ endl)),
      gantry_g1 = (\<lambda>extruder extrusion gx gy gz gfeed gh gw comment. emit (''G1 '' @ comment @ endl)),
      gantry_g1Motion = (\<lambda>gx gy gz ge gfeed gh gw comment doX doY doZ doE doFeed.
                           emit (''G1 Z ('' @ comment @ '')'' @ endl)),
      gantry_set_current_extruder_index = (\<lambda>index. noop),
      gcoder_writePath = (\<lambda>z h w extruder extrusion path. emit (''G1 X1 Y1 E1'' @ endl)),
      gcoder_writePaths = (\<lambda>z h w sliceId extruder paths. noop),
      progressive_initProgress = (\<lambda>name count. noop),
      progressive_tick = noop,
      showScalar = (\<lambda>x. ''0.500''),
      getMiracleGrueProgramName = ''Miracle-Grue'',
      getMiracleGrueVersionStr = ''0.0.4.0'',
      defaultPoint = \<lparr>pt_x = 0, pt_y = 0\<rparr>\<rparr>"

definition exampleExtruderLayer :: "nat ExtruderLayer" where
  "exampleExtruderLayer =
     \<lparr>layerExtruderId = 0, extruderPaths = [], outlinePaths = [7], insetPaths = [],
      infillPaths = [8, 9], supportPaths = []\<rparr>"

definition exampleLayers :: "nat Layer list" where
  "exampleLayers =
     [\<lparr>layerZ = 0, layerHeight = 1/2, layerW = 1/2, extruders = [exampleExtruderLayer]\<rparr>,
      \<lparr>layerZ = 1/2, layerHeight = 1/2, layerW = 1/2, extruders = [exampleExtruderLayer]\<rparr>]"

definition exampleState :: "unit GCoderState" where
  "exampleState =
     \<lparr>gout = [], logInfo = [], logSevere = [], gantry = (),
      progressTotal = 0, progressCurrent = 0, progressPercent = 0\<rparr>"

chapter \<open>Verified properties\<close>

section \<open>Double arithmetic\<close>

text \<open>
  Rounding leaves a number \<open>m * 2^k\<close> with \<open>\<bar>m\<bar> < 2^53\<close> and \<open>k \<ge> -1074\<close> as it is; in
  particular the integers below \<open>2^53\<close>.
\<close>

lemma two_powi_less: "(2::real) powi a \<le> x \<Longrightarrow> x < 2 powi b \<Longrightarrow> a < b"
  by (smt (verit) power_int_increasing)

lemma expUp_bound: "x < 2 powi (k + 1) \<Longrightarrow> e \<le> k \<Longrightarrow> expUp n x e \<le> k"
proof (induction n arbitrary: e)
  case 0
  then show ?case by simp
next
  case (Suc n)
  show ?case
  proof (cases "x < 2 powi (e + 1)")
    case True
    then show ?thesis using Suc.prems by simp
  next
    case False
    then have "e + 1 < k + 1" using two_powi_less [of "e + 1" x "k + 1"] Suc.prems(1) by simp
    then show ?thesis using False Suc by simp
  qed
qed

lemma expDown_bound: "x < 2 powi (k + 1) \<Longrightarrow> e - int n \<le> k \<Longrightarrow> expDown n x e \<le> k"
proof (induction n arbitrary: e)
  case 0
  then show ?case by simp
next
  case (Suc n)
  show ?case
  proof (cases "2 powi e \<le> x")
    case True
    then have "e < k + 1" using two_powi_less [of e x "k + 1"] Suc.prems(1) by simp
    then show ?thesis using True by simp
  next
    case False
    then show ?thesis using Suc by simp
  qed
qed

lemma expUp_eq:
  "2 powi k \<le> x \<Longrightarrow> x < 2 powi (k + 1) \<Longrightarrow> e \<le> k \<Longrightarrow> k - e < int n \<Longrightarrow> expUp n x e = k"
proof (induction n arbitrary: e)
  case 0
  then show ?case by simp
next
  case (Suc n)
  show ?case
  proof (cases "x < 2 powi (e + 1)")
    case True
    then have "k < e + 1" using two_powi_less [of k x "e + 1"] Suc.prems(1) by simp
    then show ?thesis using True Suc.prems(3) by simp
  next
    case False
    then have "e + 1 < k + 1" using two_powi_less [of "e + 1" x "k + 1"] Suc.prems(2) by simp
    then show ?thesis using False Suc by simp
  qed
qed

lemma expDown_eq:
  "2 powi k \<le> x \<Longrightarrow> x < 2 powi (k + 1) \<Longrightarrow> k \<le> e \<Longrightarrow> e - k \<le> int n \<Longrightarrow> expDown n x e = k"
proof (induction n arbitrary: e)
  case 0
  then show ?case by simp
next
  case (Suc n)
  show ?case
  proof (cases "2 powi e \<le> x")
    case True
    then have "e < k + 1" using two_powi_less [of e x "k + 1"] Suc.prems(2) by simp
    then show ?thesis using True Suc.prems(3) by simp
  next
    case False
    then have "k \<noteq> e" using Suc.prems(1) by auto
    then show ?thesis using False Suc by simp
  qed
qed

lemma binaryExponent_le:
  assumes "\<bar>x\<bar> < 2 powi (k + 1)" and "- 1022 \<le> k"
  shows "binaryExponent x \<le> k"
proof (cases "1 \<le> \<bar>x\<bar>")
  case True
  then have "(2::real) powi 0 \<le> \<bar>x\<bar>" by simp
  then have "0 < k + 1" using two_powi_less [of 0 "\<bar>x\<bar>" "k + 1"] assms(1) by simp
  then show ?thesis using True assms(1) by (simp add: binaryExponent_def expUp_bound)
next
  case False
  then show ?thesis using assms by (simp add: binaryExponent_def expDown_bound)
qed

lemma binaryExponent_eq:
  assumes "2 powi k \<le> \<bar>x\<bar>" and "\<bar>x\<bar> < 2 powi (k + 1)" and "- 1022 \<le> k" and "k \<le> 1023"
  shows "binaryExponent x = k"
proof (cases "1 \<le> \<bar>x\<bar>")
  case True
  then have "(2::real) powi 0 \<le> \<bar>x\<bar>" by simp
  then have "0 < k + 1" using two_powi_less [of 0 "\<bar>x\<bar>" "k + 1"] assms(2) by simp
  then show ?thesis using True assms by (simp add: binaryExponent_def expUp_eq)
next
  case False
  then have "\<bar>x\<bar> < 2 powi 0" by simp
  then have "k < 0" using two_powi_less [of k "\<bar>x\<bar>" 0] assms(1) by simp
  then show ?thesis using False assms by (simp add: binaryExponent_def expDown_eq)
qed

lemma roundHalfEven_of_int: "roundHalfEven (of_int n) = n"
  by (simp add: roundHalfEven_def)

lemma fl_dyadic:
  assumes m: "\<bar>m\<bar> < 9007199254740992" and k: "- 1074 \<le> k"
  shows "fl (of_int m * 2 powi k) = of_int m * 2 powi k"
proof (cases "m = 0")
  case True
  then show ?thesis by (simp add: fl_def)
next
  case False
  let ?x = "real_of_int m * 2 powi k"
  have x0: "?x \<noteq> 0" using False by simp
  have "\<bar>?x\<bar> = real_of_int \<bar>m\<bar> * 2 powi k" by (simp add: abs_mult)
  also have "\<dots> < 9007199254740992 * 2 powi k"
    using m by (intro mult_strict_right_mono) simp_all
  also have "\<dots> = 2 powi (k + 52 + 1)"
    by (simp add: power_int_add)
  finally have "binaryExponent ?x \<le> k + 52"
    using k by (intro binaryExponent_le) simp_all
  then obtain d :: nat where d: "k - (binaryExponent ?x - 52) = int d"
    by (metis diff_ge_0_iff_ge diff_le_eq nonneg_int_cases)
  have "?x / ulp ?x = real_of_int m * 2 powi (k - (binaryExponent ?x - 52))"
    by (simp add: ulp_def power_int_diff)
  also have "\<dots> = real_of_int (m * 2 ^ d)"
    by (simp add: d)
  finally have q: "?x / ulp ?x = real_of_int (m * 2 ^ d)" .
  have "ulp ?x \<noteq> 0" by (simp add: ulp_def)
  have "real_of_int (m * 2 ^ d) * ulp ?x = (?x / ulp ?x) * ulp ?x" by (simp only: q)
  also have "\<dots> = ?x" using \<open>ulp ?x \<noteq> 0\<close> by simp
  finally have "real_of_int (m * 2 ^ d) * ulp ?x = ?x" .
  then show ?thesis
    unfolding fl_def q roundHalfEven_of_int using x0 by simp
qed

lemma fl_of_int: "\<bar>m\<bar> < 9007199254740992 \<Longrightarrow> fl (of_int m) = of_int m"
  using fl_dyadic [of m 0] by simp

lemma fl_numeral [simp]:
  "numeral n < (9007199254740992::int) \<Longrightarrow> fl (numeral n) = numeral n"
  "numeral n < (9007199254740992::int) \<Longrightarrow> fl (- numeral n) = - numeral n"
  using fl_of_int [of "numeral n"] fl_of_int [of "- numeral n"] by simp_all

lemma fl_0 [simp]: "fl 0 = 0"
  by (simp add: fl_def)
lemma fl_1 [simp]: "fl 1 = 1" "fl (- 1) = - 1"
  using fl_of_int [of 1] fl_of_int [of "- 1"] by simp_all

lemma fl_half: "fl (1/2) = 1/2"
  using fl_dyadic [of 1 "- 1"] by simp

text \<open>A sum that is not a double: \<open>1 + 2^-60\<close> is rounded to \<open>1\<close>.\<close>

lemma fl_example: "fl (1 + 1 / 2 ^ 60) = 1"
proof -
  define x :: real where "x = 1 + 1 / 2 ^ 60"
  have b: "1 \<le> x" "x < 2" by (simp_all add: x_def)
  then have "2 powi 0 \<le> \<bar>x\<bar>" "\<bar>x\<bar> < 2 powi (0 + 1)" by simp_all
  then have e: "binaryExponent x = 0" by (rule binaryExponent_eq) simp_all
  have u: "ulp x = 1 / 2 ^ 52" unfolding ulp_def e by (simp add: power_int_minus field_simps)
  have q: "x / ulp x = 4503599627370496 + 1 / 256" by (simp only: u) (simp add: x_def)
  have f: "\<lfloor>4503599627370496 + 1 / 256 :: real\<rfloor> = 4503599627370496" by linarith
  have "roundHalfEven (x / ulp x) = 4503599627370496"
    unfolding q roundHalfEven_def Let_def f by simp
  moreover have "x \<noteq> 0" using b by simp
  ultimately have "fl x = 1" by (simp add: fl_def u)
  then show ?thesis by (simp only: x_def)
qed

section \<open>Segmenter: the slice range of one triangle\<close>

lemma zSort_range:
  assumes "zSort t = (a, b, c)"
  shows "v_z a = min (v_z (v0 t)) (min (v_z (v1 t)) (v_z (v2 t)))"
    and "v_z c = max (v_z (v0 t)) (max (v_z (v1 t)) (v_z (v2 t)))"
    and "v_z a \<le> v_z b" and "v_z b \<le> v_z c"
    and "a \<in> {v0 t, v1 t, v2 t}" and "c \<in> {v0 t, v1 t, v2 t}"
  using assms by (auto simp: zSort_def Let_def split: if_splits)

lemma pushBackRange_Some:
  "distinct is \<Longrightarrow> \<forall>i\<in>set is. i < length tbl \<Longrightarrow>
   pushBackRange tid is tbl =
     Some (map (\<lambda>i. tbl ! i @ (if i \<in> set is then [tid] else [])) [0..<length tbl])"
proof (induction "is" arbitrary: tbl)
  case Nil
  then show ?case by (simp add: map_nth)
next
  case (Cons i rest)
  let ?tbl = "tbl[i := tbl ! i @ [tid]]"
  have "pushBackRange tid rest ?tbl =
     Some (map (\<lambda>j. ?tbl ! j @ (if j \<in> set rest then [tid] else [])) [0..<length ?tbl])"
    using Cons.prems by (intro Cons.IH) auto
  moreover have "map (\<lambda>j. ?tbl ! j @ (if j \<in> set rest then [tid] else [])) [0..<length ?tbl]
      = map (\<lambda>j. tbl ! j @ (if j \<in> set (i # rest) then [tid] else [])) [0..<length tbl]"
    using Cons.prems by (auto simp: nth_list_update)
  ultimately show ?case using Cons.prems by simp
qed

lemma pushBackRange_None:
  "\<exists>i\<in>set is. \<not> i < length tbl \<Longrightarrow> pushBackRange tid is tbl = None"
  by (induction "is" arbitrary: tbl) auto

lemma unat_minSliceIndexOf:
  "unat (minSliceIndexOf w) = (if 0 < unat w then unat w - 1 else unat w)"
  by (simp add: minSliceIndexOf_def unat_minus_one word_greater_zero_iff unat_gt_0)

lemma unat_maxSliceIndexOf:
  assumes mw: "m \<le> w"
  shows "unat (maxSliceIndexOf m w) = (if unat w - unat m > 1 then unat w - 1 else unat w)"
proof -
  have sub: "unat (w - m) = unat w - unat m" using mw by (simp add: unat_sub)
  show ?thesis
  proof (cases "unat w - unat m > 1")
    case True
    then have "w \<noteq> 0" by (auto simp: unat_eq_0)
    then have "unat (w - 1) = unat w - 1" by (rule unat_minus_one)
    then show ?thesis using True sub by (simp add: maxSliceIndexOf_def word_less_nat_alt)
  next
    case False
    then show ?thesis using sub by (simp add: maxSliceIndexOf_def word_less_nat_alt)
  qed
qed

lemma minSliceIndexOf_le: "minSliceIndexOf w \<le> w"
  by (simp add: minSliceIndexOf_def word_le_nat_alt unat_minus_one word_greater_zero_iff)

lemma maxSliceIndexOf_le: "m \<le> w \<Longrightarrow> maxSliceIndexOf m w \<le> w"
  using unat_maxSliceIndexOf [of m w] by (simp add: word_le_nat_alt)

text \<open>
  One call of \<open>updateSlicesTriangle\<close>, read on natural numbers: as long as the helper is
  monotone on the two vertices and no index reaches \<open>2^32 - 1\<close>, the call succeeds, the
  table has \<open>max old (maxSliceIndex + 1)\<close> entries, and exactly the entries in
  \<open>[minSliceIndex, maxSliceIndex]\<close> received the triangle index.
\<close>

lemma updateSlicesTriangle_table:
  fixes seg :: "('lm, 'l) Segmenter"
  assumes tid: "tid < length (allTriangles seg)"
    and srt: "zSort (allTriangles seg ! tid) = (a, b, c)"
    and le: "L (zTapeMeasure seg) (v_z a) \<le> L (zTapeMeasure seg) (v_z c)"
    and top: "unat (L (zTapeMeasure seg) (v_z c)) < 4294967295"
    and len: "length (sliceTable seg) < 4294967296"
  defines "mn \<equiv> unat (minSliceIndexOf (L (zTapeMeasure seg) (v_z a)))"
    and "mx \<equiv> unat (maxSliceIndexOf (minSliceIndexOf (L (zTapeMeasure seg) (v_z a)))
                  (L (zTapeMeasure seg) (v_z c)))"
  shows "\<exists>tbl'. updateSlicesTriangle L seg tid = Some (seg\<lparr>sliceTable := tbl'\<rparr>) \<and>
      length tbl' = max (length (sliceTable seg)) (Suc mx) \<and>
      (\<forall>i<length tbl'. tbl' ! i =
          (if i < length (sliceTable seg) then sliceTable seg ! i else []) @
          (if mn \<le> i \<and> i \<le> mx then [tid] else []))"
proof -
  let ?la = "L (zTapeMeasure seg) (v_z a)" and ?lc = "L (zTapeMeasure seg) (v_z c)"
  let ?mn = "minSliceIndexOf ?la"
  let ?mx = "maxSliceIndexOf ?mn ?lc"
  let ?old = "sliceTable seg"
  have mn_le: "?mn \<le> ?lc" using minSliceIndexOf_le [of ?la] le by simp
  have mx_le: "unat ?mx \<le> unat ?lc"
    using maxSliceIndexOf_le [OF mn_le] by (simp add: word_le_nat_alt)
  have mx_small: "unat ?mx < 4294967295" using mx_le top by simp
  have suc: "unat (?mx + 1) = Suc (unat ?mx)"
    using mx_small by (simp add: unat_word_ariths)
  have cnt: "unat (word_of_nat (length ?old) :: 32 word) = length ?old"
    using len by (simp add: unat_of_nat)
  have cmp: "(?mx \<ge> (word_of_nat (length ?old) :: 32 word)) = (length ?old \<le> unat ?mx)"
    by (simp add: word_le_nat_alt cnt)
  define tbl where
    "tbl = (if length ?old \<le> unat ?mx then resize ?old (Suc (unat ?mx)) else ?old)"
  have tbl_len: "length tbl = max (length ?old) (Suc (unat ?mx))"
    by (simp add: tbl_def resize_def)
  have tbl_nth: "\<And>i. i < length tbl \<Longrightarrow> tbl ! i = (if i < length ?old then ?old ! i else [])"
    by (auto simp: tbl_def resize_def nth_append)
  define tbl' where
    "tbl' = map (\<lambda>i. tbl ! i @ (if i \<in> set [unat ?mn ..< Suc (unat ?mx)] then [tid] else []))
              [0..<length tbl]"
  have push: "pushBackRange tid [unat ?mn ..< Suc (unat ?mx)] tbl = Some tbl'"
    unfolding tbl'_def by (rule pushBackRange_Some) (auto simp: tbl_len)
  have "updateSlicesTriangle L seg tid =
      map_option (\<lambda>tbl'. seg\<lparr>sliceTable := tbl'\<rparr>)
        (pushBackRange tid [unat ?mn ..< Suc (unat ?mx)] tbl)"
    using tid srt
    by (simp add: updateSlicesTriangle_def Let_def cmp suc tbl_def del: upt_Suc)
  then have 1: "updateSlicesTriangle L seg tid = Some (seg\<lparr>sliceTable := tbl'\<rparr>)"
    by (simp only: push option.map)
  have 2: "length tbl' = max (length ?old) (Suc mx)"
    by (simp add: tbl'_def tbl_len mx_def)
  have 3: "\<forall>i<length tbl'. tbl' ! i =
          (if i < length ?old then ?old ! i else []) @
          (if mn \<le> i \<and> i \<le> mx then [tid] else [])"
    using tbl_nth by (auto simp: tbl'_def mn_def mx_def simp del: upt_Suc)
  from 1 2 3 show ?thesis by blast
qed

text \<open>
  \<^bold>\<open>Claim C3.\<close>  For the triangle \<open>newTriangleId\<close> with z-sorted vertices \<open>a, b, c\<close>,
  \<open>updateSlicesTriangle\<close> appends the index to exactly the entries \<open>minIdx .. maxIdx\<close> of the
  slice table, where \<open>minIdx\<close> is \<open>zToLayerAbove a.z\<close> decremented when positive and
  \<open>maxIdx\<close> is \<open>zToLayerAbove c.z\<close> decremented only when \<open>maxIdx - minIdx > 1\<close>; the table
  is grown to \<open>maxIdx + 1\<close> entries when it is shorter, and every other entry keeps its
  content.  The helper \<open>zToLayerAbove\<close> is arbitrary; it is required to be monotone on the
  two vertices, and the indices to stay below \<open>2^32 - 1\<close> (the range in which the
  \<^verbatim>\<open>unsigned int\<close> arithmetic of the code does not wrap).
\<close>

theorem updateSlicesTriangle_range:
  fixes seg :: "('lm, 'l) Segmenter"
  assumes "newTriangleId < length (allTriangles seg)"
    and "zSort (allTriangles seg ! newTriangleId) = (a, b, c)"
    and "zToLayerAbove (zTapeMeasure seg) (v_z a) \<le> zToLayerAbove (zTapeMeasure seg) (v_z c)"
    and "unat (zToLayerAbove (zTapeMeasure seg) (v_z c)) < 4294967295"
    and "length (sliceTable seg) < 4294967296"
    and "layerAboveA = unat (zToLayerAbove (zTapeMeasure seg) (v_z a))"
    and "layerAboveC = unat (zToLayerAbove (zTapeMeasure seg) (v_z c))"
    and "minIdx = (if 0 < layerAboveA then layerAboveA - 1 else layerAboveA)"
    and "maxIdx = (if 1 < layerAboveC - minIdx then layerAboveC - 1 else layerAboveC)"
  shows "\<exists>tbl'. updateSlicesTriangle zToLayerAbove seg newTriangleId
                  = Some (seg\<lparr>sliceTable := tbl'\<rparr>) \<and>
      length tbl' = max (length (sliceTable seg)) (maxIdx + 1) \<and>
      (\<forall>i<length tbl'. tbl' ! i =
          (if i < length (sliceTable seg) then sliceTable seg ! i else []) @
          (if minIdx \<le> i \<and> i \<le> maxIdx then [newTriangleId] else []))"
proof -
  have mn: "unat (minSliceIndexOf (zToLayerAbove (zTapeMeasure seg) (v_z a))) = minIdx"
    using assms(6,8) by (simp add: unat_minSliceIndexOf)
  have "minSliceIndexOf (zToLayerAbove (zTapeMeasure seg) (v_z a))
      \<le> zToLayerAbove (zTapeMeasure seg) (v_z c)"
    using minSliceIndexOf_le [of "zToLayerAbove (zTapeMeasure seg) (v_z a)"] assms(3) by simp
  then have mx: "unat (maxSliceIndexOf (minSliceIndexOf (zToLayerAbove (zTapeMeasure seg) (v_z a)))
      (zToLayerAbove (zTapeMeasure seg) (v_z c))) = maxIdx"
    using assms(7,9) mn by (simp add: unat_maxSliceIndexOf)
  show ?thesis
    using updateSlicesTriangle_table [where L = zToLayerAbove, OF assms(1-5)]
    by (simp add: mn mx)
qed

text \<open>
  The theorem at a concrete call: one triangle with vertex heights \<open>2\<close>, \<open>7/2\<close> and \<open>3/2\<close>,
  a table that already holds one entry, and the helper \<open>z \<mapsto> \<lceil>z\<rceil>\<close>.  The
  indices are \<open>minIdx = 1\<close> and \<open>maxIdx = 3\<close>; entry \<open>0\<close> is untouched and the table grows
  to four entries.
\<close>

theorem updateSlicesTriangle_range_witness:
  "\<exists>tbl'. updateSlicesTriangle (\<lambda>(_::unit) z. word_of_nat (nat \<lceil>z\<rceil>))
       \<lparr>zTapeMeasure = (),
        allTriangles = [\<lparr>v0 = \<lparr>v_x = 0, v_y = 0, v_z = 2\<rparr>,
                         v1 = \<lparr>v_x = 1, v_y = 0, v_z = 7/2\<rparr>,
                         v2 = \<lparr>v_x = 0, v_y = 1, v_z = 3/2\<rparr>\<rparr>],
        sliceTable = [[5]], limits = ()\<rparr> 0
     = Some \<lparr>zTapeMeasure = (),
        allTriangles = [\<lparr>v0 = \<lparr>v_x = 0, v_y = 0, v_z = 2\<rparr>,
                         v1 = \<lparr>v_x = 1, v_y = 0, v_z = 7/2\<rparr>,
                         v2 = \<lparr>v_x = 0, v_y = 1, v_z = 3/2\<rparr>\<rparr>],
        sliceTable = tbl', limits = ()\<rparr> \<and>
   length tbl' = 4 \<and> tbl' ! 0 = [5] \<and> tbl' ! 1 = [0] \<and> tbl' ! 2 = [0] \<and> tbl' ! 3 = [0]"
proof -
  let ?L = "\<lambda>(_::unit) (z::real). (word_of_nat (nat \<lceil>z\<rceil>) :: 32 word)"
  let ?a = "\<lparr>v_x = 0, v_y = 1, v_z = 3/2\<rparr>" and ?b = "\<lparr>v_x = 0, v_y = 0, v_z = 2\<rparr>"
  let ?c = "\<lparr>v_x = 1, v_y = 0, v_z = 7/2\<rparr>"
  let ?seg = "\<lparr>zTapeMeasure = (), allTriangles = [\<lparr>v0 = ?b, v1 = ?c, v2 = ?a\<rparr>],
        sliceTable = [[5]], limits = ()\<rparr>"
  have h1: "0 < length (allTriangles ?seg)" by simp
  have h2: "zSort (allTriangles ?seg ! 0) = (?a, ?b, ?c)" by (simp add: zSort_def)
  have h3: "?L (zTapeMeasure ?seg) (v_z ?a) \<le> ?L (zTapeMeasure ?seg) (v_z ?c)" by simp
  have h4: "unat (?L (zTapeMeasure ?seg) (v_z ?c)) < 4294967295" by simp
  have h5: "length (sliceTable ?seg) < 4294967296" by simp
  have h6: "2 = unat (?L (zTapeMeasure ?seg) (v_z ?a))" by simp
  have h7: "4 = unat (?L (zTapeMeasure ?seg) (v_z ?c))" by simp
  have h8: "(1::nat) = (if 0 < (2::nat) then 2 - 1 else 2)" by simp
  have h9: "(3::nat) = (if 1 < (4::nat) - 1 then 4 - 1 else 4)" by simp
  from updateSlicesTriangle_range [where zToLayerAbove = ?L, OF h1 h2 h3 h4 h5 h6 h7 h8 h9]
  obtain tbl' where r: "updateSlicesTriangle ?L ?seg 0 = Some (?seg\<lparr>sliceTable := tbl'\<rparr>)"
    and len: "length tbl' = max (length (sliceTable ?seg)) (3 + 1)"
    and nth: "\<forall>i<length tbl'. tbl' ! i =
          (if i < length (sliceTable ?seg) then sliceTable ?seg ! i else []) @
          (if 1 \<le> i \<and> i \<le> 3 then [0] else [])"
    by blast
  have len4: "length tbl' = 4" using len by simp
  have "tbl' ! 0 = [5]" "tbl' ! 1 = [0]" "tbl' ! 2 = [0]" "tbl' ! 3 = [0]"
    using nth len4 by simp_all
  with r len4 show ?thesis by auto
qed

section \<open>Segmenter: which slices hold a triangle\<close>

text \<open>
  The helper \<open>zToLayerAbove\<close> is described as returning the index of the first layer whose
  top is at or above \<open>z\<close>.  For a sequence \<open>top\<close> of layer tops this reads
  \<open>zToLayerAbove z \<le> k \<longleftrightarrow> z \<le> top k\<close>; the lemmas below assume it for the vertices
  of the triangles at hand and nothing else about the helper.  One call of
  \<open>updateSlicesTriangle\<close> adds the triangle to the entries \<open>s\<close> with \<open>listedIn\<close> and to no
  other, and keeps what the table held.
\<close>

lemma updateSlicesTriangle_lists:
  fixes seg :: "('lm, 'l) Segmenter" and top :: "nat \<Rightarrow> Scalar"
  assumes tid: "tid < length (allTriangles seg)"
    and t: "t = allTriangles seg ! tid"
    and first: "\<forall>p\<in>{v0 t, v1 t, v2 t}. \<forall>k. (unat (L (zTapeMeasure seg) (v_z p)) \<le> k) = (v_z p \<le> top k)"
    and small: "\<forall>p\<in>{v0 t, v1 t, v2 t}. unat (L (zTapeMeasure seg) (v_z p)) < 4294967295"
    and len: "length (sliceTable seg) < 4294967296"
    and zlo: "zlo = min (v_z (v0 t)) (min (v_z (v1 t)) (v_z (v2 t)))"
    and zhi: "zhi = max (v_z (v0 t)) (max (v_z (v1 t)) (v_z (v2 t)))"
  shows "\<exists>tbl'. updateSlicesTriangle L seg tid = Some (seg\<lparr>sliceTable := tbl'\<rparr>) \<and>
      length (sliceTable seg) \<le> length tbl' \<and> length tbl' < 4294967296 \<and>
      (\<forall>s j. (s < length tbl' \<and> j \<in> set (tbl' ! s)) =
         ((s < length (sliceTable seg) \<and> j \<in> set (sliceTable seg ! s)) \<or>
          (j = tid \<and> zlo \<le> top (Suc s) \<and>
           (if 1 < unat (L (zTapeMeasure seg) zhi) - (unat (L (zTapeMeasure seg) zlo) - 1)
            then top s < zhi else s = 0 \<or> top (s - 1) < zhi))))"
proof -
  obtain a b c where srt: "zSort (allTriangles seg ! tid) = (a, b, c)"
    by (metis prod_cases3)
  note rng = zSort_range [OF srt [folded t]]
  have za: "v_z a = zlo" and zc: "v_z c = zhi" by (simp_all only: rng(1,2) zlo zhi)
  let ?la = "L (zTapeMeasure seg) (v_z a)" and ?lc = "L (zTapeMeasure seg) (v_z c)"
  have fa: "\<And>k. (unat ?la \<le> k) = (v_z a \<le> top k)" using first rng(5) by blast
  have fc: "\<And>k. (unat ?lc \<le> k) = (v_z c \<le> top k)" using first rng(6) by blast
  have "v_z c \<le> top (unat ?lc)" using fc [of "unat ?lc"] by simp
  moreover have "v_z a \<le> v_z c" using rng(3,4) by simp
  ultimately have lalc: "unat ?la \<le> unat ?lc" using fa [of "unat ?lc"] by simp
  then have le: "?la \<le> ?lc" by (simp add: word_le_nat_alt)
  have sm: "unat ?lc < 4294967295" using small rng(6) by blast
  define mn where "mn = unat (minSliceIndexOf ?la)"
  define mx where "mx = unat (maxSliceIndexOf (minSliceIndexOf ?la) ?lc)"
  have mn: "mn = unat ?la - 1"
    by (simp add: mn_def unat_minSliceIndexOf)
  have "minSliceIndexOf ?la \<le> ?lc" using minSliceIndexOf_le [of ?la] le by simp
  then have mx: "mx = (if 1 < unat ?lc - (unat ?la - 1) then unat ?lc - 1 else unat ?lc)"
    using mn by (simp add: mx_def mn_def unat_maxSliceIndexOf)
  from updateSlicesTriangle_table [where L = L, OF tid srt le sm len]
  obtain tbl' where r: "updateSlicesTriangle L seg tid = Some (seg\<lparr>sliceTable := tbl'\<rparr>)"
    and l: "length tbl' = max (length (sliceTable seg)) (Suc mx)"
    and n: "\<forall>i<length tbl'. tbl' ! i =
          (if i < length (sliceTable seg) then sliceTable seg ! i else []) @
          (if mn \<le> i \<and> i \<le> mx then [tid] else [])"
    unfolding mn_def mx_def by blast
  have mxs: "mx < 4294967295" using mx sm by (simp split: if_splits)
  have 1: "length (sliceTable seg) \<le> length tbl'" using l by simp
  have 2: "length tbl' < 4294967296" using l len mxs by simp
  have lo: "(mn \<le> s) = (zlo \<le> top (Suc s))" for s
  proof -
    have "(mn \<le> s) = (unat ?la \<le> Suc s)" using mn by arith
    then show ?thesis using fa [of "Suc s"] za by simp
  qed
  have hi: "(s \<le> mx) = (if 1 < unat ?lc - (unat ?la - 1)
            then top s < zhi else s = 0 \<or> top (s - 1) < zhi)" for s
  proof (cases "1 < unat ?lc - (unat ?la - 1)")
    case True
    then have "(s \<le> mx) = (\<not> unat ?lc \<le> s)" using mx by auto
    then show ?thesis using fc [of s] zc True by auto
  next
    case False
    then have "(s \<le> mx) = (s = 0 \<or> \<not> unat ?lc \<le> s - 1)" using mx by auto
    then show ?thesis using fc [of "s - 1"] zc False by auto
  qed
  have 3: "(s < length tbl' \<and> j \<in> set (tbl' ! s)) =
         ((s < length (sliceTable seg) \<and> j \<in> set (sliceTable seg ! s)) \<or>
          (j = tid \<and> mn \<le> s \<and> s \<le> mx))" for s j
  proof (cases "s < length tbl'")
    case True
    then show ?thesis using n by auto
  next
    case False
    then show ?thesis using l by auto
  qed
  have 4: "(s < length tbl' \<and> j \<in> set (tbl' ! s)) =
         ((s < length (sliceTable seg) \<and> j \<in> set (sliceTable seg ! s)) \<or>
          (j = tid \<and> zlo \<le> top (Suc s) \<and>
           (if 1 < unat (L (zTapeMeasure seg) zhi) - (unat (L (zTapeMeasure seg) zlo) - 1)
            then top s < zhi else s = 0 \<or> top (s - 1) < zhi)))" for s j
    unfolding 3 lo hi za zc by (rule refl)
  from r 1 2 4 show ?thesis by blast
qed

lemma tablaturizeLoop_lists:
  fixes seg :: "('lm, 'l) Segmenter" and top :: "nat \<Rightarrow> Scalar"
  assumes tris: "allTriangles seg = tris" and lm: "zTapeMeasure seg = lm"
    and idx: "\<forall>i\<in>set is. i < length tris"
    and first: "\<forall>t\<in>set tris. \<forall>p\<in>{v0 t, v1 t, v2 t}.
                  \<forall>k. (unat (L lm (v_z p)) \<le> k) = (v_z p \<le> top k)"
    and small: "\<forall>t\<in>set tris. \<forall>p\<in>{v0 t, v1 t, v2 t}. unat (L lm (v_z p)) < 4294967295"
    and len: "length (sliceTable seg) < 4294967296"
  shows "\<exists>tbl'. tablaturizeLoop L is seg = Some (seg\<lparr>sliceTable := tbl'\<rparr>) \<and>
      (\<forall>s j. (s < length tbl' \<and> j \<in> set (tbl' ! s)) =
         ((s < length (sliceTable seg) \<and> j \<in> set (sliceTable seg ! s)) \<or>
          (j \<in> set is \<and> listedIn L lm top (tris ! j) s)))"
  using tris lm idx len
proof (induction "is" arbitrary: seg)
  case Nil
  have "seg\<lparr>sliceTable := sliceTable seg\<rparr> = seg" by simp
  then have "tablaturizeLoop L [] seg = Some (seg\<lparr>sliceTable := sliceTable seg\<rparr>)" by simp
  then show ?case by (intro exI [of _ "sliceTable seg"]) simp
next
  case (Cons i rest)
  let ?t = "tris ! i"
  have i: "i < length (allTriangles seg)" using Cons.prems(1,3) by simp
  have tin: "?t \<in> set tris" using Cons.prems(3) by simp
  have f1: "\<forall>p\<in>{v0 ?t, v1 ?t, v2 ?t}. \<forall>k. (unat (L (zTapeMeasure seg) (v_z p)) \<le> k) = (v_z p \<le> top k)"
    using first tin Cons.prems(2) by blast
  have s1: "\<forall>p\<in>{v0 ?t, v1 ?t, v2 ?t}. unat (L (zTapeMeasure seg) (v_z p)) < 4294967295"
    using small tin Cons.prems(2) by blast
  have t: "?t = allTriangles seg ! i" using Cons.prems(1) by simp
  from updateSlicesTriangle_lists [where L = L and top = top, OF i t f1 s1 Cons.prems(4) refl refl]
  obtain tbl1 where r1: "updateSlicesTriangle L seg i = Some (seg\<lparr>sliceTable := tbl1\<rparr>)"
    and l1: "length tbl1 < 4294967296"
    and m1: "\<And>s j. (s < length tbl1 \<and> j \<in> set (tbl1 ! s)) =
         ((s < length (sliceTable seg) \<and> j \<in> set (sliceTable seg ! s)) \<or>
          (j = i \<and> listedIn L lm top ?t s))"
    unfolding listedIn_def spansLayers_def zLow_def zHigh_def Cons.prems(2) by blast
  let ?seg1 = "seg\<lparr>sliceTable := tbl1\<rparr>"
  have "\<exists>tbl'. tablaturizeLoop L rest ?seg1 = Some (?seg1\<lparr>sliceTable := tbl'\<rparr>) \<and>
      (\<forall>s j. (s < length tbl' \<and> j \<in> set (tbl' ! s)) =
         ((s < length (sliceTable ?seg1) \<and> j \<in> set (sliceTable ?seg1 ! s)) \<or>
          (j \<in> set rest \<and> listedIn L lm top (tris ! j) s)))"
    using Cons.prems l1 by (intro Cons.IH) simp_all
  then obtain tbl' where r2: "tablaturizeLoop L rest ?seg1 = Some (seg\<lparr>sliceTable := tbl'\<rparr>)"
    and m2: "\<And>s j. (s < length tbl' \<and> j \<in> set (tbl' ! s)) =
         ((s < length tbl1 \<and> j \<in> set (tbl1 ! s)) \<or>
          (j \<in> set rest \<and> listedIn L lm top (tris ! j) s))"
    by auto
  have R: "tablaturizeLoop L (i # rest) seg = Some (seg\<lparr>sliceTable := tbl'\<rparr>)"
    using r1 r2 by simp
  have M: "(s < length tbl' \<and> j \<in> set (tbl' ! s)) =
         ((s < length (sliceTable seg) \<and> j \<in> set (sliceTable seg ! s)) \<or>
          (j \<in> set (i # rest) \<and> listedIn L lm top (tris ! j) s))" for s j
    unfolding m2 m1 by auto
  from R M show ?case by blast
qed

text \<open>
  \<^bold>\<open>Claim C2 (as amended).\<close>  Let \<open>zToLayerAbove\<close> return the index of the first layer
  whose top is at or above \<open>z\<close>, and let all indices be below \<open>2^32 - 1\<close>.  Then
  \<open>tablaturize\<close> returns, and for every triangle \<open>i\<close> of the mesh and every slice \<open>s\<close>:
  entry \<open>s\<close> of the slice table exists and contains \<open>i\<close> if and only if it did before the
  call (never, for a Segmenter that is fresh) or the lowest vertex of the triangle is at
  or below \<open>top (s + 1)\<close> and its highest vertex is above \<open>top s\<close>, when the triangle
  spans layers (the helper's value at the highest vertex exceeds by more than one its
  value at the lowest vertex, decremented when positive), and above \<open>top (s - 1)\<close> or
  \<open>s = 0\<close>, when it does not.
\<close>

theorem tablaturize_lists:
  fixes seg :: "('lm, 'l) Segmenter" and top :: "nat \<Rightarrow> Scalar"
  assumes "length (sliceTable seg) < 4294967296"
    and "\<forall>t\<in>set (readAllTriangles mesh). \<forall>p\<in>{v0 t, v1 t, v2 t}.
           \<forall>k. (unat (zToLayerAbove (zTapeMeasure seg) (v_z p)) \<le> k) = (v_z p \<le> top k)"
    and "\<forall>t\<in>set (readAllTriangles mesh). \<forall>p\<in>{v0 t, v1 t, v2 t}.
           unat (zToLayerAbove (zTapeMeasure seg) (v_z p)) < 4294967295"
  shows "\<exists>seg'. tablaturize zToLayerAbove seg mesh = Some seg' \<and>
     (\<forall>i<length (readAllTriangles mesh). \<forall>s.
         (s < length (sliceTable seg') \<and> i \<in> set (sliceTable seg' ! s)) =
         ((s < length (sliceTable seg) \<and> i \<in> set (sliceTable seg ! s)) \<or>
          listedIn zToLayerAbove (zTapeMeasure seg) top (readAllTriangles mesh ! i) s))"
proof -
  let ?seg1 = "seg\<lparr>allTriangles := readAllTriangles mesh, limits := readLimits mesh\<rparr>"
  have "\<exists>tbl'. tablaturizeLoop zToLayerAbove [0..<length (readAllTriangles mesh)] ?seg1
        = Some (?seg1\<lparr>sliceTable := tbl'\<rparr>) \<and>
      (\<forall>s j. (s < length tbl' \<and> j \<in> set (tbl' ! s)) =
         ((s < length (sliceTable ?seg1) \<and> j \<in> set (sliceTable ?seg1 ! s)) \<or>
          (j \<in> set [0..<length (readAllTriangles mesh)] \<and>
           listedIn zToLayerAbove (zTapeMeasure seg) top (readAllTriangles mesh ! j) s)))"
    using assms by (intro tablaturizeLoop_lists) simp_all
  then show ?thesis
    by (auto simp: tablaturize_def Let_def)
qed

text \<open>
  The theorem at a mesh of three triangles, with layer tops \<open>top k = k\<close> and the helper
  \<open>z \<mapsto> \<lceil>z\<rceil>\<close>.  Triangle \<open>0\<close> has the vertex heights \<open>2\<close>, \<open>3\<close>, \<open>3/2\<close> and spans
  layers: it is in the entries \<open>1\<close> and \<open>2\<close>, and not in entry \<open>3\<close>, although its highest
  vertex has the height \<open>top 3\<close>.  Triangle \<open>1\<close> is flat at height \<open>0\<close>: entry \<open>0\<close> only.
  Triangle \<open>2\<close> has the heights \<open>3/2\<close>, \<open>2\<close>, \<open>2\<close> and does not span layers: it is in
  entry \<open>2\<close>, although its highest vertex is not above \<open>top 2\<close>.
\<close>

theorem tablaturize_lists_witness:
  "\<exists>seg'. tablaturize (\<lambda>(_::unit) z. word_of_nat (nat \<lceil>z\<rceil>))
       \<lparr>zTapeMeasure = (), allTriangles = [], sliceTable = [], limits = ()\<rparr>
       \<lparr>readAllTriangles =
          [\<lparr>v0 = \<lparr>v_x = 0, v_y = 0, v_z = 2\<rparr>, v1 = \<lparr>v_x = 1, v_y = 0, v_z = 3\<rparr>,
            v2 = \<lparr>v_x = 0, v_y = 1, v_z = 3/2\<rparr>\<rparr>,
           \<lparr>v0 = \<lparr>v_x = 0, v_y = 0, v_z = 0\<rparr>, v1 = \<lparr>v_x = 1, v_y = 0, v_z = 0\<rparr>,
            v2 = \<lparr>v_x = 0, v_y = 1, v_z = 0\<rparr>\<rparr>,
           \<lparr>v0 = \<lparr>v_x = 0, v_y = 0, v_z = 3/2\<rparr>, v1 = \<lparr>v_x = 1, v_y = 0, v_z = 2\<rparr>,
            v2 = \<lparr>v_x = 0, v_y = 1, v_z = 2\<rparr>\<rparr>], readLimits = ()\<rparr> = Some seg' \<and>
     (1 < length (sliceTable seg') \<and> 0 \<in> set (sliceTable seg' ! 1)) \<and>
     (2 < length (sliceTable seg') \<and> 0 \<in> set (sliceTable seg' ! 2)) \<and>
     \<not> (0 < length (sliceTable seg') \<and> 0 \<in> set (sliceTable seg' ! 0)) \<and>
     \<not> (3 < length (sliceTable seg') \<and> 0 \<in> set (sliceTable seg' ! 3)) \<and>
     (0 < length (sliceTable seg') \<and> 1 \<in> set (sliceTable seg' ! 0)) \<and>
     \<not> (1 < length (sliceTable seg') \<and> 1 \<in> set (sliceTable seg' ! 1)) \<and>
     (2 < length (sliceTable seg') \<and> 2 \<in> set (sliceTable seg' ! 2)) \<and>
     \<not> (3 < length (sliceTable seg') \<and> 2 \<in> set (sliceTable seg' ! 3))"
proof -
  let ?L = "\<lambda>(_::unit) (z::real). (word_of_nat (nat \<lceil>z\<rceil>) :: 32 word)"
  let ?t0 = "\<lparr>v0 = \<lparr>v_x = 0, v_y = 0, v_z = 2\<rparr>, v1 = \<lparr>v_x = 1, v_y = 0, v_z = 3\<rparr>,
             v2 = \<lparr>v_x = 0, v_y = 1, v_z = 3/2\<rparr>\<rparr>"
  let ?t1 = "\<lparr>v0 = \<lparr>v_x = 0, v_y = 0, v_z = 0\<rparr>, v1 = \<lparr>v_x = 1, v_y = 0, v_z = 0\<rparr>,
             v2 = \<lparr>v_x = 0, v_y = 1, v_z = 0\<rparr>\<rparr>"
  let ?t2 = "\<lparr>v0 = \<lparr>v_x = 0, v_y = 0, v_z = 3/2\<rparr>, v1 = \<lparr>v_x = 1, v_y = 0, v_z = 2\<rparr>,
             v2 = \<lparr>v_x = 0, v_y = 1, v_z = 2\<rparr>\<rparr>"
  let ?seg = "\<lparr>zTapeMeasure = (), allTriangles = [], sliceTable = [], limits = ()\<rparr>"
  let ?mesh = "\<lparr>readAllTriangles = [?t0, ?t1, ?t2], readLimits = ()\<rparr>"
  have c: "(nat \<lceil>z\<rceil> \<le> k) = (z \<le> real k)" for z :: real and k
    by (simp add: nat_le_iff ceiling_le_iff)
  have c0: "(unat (?L () 0) \<le> k) = (0 \<le> real k)" for k by simp
  have c2: "(unat (?L () 2) \<le> k) = (2 \<le> real k)" for k using c [of 2 k] by simp
  have c3: "(unat (?L () (3/2)) \<le> k) = (3/2 \<le> real k)" for k using c [of "3/2" k] by simp
  have c7: "(unat (?L () 3) \<le> k) = (3 \<le> real k)" for k using c [of 3 k] by simp
  have h1: "length (sliceTable ?seg) < 4294967296" by simp
  have h2: "\<forall>t\<in>set (readAllTriangles ?mesh). \<forall>p\<in>{v0 t, v1 t, v2 t}.
           \<forall>k. (unat (?L (zTapeMeasure ?seg) (v_z p)) \<le> k) = (v_z p \<le> real k)"
    using c0 c2 c3 c7 by simp
  have h3: "\<forall>t\<in>set (readAllTriangles ?mesh). \<forall>p\<in>{v0 t, v1 t, v2 t}.
           unat (?L (zTapeMeasure ?seg) (v_z p)) < 4294967295"
    by simp
  from tablaturize_lists [where zToLayerAbove = ?L and top = real, OF h1 h2 h3]
  obtain seg' where r: "tablaturize ?L ?seg ?mesh = Some seg'"
    and m0: "\<And>i s. i < length (readAllTriangles ?mesh) \<Longrightarrow>
         (s < length (sliceTable seg') \<and> i \<in> set (sliceTable seg' ! s)) =
         ((s < length (sliceTable ?seg) \<and> i \<in> set (sliceTable ?seg ! s)) \<or>
          listedIn ?L (zTapeMeasure ?seg) real (readAllTriangles ?mesh ! i) s)"
    by blast
  have m: "(s < length (sliceTable seg') \<and> i \<in> set (sliceTable seg' ! s)) =
         listedIn ?L (zTapeMeasure ?seg) real (readAllTriangles ?mesh ! i) s"
    if "i < length (readAllTriangles ?mesh)" for i s
    using m0 [OF that, of s] by simp
  have w0: "spansLayers ?L () ?t0" by (simp add: spansLayers_def zLow_def zHigh_def)
  have w1: "\<not> spansLayers ?L () ?t1" by (simp add: spansLayers_def zLow_def zHigh_def)
  have w2: "\<not> spansLayers ?L () ?t2" by (simp add: spansLayers_def zLow_def zHigh_def)
  have "listedIn ?L () real ?t0 1" "listedIn ?L () real ?t0 2"
    "\<not> listedIn ?L () real ?t0 0" "\<not> listedIn ?L () real ?t0 3"
    by (simp_all add: listedIn_def w0) (simp_all add: zLow_def zHigh_def)
  moreover have "listedIn ?L () real ?t1 0" "\<not> listedIn ?L () real ?t1 1"
    by (simp_all add: listedIn_def w1) (simp_all add: zLow_def zHigh_def)
  moreover have "listedIn ?L () real ?t2 2" "\<not> listedIn ?L () real ?t2 3"
    by (simp_all add: listedIn_def w2) (simp_all add: zLow_def zHigh_def)
  ultimately have
    "1 < length (sliceTable seg') \<and> 0 \<in> set (sliceTable seg' ! 1)"
    "2 < length (sliceTable seg') \<and> 0 \<in> set (sliceTable seg' ! 2)"
    "\<not> (0 < length (sliceTable seg') \<and> 0 \<in> set (sliceTable seg' ! 0))"
    "\<not> (3 < length (sliceTable seg') \<and> 0 \<in> set (sliceTable seg' ! 3))"
    "0 < length (sliceTable seg') \<and> 1 \<in> set (sliceTable seg' ! 0)"
    "\<not> (1 < length (sliceTable seg') \<and> 1 \<in> set (sliceTable seg' ! 1))"
    "2 < length (sliceTable seg') \<and> 2 \<in> set (sliceTable seg' ! 2)"
    "\<not> (3 < length (sliceTable seg') \<and> 2 \<in> set (sliceTable seg' ! 3))"
    using m [of 0 1] m [of 0 2] m [of 0 0] m [of 0 3] m [of 1 0] m [of 1 1] m [of 2 2] m [of 2 3]
    by simp_all
  with r show ?thesis by blast
qed

subsection \<open>Coverage of the closed, widened slab fails\<close>

text \<open>
  A mesh of one triangle whose vertices have the heights \<open>za, za, zc\<close>, on an empty
  table: the length of the resulting table and a lower bound for the entries that hold
  the triangle, from the values of the helper at the two heights.
\<close>

lemma updateSlicesTriangle_one:
  fixes L :: "unit \<Rightarrow> Scalar \<Rightarrow> 32 word"
  assumes lo: "za \<le> zc" "unat (L () za) = la" "unat (L () zc) = lc" "la \<le> lc" "lc < 4294967295"
    and r: "updateSlicesTriangle L \<lparr>zTapeMeasure = (), allTriangles =
              [\<lparr>v0 = \<lparr>v_x = 0, v_y = 0, v_z = za\<rparr>, v1 = \<lparr>v_x = 0, v_y = 0, v_z = za\<rparr>,
                v2 = \<lparr>v_x = 0, v_y = 0, v_z = zc\<rparr>\<rparr>], sliceTable = [], limits = ()\<rparr> 0 = Some seg'"
  shows "length (sliceTable seg') = Suc (if 1 < lc - (la - 1) then lc - 1 else lc)"
    and "\<forall>s<length (sliceTable seg'). 0 \<in> set (sliceTable seg' ! s) \<longrightarrow> la - 1 \<le> s"
proof -
  let ?a = "\<lparr>v_x = 0, v_y = 0, v_z = za\<rparr>" and ?c = "\<lparr>v_x = 0, v_y = 0, v_z = zc\<rparr>"
  let ?seg = "\<lparr>zTapeMeasure = (), allTriangles = [\<lparr>v0 = ?a, v1 = ?a, v2 = ?c\<rparr>],
      sliceTable = [], limits = ()\<rparr>"
  have h1: "0 < length (allTriangles ?seg)" by simp
  have h2: "zSort (allTriangles ?seg ! 0) = (?a, ?a, ?c)" using lo(1) by (simp add: zSort_def Let_def)
  have h3: "L (zTapeMeasure ?seg) (v_z ?a) \<le> L (zTapeMeasure ?seg) (v_z ?c)"
    using lo by (simp add: word_le_nat_alt)
  have h4: "unat (L (zTapeMeasure ?seg) (v_z ?c)) < 4294967295" using lo by simp
  have h5: "length (sliceTable ?seg) < 4294967296" by simp
  have mn: "unat (minSliceIndexOf (L (zTapeMeasure ?seg) (v_z ?a))) = la - 1"
    using lo by (simp add: unat_minSliceIndexOf)
  have "minSliceIndexOf (L () za) \<le> L () zc"
    using minSliceIndexOf_le [of "L () za"] h3 by simp
  then have mx: "unat (maxSliceIndexOf (minSliceIndexOf (L (zTapeMeasure ?seg) (v_z ?a)))
      (L (zTapeMeasure ?seg) (v_z ?c))) = (if 1 < lc - (la - 1) then lc - 1 else lc)"
    using lo mn by (simp add: unat_maxSliceIndexOf)
  from updateSlicesTriangle_table [where L = L, OF h1 h2 h3 h4 h5] r
  have l: "length (sliceTable seg') = Suc (if 1 < lc - (la - 1) then lc - 1 else lc)"
    and n: "\<forall>i<length (sliceTable seg'). sliceTable seg' ! i =
          (if i < length (sliceTable ?seg) then sliceTable ?seg ! i else []) @
          (if la - 1 \<le> i \<and> i \<le> (if 1 < lc - (la - 1) then lc - 1 else lc) then [0] else [])"
    unfolding mn mx by auto
  show "length (sliceTable seg') = Suc (if 1 < lc - (la - 1) then lc - 1 else lc)" by (rule l)
  show "\<forall>s<length (sliceTable seg'). 0 \<in> set (sliceTable seg' ! s) \<longrightarrow> la - 1 \<le> s"
    using n by (auto split: if_splits)
qed

lemma updateSlicesTriangle_flat_overflow:
  fixes L :: "unit \<Rightarrow> Scalar \<Rightarrow> 32 word"
  assumes "unat (L () z) = 4294967295"
  shows "updateSlicesTriangle L \<lparr>zTapeMeasure = (), allTriangles =
              [\<lparr>v0 = \<lparr>v_x = 0, v_y = 0, v_z = z\<rparr>, v1 = \<lparr>v_x = 0, v_y = 0, v_z = z\<rparr>,
                v2 = \<lparr>v_x = 0, v_y = 0, v_z = z\<rparr>\<rparr>], sliceTable = [], limits = ()\<rparr> 0 = None"
proof -
  have "L () z = word_of_nat (unat (L () z))" by simp
  then have k: "L () z = - 1" by (simp only: assms) simp
  have m: "minSliceIndexOf (- 1 :: 32 word) = - 2" by (simp add: minSliceIndexOf_def word_greater_zero_iff)
  have x: "maxSliceIndexOf (- 2) (- 1 :: 32 word) = - 1" by (simp add: maxSliceIndexOf_def)
  have u: "unat (- 1 :: 32 word) = 4294967295"
    by (simp add: unsigned_minus_1_eq_mask mask_eq_exp_minus_1)
  have p: "\<And>lo hi. lo \<le> hi \<Longrightarrow> pushBackRange 0 [lo ..< Suc hi] [] = None"
    by (rule pushBackRange_None) auto
  show ?thesis
    by (simp add: updateSlicesTriangle_def zSort_def Let_def k m x resize_def p u del: upt_Suc)
qed

text \<open>
  \<^bold>\<open>Claim C2 (as stated) is false\<close>, whatever \<open>zToLayerAbove\<close> computes.  Take any helper,
  any monotone sequence \<open>Z\<close> of layer heights and any tolerance \<open>eps \<ge> 0\<close>, and suppose
  every triangle were listed in every slice \<open>s\<close> whose slab \<open>[Z s - eps, Z (s + 1) + eps]\<close>
  its Z-range overlaps.  A flat triangle at height \<open>Z (n + 1)\<close> overlaps the slabs \<open>n\<close> and
  \<open>n + 1\<close>; its range of slices has at most two entries, \<open>k - 1\<close> and \<open>k\<close> for
  \<open>k = zToLayerAbove (Z (n + 1))\<close>, so \<open>k = n + 1\<close>.  Then the triangle with heights
  \<open>Z 2, Z 2, Z 6\<close> gets \<open>minSliceIndex = 1\<close> and \<open>maxSliceIndex = 6 - 1 = 5\<close> (the range is
  wider than one, so the upper index is decremented), and the table has six entries:
  slice \<open>6\<close>, whose slab contains the top vertex \<open>Z 6\<close>, does not list it.
\<close>

theorem tablaturize_coverage_refuted:
  "\<not> (\<exists>(zToLayerAbove :: unit \<Rightarrow> Scalar \<Rightarrow> 32 word) (Z :: nat \<Rightarrow> Scalar) eps.
        0 \<le> eps \<and> mono Z \<and>
        (\<forall>tris i s.
            i < length tris \<and>
            min (v_z (v0 (tris ! i))) (min (v_z (v1 (tris ! i))) (v_z (v2 (tris ! i))))
              \<le> Z (Suc s) + eps \<and>
            Z s - eps
              \<le> max (v_z (v0 (tris ! i))) (max (v_z (v1 (tris ! i))) (v_z (v2 (tris ! i))))
          \<longrightarrow> (\<exists>seg'. tablaturize zToLayerAbove
                         \<lparr>zTapeMeasure = (), allTriangles = [], sliceTable = [], limits = ()\<rparr>
                         \<lparr>readAllTriangles = tris, readLimits = ()\<rparr> = Some seg' \<and>
                       s < length (sliceTable seg') \<and> i \<in> set (sliceTable seg' ! s))))"
proof
  assume "\<exists>(zToLayerAbove :: unit \<Rightarrow> Scalar \<Rightarrow> 32 word) (Z :: nat \<Rightarrow> Scalar) eps.
        0 \<le> eps \<and> mono Z \<and>
        (\<forall>tris i s.
            i < length tris \<and>
            min (v_z (v0 (tris ! i))) (min (v_z (v1 (tris ! i))) (v_z (v2 (tris ! i))))
              \<le> Z (Suc s) + eps \<and>
            Z s - eps
              \<le> max (v_z (v0 (tris ! i))) (max (v_z (v1 (tris ! i))) (v_z (v2 (tris ! i))))
          \<longrightarrow> (\<exists>seg'. tablaturize zToLayerAbove
                         \<lparr>zTapeMeasure = (), allTriangles = [], sliceTable = [], limits = ()\<rparr>
                         \<lparr>readAllTriangles = tris, readLimits = ()\<rparr> = Some seg' \<and>
                       s < length (sliceTable seg') \<and> i \<in> set (sliceTable seg' ! s)))"
  then obtain L :: "unit \<Rightarrow> Scalar \<Rightarrow> 32 word" and Z :: "nat \<Rightarrow> Scalar" and eps
    where eps: "0 \<le> eps" and mono: "mono Z"
      and cov: "\<And>tris i s. i < length tris \<Longrightarrow>
            min (v_z (v0 (tris ! i))) (min (v_z (v1 (tris ! i))) (v_z (v2 (tris ! i))))
              \<le> Z (Suc s) + eps \<Longrightarrow>
            Z s - eps
              \<le> max (v_z (v0 (tris ! i))) (max (v_z (v1 (tris ! i))) (v_z (v2 (tris ! i))))
          \<Longrightarrow> \<exists>seg'. tablaturize L
                         \<lparr>zTapeMeasure = (), allTriangles = [], sliceTable = [], limits = ()\<rparr>
                         \<lparr>readAllTriangles = tris, readLimits = ()\<rparr> = Some seg' \<and>
                       s < length (sliceTable seg') \<and> i \<in> set (sliceTable seg' ! s)"
    by blast
  define tri where "tri za zc = \<lparr>v0 = \<lparr>v_x = 0, v_y = 0, v_z = za\<rparr>,
      v1 = \<lparr>v_x = 0, v_y = 0, v_z = za\<rparr>, v2 = \<lparr>v_x = 0, v_y = 0, v_z = zc\<rparr>\<rparr>" for za zc :: real
  define run where "run za zc = updateSlicesTriangle L
      \<lparr>zTapeMeasure = (), allTriangles = [tri za zc], sliceTable = [], limits = ()\<rparr> 0" for za zc
  have step: "Z m \<le> Z n" if "m \<le> n" for m n using mono that by (rule monoD)
  have single: "tablaturize L
        \<lparr>zTapeMeasure = (), allTriangles = [], sliceTable = [], limits = ()\<rparr>
        \<lparr>readAllTriangles = [t], readLimits = ()\<rparr>
      = updateSlicesTriangle L
        \<lparr>zTapeMeasure = (), allTriangles = [t], sliceTable = [], limits = ()\<rparr> 0" for t
    by (simp add: tablaturize_def split: option.splits)
  have cov1: "\<exists>seg'. run za zc = Some seg' \<and> s < length (sliceTable seg') \<and> 0 \<in> set (sliceTable seg' ! s)"
    if "za \<le> zc" "za \<le> Z (Suc s) + eps" "Z s - eps \<le> zc" for za zc s
    using cov [of 0 "[tri za zc]" s] that
    by (simp add: single run_def tri_def min_def max_def)
  have flat: "unat (L () (Z (Suc n))) = Suc n" for n
  proof -
    let ?z = "Z (Suc n)"
    from cov1 [of ?z ?z n] eps step [of n "Suc n"]
    obtain seg' where r: "run ?z ?z = Some seg'"
      and a: "n < length (sliceTable seg')" "0 \<in> set (sliceTable seg' ! n)"
      by auto
    from cov1 [of ?z ?z "Suc n"] eps step [of "Suc n" "Suc (Suc n)"] r
    have b: "Suc n < length (sliceTable seg')" by auto
    define k where "k = unat (L () ?z)"
    have "k < 4294967296" using unsigned_less [of "L () ?z", where ?'a = nat] by (simp add: k_def)
    moreover have "k \<noteq> 4294967295"
      using updateSlicesTriangle_flat_overflow [of L ?z] r by (auto simp: run_def tri_def k_def)
    ultimately have ks: "k < 4294967295" by simp
    have r': "updateSlicesTriangle L \<lparr>zTapeMeasure = (), allTriangles =
              [\<lparr>v0 = \<lparr>v_x = 0, v_y = 0, v_z = ?z\<rparr>, v1 = \<lparr>v_x = 0, v_y = 0, v_z = ?z\<rparr>,
                v2 = \<lparr>v_x = 0, v_y = 0, v_z = ?z\<rparr>\<rparr>], sliceTable = [], limits = ()\<rparr> 0 = Some seg'"
      using r by (simp add: run_def tri_def)
    have k1: "unat (L () ?z) = k" by (simp add: k_def)
    have "length (sliceTable seg') = Suc (if 1 < k - (k - 1) then k - 1 else k)"
      by (rule updateSlicesTriangle_one(1) [OF order_refl k1 k1 order_refl ks r'])
    moreover have "\<not> 1 < k - (k - 1)" by arith
    ultimately have len: "length (sliceTable seg') = Suc k" by (simp only: if_False)
    have "k - 1 \<le> n"
      using updateSlicesTriangle_one(2) [OF order_refl k1 k1 order_refl ks r'] a by blast
    with b len show ?thesis by (simp add: k_def)
  qed
  have two: "unat (L () (Z 2)) = 2" using flat [of 1] by (simp add: numeral_2_eq_2)
  have six: "unat (L () (Z 6)) = 6" using flat [of 5] by (simp add: eval_nat_numeral)
  have le: "Z 2 \<le> Z 6" by (rule step) simp
  from cov1 [of "Z 2" "Z 6" 6] le eps step [of 2 "Suc 6"]
  obtain seg' where r: "run (Z 2) (Z 6) = Some seg'" and l: "6 < length (sliceTable seg')"
    by auto
  have r': "updateSlicesTriangle L \<lparr>zTapeMeasure = (), allTriangles =
              [\<lparr>v0 = \<lparr>v_x = 0, v_y = 0, v_z = Z 2\<rparr>, v1 = \<lparr>v_x = 0, v_y = 0, v_z = Z 2\<rparr>,
                v2 = \<lparr>v_x = 0, v_y = 0, v_z = Z 6\<rparr>\<rparr>], sliceTable = [], limits = ()\<rparr> 0 = Some seg'"
    using r by (simp add: run_def tri_def)
  have "length (sliceTable seg') = Suc (if 1 < (6::nat) - (2 - 1) then 6 - 1 else 6)"
    by (rule updateSlicesTriangle_one(1) [OF le two six _ _ r']) simp_all
  with l show False by simp
qed

text \<open>
  The same on numbers: with layer heights \<open>0, 1, 2, \<dots>\<close> and the helper \<open>z \<mapsto> \<lceil>z\<rceil>\<close>, a
  triangle with vertex heights \<open>2\<close>, \<open>3\<close>, \<open>3/2\<close> is listed in slices \<open>1\<close> and \<open>2\<close> only,
  although its top vertex lies on the lower face of slab \<open>3\<close>.
\<close>

lemma tablaturize_ceiling_example: "tablaturize (\<lambda>(_::unit) z. word_of_nat (nat \<lceil>z\<rceil>))
     \<lparr>zTapeMeasure = (), allTriangles = [], sliceTable = [], limits = ()\<rparr>
     \<lparr>readAllTriangles = [\<lparr>v0 = \<lparr>v_x = 0, v_y = 0, v_z = 2\<rparr>,
                         v1 = \<lparr>v_x = 1, v_y = 0, v_z = 3\<rparr>,
                         v2 = \<lparr>v_x = 0, v_y = 1, v_z = 3/2\<rparr>\<rparr>], readLimits = ()\<rparr>
   = Some \<lparr>zTapeMeasure = (), allTriangles = [\<lparr>v0 = \<lparr>v_x = 0, v_y = 0, v_z = 2\<rparr>,
                         v1 = \<lparr>v_x = 1, v_y = 0, v_z = 3\<rparr>,
                         v2 = \<lparr>v_x = 0, v_y = 1, v_z = 3/2\<rparr>\<rparr>], sliceTable = [[],[0],[0]], limits = ()\<rparr>"
  apply (simp add: tablaturize_def updateSlicesTriangle_def zSort_def minSliceIndexOf_def
      maxSliceIndexOf_def resize_def Let_def upt_conv_Cons)
  apply (simp add: numeral_3_eq_3 numeral_2_eq_2)
  done

section \<open>Pather: cleanPaths\<close>

lemma cleanPathsStep_None:
  "(cleanPathsStep cfg a b = None) = (myPath a = [] \<or> myPath b = [])"
  by (auto simp: cleanPathsStep_def Let_def)

lemma cleanPathsStep_eq:
  assumes "myPath current \<noteq> []" "myPath nxt \<noteq> []"
  shows "cleanPathsStep cfg current nxt =
     (if joinable cfg current nxt
      then Some (current\<lparr>myPath := myPath current @ tl (myPath nxt)\<rparr>, joined current nxt, True)
      else Some (current, nxt, False))"
  using assms by (auto simp: cleanPathsStep_def Let_def joinable_def joined_def)

lemma settled_fixpoint:
  "settled cfg (a # rest) \<Longrightarrow> cleanPathsLoop cfg a rest = Some (map (\<lambda>p. (p, False)) (a # rest))"
proof (induction rest arbitrary: a)
  case Nil
  then show ?case by simp
next
  case (Cons b rest)
  then have "cleanPathsStep cfg a b = Some (a, b, False)"
    by (simp add: cleanPathsStep_eq)
  moreover have "cleanPathsLoop cfg b rest = Some (map (\<lambda>p. (p, False)) (b # rest))"
    using Cons by simp
  ultimately show ?case by simp
qed

lemma settled_cleanPaths: "settled cfg xs \<Longrightarrow> cleanPaths cfg xs = Some xs"
proof (cases xs)
  case Nil
  then show ?thesis by (simp add: cleanPaths_def)
next
  case (Cons a rest)
  assume "settled cfg xs"
  then have "cleanPathsLoop cfg a rest = Some (map (\<lambda>p. (p, False)) (a # rest))"
    using Cons settled_fixpoint by simp
  then show ?thesis using Cons by (simp add: cleanPaths_def o_def filter_map)
qed

lemma not_joinable_continues:
  assumes "\<not> joinable cfg a b" "continues b x"
  shows "\<not> joinable cfg a x"
  using assms by (auto simp: joinable_def continues_def)

lemma continues_joined:
  assumes "myPath current \<noteq> []" "joinable cfg current nxt" "continues (joined current nxt) x"
  shows "continues current x"
  using assms by (auto simp: joinable_def continues_def joined_def)

lemma cleanPathsLoop_settled:
  "cleanPathsLoop cfg current rest = Some marked \<Longrightarrow>
   \<exists>x kept. map fst (filter (\<lambda>m. \<not> snd m) marked) = x # kept \<and>
            settled cfg (x # kept) \<and> continues current x \<and>
            (rest \<noteq> [] \<longrightarrow> myPath x \<noteq> [])"
proof (induction rest arbitrary: current marked)
  case Nil
  then show ?case by (auto simp: continues_def)
next
  case (Cons nxt rest)
  from Cons.prems have ne: "myPath current \<noteq> []" "myPath nxt \<noteq> []"
    using cleanPathsStep_None [of cfg current nxt] by (auto split: option.splits)
  show ?case
  proof (cases "joinable cfg current nxt")
    case True
    with Cons.prems ne obtain m where m: "cleanPathsLoop cfg (joined current nxt) rest = Some m"
      and marked: "marked = (current\<lparr>myPath := myPath current @ tl (myPath nxt)\<rparr>, True) # m"
      by (auto simp: cleanPathsStep_eq)
    from Cons.IH [OF m] obtain x kept where
      k: "map fst (filter (\<lambda>m. \<not> snd m) m) = x # kept" "settled cfg (x # kept)"
        "continues (joined current nxt) x"
      by auto
    have "continues current x" using continues_joined [OF ne(1) True k(3)] .
    moreover have "myPath x \<noteq> []"
      using k(3) ne by (auto simp: continues_def joined_def)
    ultimately show ?thesis using k marked by simp
  next
    case False
    with Cons.prems ne obtain m where m: "cleanPathsLoop cfg nxt rest = Some m"
      and marked: "marked = (current, False) # m"
      by (auto simp: cleanPathsStep_eq)
    from Cons.IH [OF m] obtain x kept where
      k: "map fst (filter (\<lambda>m. \<not> snd m) m) = x # kept" "settled cfg (x # kept)"
        "continues nxt x"
      by auto
    have nx: "myPath x \<noteq> []" using k(3) ne by (auto simp: continues_def)
    have "\<not> joinable cfg current x" using not_joinable_continues [OF False k(3)] .
    then have "settled cfg (current # x # kept)" using k(2) ne nx by simp
    then show ?thesis using k marked ne by (simp add: continues_def)
  qed
qed

text \<open>
  When no operation of the test rounds, the test is the comparison of the distance with
  the coarseness.
\<close>

lemma sqrt_le_iff_square: "0 \<le> c \<Longrightarrow> (sqrt x \<le> c) = (x \<le> c * c)"
proof -
  assume c: "0 \<le> c"
  then have "sqrt (c * c) = c" by simp
  then have "(sqrt x \<le> c) = (sqrt x \<le> sqrt (c * c))" by simp
  then show ?thesis by (simp only: real_sqrt_le_iff)
qed

lemma gap_test_exact:
  assumes "0 \<le> c"
    and "dsub (pt_x p) (pt_x q) = pt_x p - pt_x q" and "dsub (pt_y p) (pt_y q) = pt_y p - pt_y q"
    and "dmul (pt_x p - pt_x q) (pt_x p - pt_x q) = (pt_x p - pt_x q) * (pt_x p - pt_x q)"
    and "dmul (pt_y p - pt_y q) (pt_y p - pt_y q) = (pt_y p - pt_y q) * (pt_y p - pt_y q)"
    and "dadd ((pt_x p - pt_x q) * (pt_x p - pt_x q)) ((pt_y p - pt_y q) * (pt_y p - pt_y q))
           = (pt_x p - pt_x q) * (pt_x p - pt_x q) + (pt_y p - pt_y q) * (pt_y p - pt_y q)"
    and "dmul c c = c * c"
  shows "(squaredMagnitude (pointMinus p q) \<le> dmul c c) =
         (sqrt ((pt_x p - pt_x q) * (pt_x p - pt_x q) + (pt_y p - pt_y q) * (pt_y p - pt_y q)) \<le> c)"
  using assms by (simp add: squaredMagnitude_def pointMinus_def sqrt_le_iff_square)

text \<open>
  \<^bold>\<open>Claim C4 (as amended).\<close>  For an adjacent pair \<open>(current, next)\<close> of non-empty paths:
  if the squared distance from the end point of \<open>current\<close> to the start point of \<open>next\<close>
  is at most the square of \<open>coarseness\<close>, both as the code computes them in double
  arithmetic, both labels have a type in INSET, CONNECTION, and neither path is a closed
  loop with more than two points, then the points of \<open>next\<close> after its first are appended
  to \<open>current\<close>, the joined path is copied into \<open>next\<close>, \<open>next\<close> takes the label of
  \<open>current\<close> when that is INSET, and it is \<open>current\<close> that is marked for removal (the flag
  \<open>True\<close>): the joined path survives in the place of \<open>next\<close>, under the label of \<open>next\<close>
  unless \<open>current\<close> was INSET.  A pair that fails one of the three conditions is left as
  it is.  The second conjunct is the result of \<open>cleanPaths\<close> on the list of just this
  pair.
\<close>

theorem cleanPathsStep_joins:
  assumes "myPath current \<noteq> []" and "myPath nxt \<noteq> []"
  shows "cleanPathsStep patherCfg current nxt =
     (if squaredMagnitude (pointMinus (last (myPath current)) (hd (myPath nxt)))
            \<le> dmul (coarseness patherCfg) (coarseness patherCfg) \<and>
         myType (myLabel current) \<in> {TYP_INSET, TYP_CONNECTION} \<and>
         myType (myLabel nxt) \<in> {TYP_INSET, TYP_CONNECTION} \<and>
         \<not> (hd (myPath current) = last (myPath current) \<and> 2 < length (myPath current)) \<and>
         \<not> (hd (myPath nxt) = last (myPath nxt) \<and> 2 < length (myPath nxt))
      then Some (current\<lparr>myPath := myPath current @ tl (myPath nxt)\<rparr>,
                 \<lparr>myPath = myPath current @ tl (myPath nxt),
                  myLabel = (if myType (myLabel current) = TYP_INSET
                             then myLabel current else myLabel nxt)\<rparr>,
                 True)
      else Some (current, nxt, False)) \<and>
   cleanPaths patherCfg [current, nxt] =
     (if squaredMagnitude (pointMinus (last (myPath current)) (hd (myPath nxt)))
            \<le> dmul (coarseness patherCfg) (coarseness patherCfg) \<and>
         myType (myLabel current) \<in> {TYP_INSET, TYP_CONNECTION} \<and>
         myType (myLabel nxt) \<in> {TYP_INSET, TYP_CONNECTION} \<and>
         \<not> (hd (myPath current) = last (myPath current) \<and> 2 < length (myPath current)) \<and>
         \<not> (hd (myPath nxt) = last (myPath nxt) \<and> 2 < length (myPath nxt))
      then Some [\<lparr>myPath = myPath current @ tl (myPath nxt),
                  myLabel = (if myType (myLabel current) = TYP_INSET
                             then myLabel current else myLabel nxt)\<rparr>]
      else Some [current, nxt])"
proof -
  have j: "joinable patherCfg current nxt =
     (squaredMagnitude (pointMinus (last (myPath current)) (hd (myPath nxt)))
            \<le> dmul (coarseness patherCfg) (coarseness patherCfg) \<and>
         myType (myLabel current) \<in> {TYP_INSET, TYP_CONNECTION} \<and>
         myType (myLabel nxt) \<in> {TYP_INSET, TYP_CONNECTION} \<and>
         \<not> (hd (myPath current) = last (myPath current) \<and> 2 < length (myPath current)) \<and>
         \<not> (hd (myPath nxt) = last (myPath nxt) \<and> 2 < length (myPath nxt)))"
    by (auto simp: joinable_def isInset_def isConnection_def)
  have s: "cleanPathsStep patherCfg current nxt =
     (if joinable patherCfg current nxt
      then Some (current\<lparr>myPath := myPath current @ tl (myPath nxt)\<rparr>, joined current nxt, True)
      else Some (current, nxt, False))"
    using assms(1,2) by (rule cleanPathsStep_eq)
  have jd: "joined current nxt = \<lparr>myPath = myPath current @ tl (myPath nxt),
                  myLabel = (if myType (myLabel current) = TYP_INSET
                             then myLabel current else myLabel nxt)\<rparr>"
    by (simp add: joined_def isInset_def)
  have 1: "cleanPathsStep patherCfg current nxt =
     (if joinable patherCfg current nxt
      then Some (current\<lparr>myPath := myPath current @ tl (myPath nxt)\<rparr>,
                 \<lparr>myPath = myPath current @ tl (myPath nxt),
                  myLabel = (if myType (myLabel current) = TYP_INSET
                             then myLabel current else myLabel nxt)\<rparr>, True)
      else Some (current, nxt, False))"
    using s by (simp only: jd)
  have 2: "cleanPaths patherCfg [current, nxt] =
     (if joinable patherCfg current nxt
      then Some [\<lparr>myPath = myPath current @ tl (myPath nxt),
                  myLabel = (if myType (myLabel current) = TYP_INSET
                             then myLabel current else myLabel nxt)\<rparr>]
      else Some [current, nxt])"
    by (simp add: cleanPaths_def 1)
  show ?thesis using 1 2 by (simp only: j)
qed

text \<open>
  The theorem at two concrete pairs with coarseness \<open>1\<close>: an INSET path followed by a
  CONNECTION path that starts where the first ends (joined, \<open>current\<close> marked), and the
  same INSET path followed by an INFILL path (left alone).
\<close>

theorem cleanPathsStep_joins_witness:
  "cleanPathsStep \<lparr>doGraphOptimization = False, coarseness = 1, directionWeight = 1\<rparr>
      \<lparr>myPath = [\<lparr>pt_x = 0, pt_y = 0\<rparr>, \<lparr>pt_x = 1, pt_y = 0\<rparr>],
       myLabel = \<lparr>myType = TYP_INSET, myOwner = OWN_MODEL, myValue = 2\<rparr>\<rparr>
      \<lparr>myPath = [\<lparr>pt_x = 1, pt_y = 0\<rparr>, \<lparr>pt_x = 2, pt_y = 0\<rparr>],
       myLabel = \<lparr>myType = TYP_CONNECTION, myOwner = OWN_MODEL, myValue = 0\<rparr>\<rparr>
    = Some (\<lparr>myPath = [\<lparr>pt_x = 0, pt_y = 0\<rparr>, \<lparr>pt_x = 1, pt_y = 0\<rparr>, \<lparr>pt_x = 2, pt_y = 0\<rparr>],
              myLabel = \<lparr>myType = TYP_INSET, myOwner = OWN_MODEL, myValue = 2\<rparr>\<rparr>,
            \<lparr>myPath = [\<lparr>pt_x = 0, pt_y = 0\<rparr>, \<lparr>pt_x = 1, pt_y = 0\<rparr>, \<lparr>pt_x = 2, pt_y = 0\<rparr>],
              myLabel = \<lparr>myType = TYP_INSET, myOwner = OWN_MODEL, myValue = 2\<rparr>\<rparr>, True) \<and>
   cleanPathsStep \<lparr>doGraphOptimization = False, coarseness = 1, directionWeight = 1\<rparr>
      \<lparr>myPath = [\<lparr>pt_x = 0, pt_y = 0\<rparr>, \<lparr>pt_x = 1, pt_y = 0\<rparr>],
       myLabel = \<lparr>myType = TYP_INSET, myOwner = OWN_MODEL, myValue = 2\<rparr>\<rparr>
      \<lparr>myPath = [\<lparr>pt_x = 1, pt_y = 0\<rparr>, \<lparr>pt_x = 2, pt_y = 0\<rparr>],
       myLabel = \<lparr>myType = TYP_INFILL, myOwner = OWN_MODEL, myValue = 0\<rparr>\<rparr>
    = Some (\<lparr>myPath = [\<lparr>pt_x = 0, pt_y = 0\<rparr>, \<lparr>pt_x = 1, pt_y = 0\<rparr>],
              myLabel = \<lparr>myType = TYP_INSET, myOwner = OWN_MODEL, myValue = 2\<rparr>\<rparr>,
            \<lparr>myPath = [\<lparr>pt_x = 1, pt_y = 0\<rparr>, \<lparr>pt_x = 2, pt_y = 0\<rparr>],
              myLabel = \<lparr>myType = TYP_INFILL, myOwner = OWN_MODEL, myValue = 0\<rparr>\<rparr>, False)"
proof -
  let ?cfg = "\<lparr>doGraphOptimization = False, coarseness = 1, directionWeight = 1\<rparr>"
  let ?a = "\<lparr>myPath = [\<lparr>pt_x = 0, pt_y = 0\<rparr>, \<lparr>pt_x = 1, pt_y = 0\<rparr>],
       myLabel = \<lparr>myType = TYP_INSET, myOwner = OWN_MODEL, myValue = 2\<rparr>\<rparr>"
  let ?b = "\<lparr>myPath = [\<lparr>pt_x = 1, pt_y = 0\<rparr>, \<lparr>pt_x = 2, pt_y = 0\<rparr>],
       myLabel = \<lparr>myType = TYP_CONNECTION, myOwner = OWN_MODEL, myValue = 0\<rparr>\<rparr>"
  let ?c = "\<lparr>myPath = [\<lparr>pt_x = 1, pt_y = 0\<rparr>, \<lparr>pt_x = 2, pt_y = 0\<rparr>],
       myLabel = \<lparr>myType = TYP_INFILL, myOwner = OWN_MODEL, myValue = 0\<rparr>\<rparr>"
  have a: "myPath ?a \<noteq> []" and b: "myPath ?b \<noteq> []" and c: "myPath ?c \<noteq> []"
    by simp_all
  show ?thesis
    using cleanPathsStep_joins [OF a b, of ?cfg, THEN conjunct1]
      cleanPathsStep_joins [OF a c, of ?cfg, THEN conjunct1]
    by (simp add: squaredMagnitude_def pointMinus_def dadd_def dsub_def dmul_def)
qed

text \<open>
  \<^bold>\<open>Claim C4 (as stated) is false\<close> in two places.  It says that \<open>next\<close> is marked for
  removal, so that \<open>current\<close> would survive with the joined path.  On a CONNECTION path
  followed by an INSET path of shell \<open>3\<close> the loop marks \<open>current\<close> (first conjunct), and
  \<open>cleanPaths\<close> returns the joined path under the INSET label of \<open>next\<close> (second conjunct),
  not under the CONNECTION label of \<open>current\<close> (third conjunct).  And it says that a pair
  whose distance exceeds the coarseness is left unjoined.  With coarseness \<open>1\<close>, from the
  end point \<open>(0, 0)\<close> to the start point \<open>(1, 2^-30)\<close> the distance is above \<open>1\<close> (fourth
  conjunct), but the squared distance \<open>1 + 2^-60\<close> is rounded to \<open>1\<close>, which is not
  greater than \<open>1\<close>: the pair is joined (fifth conjunct).
\<close>

theorem cleanPathsStep_next_not_erased:
  "cleanPathsLoop \<lparr>doGraphOptimization = False, coarseness = 1, directionWeight = 1\<rparr>
      \<lparr>myPath = [\<lparr>pt_x = 0, pt_y = 0\<rparr>, \<lparr>pt_x = 1, pt_y = 0\<rparr>],
       myLabel = \<lparr>myType = TYP_CONNECTION, myOwner = OWN_MODEL, myValue = 0\<rparr>\<rparr>
      [\<lparr>myPath = [\<lparr>pt_x = 1, pt_y = 0\<rparr>, \<lparr>pt_x = 2, pt_y = 0\<rparr>],
        myLabel = \<lparr>myType = TYP_INSET, myOwner = OWN_MODEL, myValue = 3\<rparr>\<rparr>]
    = Some [(\<lparr>myPath = [\<lparr>pt_x = 0, pt_y = 0\<rparr>, \<lparr>pt_x = 1, pt_y = 0\<rparr>, \<lparr>pt_x = 2, pt_y = 0\<rparr>],
               myLabel = \<lparr>myType = TYP_CONNECTION, myOwner = OWN_MODEL, myValue = 0\<rparr>\<rparr>, True),
            (\<lparr>myPath = [\<lparr>pt_x = 0, pt_y = 0\<rparr>, \<lparr>pt_x = 1, pt_y = 0\<rparr>, \<lparr>pt_x = 2, pt_y = 0\<rparr>],
               myLabel = \<lparr>myType = TYP_INSET, myOwner = OWN_MODEL, myValue = 3\<rparr>\<rparr>, False)] \<and>
   cleanPaths \<lparr>doGraphOptimization = False, coarseness = 1, directionWeight = 1\<rparr>
      [\<lparr>myPath = [\<lparr>pt_x = 0, pt_y = 0\<rparr>, \<lparr>pt_x = 1, pt_y = 0\<rparr>],
        myLabel = \<lparr>myType = TYP_CONNECTION, myOwner = OWN_MODEL, myValue = 0\<rparr>\<rparr>,
       \<lparr>myPath = [\<lparr>pt_x = 1, pt_y = 0\<rparr>, \<lparr>pt_x = 2, pt_y = 0\<rparr>],
        myLabel = \<lparr>myType = TYP_INSET, myOwner = OWN_MODEL, myValue = 3\<rparr>\<rparr>]
    = Some [\<lparr>myPath = [\<lparr>pt_x = 0, pt_y = 0\<rparr>, \<lparr>pt_x = 1, pt_y = 0\<rparr>, \<lparr>pt_x = 2, pt_y = 0\<rparr>],
              myLabel = \<lparr>myType = TYP_INSET, myOwner = OWN_MODEL, myValue = 3\<rparr>\<rparr>] \<and>
   cleanPaths \<lparr>doGraphOptimization = False, coarseness = 1, directionWeight = 1\<rparr>
      [\<lparr>myPath = [\<lparr>pt_x = 0, pt_y = 0\<rparr>, \<lparr>pt_x = 1, pt_y = 0\<rparr>],
        myLabel = \<lparr>myType = TYP_CONNECTION, myOwner = OWN_MODEL, myValue = 0\<rparr>\<rparr>,
       \<lparr>myPath = [\<lparr>pt_x = 1, pt_y = 0\<rparr>, \<lparr>pt_x = 2, pt_y = 0\<rparr>],
        myLabel = \<lparr>myType = TYP_INSET, myOwner = OWN_MODEL, myValue = 3\<rparr>\<rparr>]
    \<noteq> Some [\<lparr>myPath = [\<lparr>pt_x = 0, pt_y = 0\<rparr>, \<lparr>pt_x = 1, pt_y = 0\<rparr>, \<lparr>pt_x = 2, pt_y = 0\<rparr>],
              myLabel = \<lparr>myType = TYP_CONNECTION, myOwner = OWN_MODEL, myValue = 0\<rparr>\<rparr>] \<and>
   1 < sqrt ((0 - 1) * (0 - 1) + (0 - 1 / 2 ^ 30) * (0 - 1 / 2 ^ 30)) \<and>
   cleanPaths \<lparr>doGraphOptimization = False, coarseness = 1, directionWeight = 1\<rparr>
      [\<lparr>myPath = [\<lparr>pt_x = - 1, pt_y = 0\<rparr>, \<lparr>pt_x = 0, pt_y = 0\<rparr>],
        myLabel = \<lparr>myType = TYP_CONNECTION, myOwner = OWN_MODEL, myValue = 0\<rparr>\<rparr>,
       \<lparr>myPath = [\<lparr>pt_x = 1, pt_y = 1 / 2 ^ 30\<rparr>, \<lparr>pt_x = 2, pt_y = 0\<rparr>],
        myLabel = \<lparr>myType = TYP_CONNECTION, myOwner = OWN_MODEL, myValue = 0\<rparr>\<rparr>]
    = Some [\<lparr>myPath = [\<lparr>pt_x = - 1, pt_y = 0\<rparr>, \<lparr>pt_x = 0, pt_y = 0\<rparr>, \<lparr>pt_x = 2, pt_y = 0\<rparr>],
              myLabel = \<lparr>myType = TYP_CONNECTION, myOwner = OWN_MODEL, myValue = 0\<rparr>\<rparr>]"
proof -
  have d30: "fl (- (1 / 2 ^ 30)) = - (1 / 2 ^ 30)"
    using fl_dyadic [of "- 1" "- 30"] by (simp add: power_int_minus field_simps)
  have d60: "fl (1 / 2 ^ 60) = 1 / 2 ^ 60"
    using fl_dyadic [of 1 "- 60"] by (simp add: power_int_minus field_simps)
  have sq: "1 / 2 ^ 30 * (1 / 2 ^ 30) = (1 / 2 ^ 60 :: real)" by simp
  have gap: "squaredMagnitude (pointMinus \<lparr>pt_x = 0, pt_y = 0\<rparr> \<lparr>pt_x = 1, pt_y = 1 / 2 ^ 30\<rparr>) = 1"
    by (simp only: squaredMagnitude_def pointMinus_def dadd_def dsub_def dmul_def
        Point2Type.simps diff_0 d30 fl_1 minus_mult_minus mult_1 sq d60 fl_example)
  have far: "1 < sqrt ((0 - 1) * (0 - 1) + (0 - 1 / 2 ^ 30) * (0 - 1 / 2 ^ 30) :: real)"
    by (simp only: real_sqrt_gt_1_iff) simp
  have joined: "cleanPaths \<lparr>doGraphOptimization = False, coarseness = 1, directionWeight = 1\<rparr>
      [\<lparr>myPath = [\<lparr>pt_x = - 1, pt_y = 0\<rparr>, \<lparr>pt_x = 0, pt_y = 0\<rparr>],
        myLabel = \<lparr>myType = TYP_CONNECTION, myOwner = OWN_MODEL, myValue = 0\<rparr>\<rparr>,
       \<lparr>myPath = [\<lparr>pt_x = 1, pt_y = 1 / 2 ^ 30\<rparr>, \<lparr>pt_x = 2, pt_y = 0\<rparr>],
        myLabel = \<lparr>myType = TYP_CONNECTION, myOwner = OWN_MODEL, myValue = 0\<rparr>\<rparr>]
    = Some [\<lparr>myPath = [\<lparr>pt_x = - 1, pt_y = 0\<rparr>, \<lparr>pt_x = 0, pt_y = 0\<rparr>, \<lparr>pt_x = 2, pt_y = 0\<rparr>],
              myLabel = \<lparr>myType = TYP_CONNECTION, myOwner = OWN_MODEL, myValue = 0\<rparr>\<rparr>]"
    using gap by (simp add: cleanPaths_def cleanPathsStep_def Let_def dmul_def
        isInset_def isConnection_def)
  have first: "cleanPathsLoop \<lparr>doGraphOptimization = False, coarseness = 1, directionWeight = 1\<rparr>
      \<lparr>myPath = [\<lparr>pt_x = 0, pt_y = 0\<rparr>, \<lparr>pt_x = 1, pt_y = 0\<rparr>],
       myLabel = \<lparr>myType = TYP_CONNECTION, myOwner = OWN_MODEL, myValue = 0\<rparr>\<rparr>
      [\<lparr>myPath = [\<lparr>pt_x = 1, pt_y = 0\<rparr>, \<lparr>pt_x = 2, pt_y = 0\<rparr>],
        myLabel = \<lparr>myType = TYP_INSET, myOwner = OWN_MODEL, myValue = 3\<rparr>\<rparr>]
    = Some [(\<lparr>myPath = [\<lparr>pt_x = 0, pt_y = 0\<rparr>, \<lparr>pt_x = 1, pt_y = 0\<rparr>, \<lparr>pt_x = 2, pt_y = 0\<rparr>],
               myLabel = \<lparr>myType = TYP_CONNECTION, myOwner = OWN_MODEL, myValue = 0\<rparr>\<rparr>, True),
            (\<lparr>myPath = [\<lparr>pt_x = 0, pt_y = 0\<rparr>, \<lparr>pt_x = 1, pt_y = 0\<rparr>, \<lparr>pt_x = 2, pt_y = 0\<rparr>],
               myLabel = \<lparr>myType = TYP_INSET, myOwner = OWN_MODEL, myValue = 3\<rparr>\<rparr>, False)] \<and>
   cleanPaths \<lparr>doGraphOptimization = False, coarseness = 1, directionWeight = 1\<rparr>
      [\<lparr>myPath = [\<lparr>pt_x = 0, pt_y = 0\<rparr>, \<lparr>pt_x = 1, pt_y = 0\<rparr>],
        myLabel = \<lparr>myType = TYP_CONNECTION, myOwner = OWN_MODEL, myValue = 0\<rparr>\<rparr>,
       \<lparr>myPath = [\<lparr>pt_x = 1, pt_y = 0\<rparr>, \<lparr>pt_x = 2, pt_y = 0\<rparr>],
        myLabel = \<lparr>myType = TYP_INSET, myOwner = OWN_MODEL, myValue = 3\<rparr>\<rparr>]
    = Some [\<lparr>myPath = [\<lparr>pt_x = 0, pt_y = 0\<rparr>, \<lparr>pt_x = 1, pt_y = 0\<rparr>, \<lparr>pt_x = 2, pt_y = 0\<rparr>],
              myLabel = \<lparr>myType = TYP_INSET, myOwner = OWN_MODEL, myValue = 3\<rparr>\<rparr>] \<and>
   cleanPaths \<lparr>doGraphOptimization = False, coarseness = 1, directionWeight = 1\<rparr>
      [\<lparr>myPath = [\<lparr>pt_x = 0, pt_y = 0\<rparr>, \<lparr>pt_x = 1, pt_y = 0\<rparr>],
        myLabel = \<lparr>myType = TYP_CONNECTION, myOwner = OWN_MODEL, myValue = 0\<rparr>\<rparr>,
       \<lparr>myPath = [\<lparr>pt_x = 1, pt_y = 0\<rparr>, \<lparr>pt_x = 2, pt_y = 0\<rparr>],
        myLabel = \<lparr>myType = TYP_INSET, myOwner = OWN_MODEL, myValue = 3\<rparr>\<rparr>]
    \<noteq> Some [\<lparr>myPath = [\<lparr>pt_x = 0, pt_y = 0\<rparr>, \<lparr>pt_x = 1, pt_y = 0\<rparr>, \<lparr>pt_x = 2, pt_y = 0\<rparr>],
              myLabel = \<lparr>myType = TYP_CONNECTION, myOwner = OWN_MODEL, myValue = 0\<rparr>\<rparr>]"
    by (simp add: cleanPaths_def cleanPathsStep_def Let_def squaredMagnitude_def pointMinus_def
        dadd_def dsub_def dmul_def isInset_def isConnection_def)
  from first far joined show ?thesis by blast
qed

text \<open>
  \<^bold>\<open>Claim C5.\<close>  \<open>cleanPaths\<close> is idempotent: whenever it returns a list (the run does not
  dereference an empty path), running it on that list returns the same list.
\<close>

theorem cleanPaths_idempotent:
  "cleanPaths patherCfg paths = Some cleaned \<Longrightarrow> cleanPaths patherCfg cleaned = Some cleaned"
proof (cases paths)
  case Nil
  assume "cleanPaths patherCfg paths = Some cleaned"
  then show ?thesis using Nil by (simp add: cleanPaths_def)
next
  case (Cons current rest)
  assume "cleanPaths patherCfg paths = Some cleaned"
  then obtain marked where "cleanPathsLoop patherCfg current rest = Some marked"
    and "cleaned = map fst (filter (\<lambda>m. \<not> snd m) marked)"
    using Cons by (auto simp: cleanPaths_def)
  then have "settled patherCfg cleaned"
    using cleanPathsLoop_settled [of patherCfg current rest marked] by auto
  then show ?thesis by (rule settled_cleanPaths)
qed

text \<open>
  The theorem at a list of four paths: the first three are joined into one INSET path in
  a chain, the INFILL path stays, and a second run changes nothing.
\<close>

theorem cleanPaths_idempotent_witness:
  "cleanPaths \<lparr>doGraphOptimization = False, coarseness = 1, directionWeight = 1\<rparr>
      [\<lparr>myPath = [\<lparr>pt_x = 0, pt_y = 0\<rparr>, \<lparr>pt_x = 1, pt_y = 0\<rparr>],
        myLabel = \<lparr>myType = TYP_INSET, myOwner = OWN_MODEL, myValue = 2\<rparr>\<rparr>,
       \<lparr>myPath = [\<lparr>pt_x = 1, pt_y = 0\<rparr>, \<lparr>pt_x = 2, pt_y = 0\<rparr>],
        myLabel = \<lparr>myType = TYP_CONNECTION, myOwner = OWN_MODEL, myValue = 0\<rparr>\<rparr>,
       \<lparr>myPath = [\<lparr>pt_x = 2, pt_y = 0\<rparr>, \<lparr>pt_x = 2, pt_y = 1\<rparr>],
        myLabel = \<lparr>myType = TYP_INSET, myOwner = OWN_MODEL, myValue = 5\<rparr>\<rparr>,
       \<lparr>myPath = [\<lparr>pt_x = 2, pt_y = 1\<rparr>, \<lparr>pt_x = 0, pt_y = 1\<rparr>],
        myLabel = \<lparr>myType = TYP_INFILL, myOwner = OWN_MODEL, myValue = 0\<rparr>\<rparr>]
    = Some [\<lparr>myPath = [\<lparr>pt_x = 0, pt_y = 0\<rparr>, \<lparr>pt_x = 1, pt_y = 0\<rparr>, \<lparr>pt_x = 2, pt_y = 0\<rparr>,
                       \<lparr>pt_x = 2, pt_y = 1\<rparr>],
              myLabel = \<lparr>myType = TYP_INSET, myOwner = OWN_MODEL, myValue = 2\<rparr>\<rparr>,
            \<lparr>myPath = [\<lparr>pt_x = 2, pt_y = 1\<rparr>, \<lparr>pt_x = 0, pt_y = 1\<rparr>],
              myLabel = \<lparr>myType = TYP_INFILL, myOwner = OWN_MODEL, myValue = 0\<rparr>\<rparr>] \<and>
   cleanPaths \<lparr>doGraphOptimization = False, coarseness = 1, directionWeight = 1\<rparr>
      [\<lparr>myPath = [\<lparr>pt_x = 0, pt_y = 0\<rparr>, \<lparr>pt_x = 1, pt_y = 0\<rparr>, \<lparr>pt_x = 2, pt_y = 0\<rparr>,
                       \<lparr>pt_x = 2, pt_y = 1\<rparr>],
              myLabel = \<lparr>myType = TYP_INSET, myOwner = OWN_MODEL, myValue = 2\<rparr>\<rparr>,
            \<lparr>myPath = [\<lparr>pt_x = 2, pt_y = 1\<rparr>, \<lparr>pt_x = 0, pt_y = 1\<rparr>],
              myLabel = \<lparr>myType = TYP_INFILL, myOwner = OWN_MODEL, myValue = 0\<rparr>\<rparr>]
    = Some [\<lparr>myPath = [\<lparr>pt_x = 0, pt_y = 0\<rparr>, \<lparr>pt_x = 1, pt_y = 0\<rparr>, \<lparr>pt_x = 2, pt_y = 0\<rparr>,
                       \<lparr>pt_x = 2, pt_y = 1\<rparr>],
              myLabel = \<lparr>myType = TYP_INSET, myOwner = OWN_MODEL, myValue = 2\<rparr>\<rparr>,
            \<lparr>myPath = [\<lparr>pt_x = 2, pt_y = 1\<rparr>, \<lparr>pt_x = 0, pt_y = 1\<rparr>],
              myLabel = \<lparr>myType = TYP_INFILL, myOwner = OWN_MODEL, myValue = 0\<rparr>\<rparr>]"
proof -
  let ?cfg = "\<lparr>doGraphOptimization = False, coarseness = 1, directionWeight = 1\<rparr>"
  let ?paths = "[\<lparr>myPath = [\<lparr>pt_x = 0, pt_y = 0\<rparr>, \<lparr>pt_x = 1, pt_y = 0\<rparr>],
        myLabel = \<lparr>myType = TYP_INSET, myOwner = OWN_MODEL, myValue = 2\<rparr>\<rparr>,
       \<lparr>myPath = [\<lparr>pt_x = 1, pt_y = 0\<rparr>, \<lparr>pt_x = 2, pt_y = 0\<rparr>],
        myLabel = \<lparr>myType = TYP_CONNECTION, myOwner = OWN_MODEL, myValue = 0\<rparr>\<rparr>,
       \<lparr>myPath = [\<lparr>pt_x = 2, pt_y = 0\<rparr>, \<lparr>pt_x = 2, pt_y = 1\<rparr>],
        myLabel = \<lparr>myType = TYP_INSET, myOwner = OWN_MODEL, myValue = 5\<rparr>\<rparr>,
       \<lparr>myPath = [\<lparr>pt_x = 2, pt_y = 1\<rparr>, \<lparr>pt_x = 0, pt_y = 1\<rparr>],
        myLabel = \<lparr>myType = TYP_INFILL, myOwner = OWN_MODEL, myValue = 0\<rparr>\<rparr>]"
  let ?cleaned = "[\<lparr>myPath = [\<lparr>pt_x = 0, pt_y = 0\<rparr>, \<lparr>pt_x = 1, pt_y = 0\<rparr>, \<lparr>pt_x = 2, pt_y = 0\<rparr>,
                       \<lparr>pt_x = 2, pt_y = 1\<rparr>],
              myLabel = \<lparr>myType = TYP_INSET, myOwner = OWN_MODEL, myValue = 2\<rparr>\<rparr>,
            \<lparr>myPath = [\<lparr>pt_x = 2, pt_y = 1\<rparr>, \<lparr>pt_x = 0, pt_y = 1\<rparr>],
              myLabel = \<lparr>myType = TYP_INFILL, myOwner = OWN_MODEL, myValue = 0\<rparr>\<rparr>]"
  have first: "cleanPaths ?cfg ?paths = Some ?cleaned"
    by (simp add: cleanPaths_def cleanPathsStep_def Let_def squaredMagnitude_def pointMinus_def
        dadd_def dsub_def dmul_def isInset_def isConnection_def)
  from cleanPaths_idempotent [OF first] first show ?thesis by simp
qed

section \<open>Pather: generatePaths\<close>

lemma generatePathsLoop_skip:
  "unat currentSlice < firstSliceIdx \<Longrightarrow>
   generatePathsLoop grueCfg firstSliceIdx lastSliceIdx skeleton currentSlice dir = []"
  by (induction skeleton) simp_all

lemma generatePathsLoop_nth:
  "k < length (generatePathsLoop grueCfg 0 lastSliceIdx skeleton currentSlice dir) \<Longrightarrow>
   sliceIndex (generatePathsLoop grueCfg 0 lastSliceIdx skeleton currentSlice dir ! k)
     = currentSlice + word_of_nat k \<and>
   direction (generatePathsLoop grueCfg 0 lastSliceIdx skeleton currentSlice dir ! k)
     = (let previous = (if k = 0 then dir
                        else direction (generatePathsLoop grueCfg 0 lastSliceIdx skeleton currentSlice dir ! (k - 1)))
        in if get_doRaft grueCfg \<and> get_raftAligned grueCfg \<and>
              2 \<le> currentSlice + word_of_nat k \<and> currentSlice + word_of_nat k < get_raftLayers grueCfg
           then previous else \<not> previous) \<and>
   axis (generatePathsLoop grueCfg 0 lastSliceIdx skeleton currentSlice dir ! k)
     = (if direction (generatePathsLoop grueCfg 0 lastSliceIdx skeleton currentSlice dir ! k)
        then X_AXIS else Y_AXIS)"
proof (induction skeleton arbitrary: currentSlice dir k)
  case Nil
  then show ?case by simp
next
  case (Cons layerRegions rest)
  show ?case
  proof (cases "unat currentSlice > lastSliceIdx")
    case True
    then show ?thesis using Cons.prems by simp
  next
    case False
    define dir1 where "dir1 = (if get_doRaft grueCfg \<and> currentSlice > 1 \<and>
                       currentSlice < get_raftLayers grueCfg \<and> get_raftAligned grueCfg
                    then dir else \<not> dir)"
    have two: "(1 < w) = (2 \<le> w)" for w :: "32 word"
      by (simp add: word_less_nat_alt word_le_nat_alt) arith
    have unf: "generatePathsLoop grueCfg 0 lastSliceIdx (layerRegions # rest) currentSlice dir
       = \<lparr>sliceIndex = currentSlice, direction = dir1,
             axis = (if dir1 then X_AXIS else Y_AXIS),
             optimizerCalls = layerOptimizerCalls grueCfg layerRegions\<rparr>
           # generatePathsLoop grueCfg 0 lastSliceIdx rest (currentSlice + 1) dir1"
      using False by (simp add: dir1_def Let_def)
    show ?thesis
    proof (cases k)
      case 0
      then show ?thesis unfolding unf by (auto simp: dir1_def two)
    next
      case (Suc j)
      then have j: "j < length (generatePathsLoop grueCfg 0 lastSliceIdx rest (currentSlice + 1) dir1)"
        using Cons.prems unfolding unf by simp
      note ih = Cons.IH [OF j]
      have w: "currentSlice + 1 + word_of_nat j = currentSlice + word_of_nat (Suc j)" by simp
      show ?thesis
      proof (cases j)
        case 0
        then show ?thesis using ih Suc unfolding unf by (simp add: Let_def)
      next
        case (Suc i)
        then show ?thesis using ih \<open>k = Suc j\<close> unfolding unf by (simp add: Let_def add.assoc)
      qed
    qed
  qed
qed

lemma generatePathsLoop_calls:
  "l \<in> set (generatePathsLoop grueCfg firstSliceIdx lastSliceIdx skeleton currentSlice dir) \<Longrightarrow>
   \<exists>layerRegions\<in>set skeleton. optimizerCalls l = layerOptimizerCalls grueCfg layerRegions"
  by (induction skeleton arbitrary: currentSlice dir) (auto simp: Let_def split: if_splits)

lemma layerOptimizerCalls_interior:
  "(AddBoundaries FromInteriorLoops \<in> set (layerOptimizerCalls grueCfg layerRegions)) =
   ((\<not> get_doInfills grueCfg \<or> \<not> 0 < get_infillDensity grueCfg) \<and>
    get_roofLayerCount grueCfg = 0 \<and> get_floorLayerCount grueCfg = 0)"
  by (auto simp: layerOptimizerCalls_def Let_def)

text \<open>
  \<^bold>\<open>Claim C6.\<close>  The \<open>k\<close>-th processed layer has \<^verbatim>\<open>currentSlice = k\<close>.  Its raster direction
  is the negation of the previous one (\<open>False\<close> before the first layer), except that it is
  the previous one when rafting is enabled, \<open>raftAligned\<close> is set and \<open>2 \<le> k < raftLayers\<close>.
  The axis is X when the direction is \<open>True\<close> and Y otherwise.  Without an aligned raft the
  direction of layer \<open>k\<close> is \<open>even k\<close>: consecutive layers alternate between X and Y.
\<close>

theorem generatePaths_direction:
  "\<forall>k<length (generatePaths grueCfg skeleton sfirstSliceIdx slastSliceIdx).
     sliceIndex (generatePaths grueCfg skeleton sfirstSliceIdx slastSliceIdx ! k) = word_of_nat k \<and>
     direction (generatePaths grueCfg skeleton sfirstSliceIdx slastSliceIdx ! k)
       = (let previous = (if k = 0 then False
            else direction (generatePaths grueCfg skeleton sfirstSliceIdx slastSliceIdx ! (k - 1)))
          in if get_doRaft grueCfg \<and> get_raftAligned grueCfg \<and>
                (2::32 word) \<le> word_of_nat k \<and> word_of_nat k < get_raftLayers grueCfg
             then previous else \<not> previous) \<and>
     axis (generatePaths grueCfg skeleton sfirstSliceIdx slastSliceIdx ! k)
       = (if direction (generatePaths grueCfg skeleton sfirstSliceIdx slastSliceIdx ! k)
          then X_AXIS else Y_AXIS) \<and>
     (\<not> (get_doRaft grueCfg \<and> get_raftAligned grueCfg) \<longrightarrow>
        direction (generatePaths grueCfg skeleton sfirstSliceIdx slastSliceIdx ! k) = even k)"
proof (cases "sfirstSliceIdx > 0")
  case True
  then have "generatePaths grueCfg skeleton sfirstSliceIdx slastSliceIdx = []"
    by (simp add: generatePaths_def Let_def generatePathsLoop_skip)
  then show ?thesis by simp
next
  case False
  define lastSliceIdx where
    "lastSliceIdx = (if slastSliceIdx > 0 then nat slastSliceIdx else 2147483647)"
  define layers where "layers = generatePathsLoop grueCfg 0 lastSliceIdx skeleton 0 False"
  have g: "generatePaths grueCfg skeleton sfirstSliceIdx slastSliceIdx = layers"
    using False by (simp add: generatePaths_def Let_def layers_def lastSliceIdx_def)
  have n: "sliceIndex (layers ! k) = word_of_nat k \<and>
      direction (layers ! k)
       = (let previous = (if k = 0 then False else direction (layers ! (k - 1)))
          in if get_doRaft grueCfg \<and> get_raftAligned grueCfg \<and>
                (2::32 word) \<le> word_of_nat k \<and> word_of_nat k < get_raftLayers grueCfg
             then previous else \<not> previous) \<and>
      axis (layers ! k) = (if direction (layers ! k) then X_AXIS else Y_AXIS)"
    if "k < length layers" for k
    using generatePathsLoop_nth [of k grueCfg lastSliceIdx skeleton 0 False] that
    unfolding layers_def by simp
  have alt: "direction (layers ! k) = even k"
    if "\<not> (get_doRaft grueCfg \<and> get_raftAligned grueCfg)" "k < length layers" for k
    using that(2)
  proof (induction k)
    case 0
    then show ?case using n [of 0] that(1) by (simp add: Let_def)
  next
    case (Suc j)
    then have "direction (layers ! j) = even j" by simp
    then show ?case using n [of "Suc j"] Suc.prems that(1) by (auto simp: Let_def)
  qed
  show ?thesis unfolding g using n alt by blast
qed

text \<open>
  The theorem on five layers with an aligned raft of four layers: layers \<open>2\<close> and \<open>3\<close> keep
  the direction of layer \<open>1\<close>; and on three layers without a raft, where the axes
  alternate.
\<close>

theorem generatePaths_direction_witness:
  "map direction (generatePaths
      (exampleConfig\<lparr>get_doRaft := True, get_raftLayers := 4, get_raftAligned := True\<rparr>)
      [exampleLayer, exampleLayer, exampleLayer, exampleLayer, exampleLayer] (- 1) (- 1))
     = [True, False, False, False, True] \<and>
   direction (generatePaths
      (exampleConfig\<lparr>get_doRaft := True, get_raftLayers := 4, get_raftAligned := True\<rparr>)
      [exampleLayer, exampleLayer, exampleLayer, exampleLayer, exampleLayer] (- 1) (- 1) ! 2)
     = direction (generatePaths
      (exampleConfig\<lparr>get_doRaft := True, get_raftLayers := 4, get_raftAligned := True\<rparr>)
      [exampleLayer, exampleLayer, exampleLayer, exampleLayer, exampleLayer] (- 1) (- 1) ! 1) \<and>
   map axis (generatePaths exampleConfig [exampleLayer, exampleLayer, exampleLayer] (- 1) (- 1))
     = [X_AXIS, Y_AXIS, X_AXIS]"
proof -
  let ?cfg = "exampleConfig\<lparr>get_doRaft := True, get_raftLayers := 4, get_raftAligned := True\<rparr>"
  let ?sk = "[exampleLayer, exampleLayer, exampleLayer, exampleLayer, exampleLayer]"
  have e: "map direction (generatePaths ?cfg ?sk (- 1) (- 1)) = [True, False, False, False, True]"
    by (simp add: generatePaths_def exampleConfig_def)
  have l: "2 < length (generatePaths ?cfg ?sk (- 1) (- 1))"
    using arg_cong [OF e, of length] by simp
  have c: "get_doRaft ?cfg \<and> get_raftAligned ?cfg \<and> (2::32 word) \<le> word_of_nat 2 \<and>
      (word_of_nat 2 :: 32 word) < get_raftLayers ?cfg"
    by simp
  have "direction (generatePaths ?cfg ?sk (- 1) (- 1) ! 2)
      = direction (generatePaths ?cfg ?sk (- 1) (- 1) ! 1)"
    using generatePaths_direction [of ?cfg ?sk "- 1" "- 1", rule_format, OF l] c
    by (simp add: Let_def)
  moreover have "map axis (generatePaths exampleConfig [exampleLayer, exampleLayer, exampleLayer] (- 1) (- 1))
     = [X_AXIS, Y_AXIS, X_AXIS]"
    by (simp add: generatePaths_def exampleConfig_def)
  ultimately show ?thesis using e by simp
qed

text \<open>
  \<^bold>\<open>Claim C9.\<close>  For every processed layer, the interior loops are passed to
  \<^verbatim>\<open>addBoundaries\<close> if and only if infill is effectively off (\<open>doInfills\<close> false or
  \<open>infillDensity\<close> not above 0) and there are no solid layers (\<open>roofLayerCount\<close> and
  \<open>floorLayerCount\<close> both 0).
\<close>

theorem generatePaths_interior_boundaries:
  "\<forall>l\<in>set (generatePaths grueCfg skeleton sfirstSliceIdx slastSliceIdx).
     (AddBoundaries FromInteriorLoops \<in> set (optimizerCalls l)) =
     ((\<not> get_doInfills grueCfg \<or> \<not> 0 < get_infillDensity grueCfg) \<and>
      get_roofLayerCount grueCfg = 0 \<and> get_floorLayerCount grueCfg = 0)"
proof
  fix l
  assume "l \<in> set (generatePaths grueCfg skeleton sfirstSliceIdx slastSliceIdx)"
  then have "l \<in> set (generatePathsLoop grueCfg
      (if sfirstSliceIdx > 0 then nat sfirstSliceIdx else 0)
      (if slastSliceIdx > 0 then nat slastSliceIdx else 2147483647) skeleton 0 False)"
    by (simp add: generatePaths_def Let_def)
  from generatePathsLoop_calls [OF this]
  show "(AddBoundaries FromInteriorLoops \<in> set (optimizerCalls l)) =
     ((\<not> get_doInfills grueCfg \<or> \<not> 0 < get_infillDensity grueCfg) \<and>
      get_roofLayerCount grueCfg = 0 \<and> get_floorLayerCount grueCfg = 0)"
    by (elim bexE) (simp only: layerOptimizerCalls_interior)
qed

text \<open>
  The theorem on one layer, with infill switched off (the interior loops become
  boundaries) and with infill on at density \<open>1/10\<close> (they do not).
\<close>

theorem generatePaths_interior_boundaries_witness:
  "map optimizerCalls (generatePaths (exampleConfig\<lparr>get_doInfills := False\<rparr>) [exampleLayer] (- 1) (- 1))
     = [[ClearBoundaries, ClearPaths, AddBoundaries FromOutlines, AddBoundaries FromInteriorLoops,
         AddPaths (FromInsetLoops 0) TYP_INSET OWN_MODEL, AddPaths (FromInsetLoops 1) TYP_INSET OWN_MODEL,
         AddPaths (FromSpurs 0) TYP_INSET OWN_MODEL, Optimize]] \<and>
   map optimizerCalls (generatePaths exampleConfig [exampleLayer] (- 1) (- 1))
     = [[ClearBoundaries, ClearPaths, AddBoundaries FromOutlines,
         AddPaths (FromInsetLoops 0) TYP_INSET OWN_MODEL, AddPaths (FromInsetLoops 1) TYP_INSET OWN_MODEL,
         AddPaths (FromSpurs 0) TYP_INSET OWN_MODEL,
         AddPaths FromInfillRanges TYP_INFILL OWN_MODEL, Optimize]] \<and>
   AddBoundaries FromInteriorLoops \<in> set (optimizerCalls
      (hd (generatePaths (exampleConfig\<lparr>get_doInfills := False\<rparr>) [exampleLayer] (- 1) (- 1)))) \<and>
   AddBoundaries FromInteriorLoops \<notin> set (optimizerCalls
      (hd (generatePaths exampleConfig [exampleLayer] (- 1) (- 1))))"
proof -
  let ?off = "exampleConfig\<lparr>get_doInfills := False\<rparr>"
  have a: "map optimizerCalls (generatePaths ?off [exampleLayer] (- 1) (- 1))
     = [[ClearBoundaries, ClearPaths, AddBoundaries FromOutlines, AddBoundaries FromInteriorLoops,
         AddPaths (FromInsetLoops 0) TYP_INSET OWN_MODEL, AddPaths (FromInsetLoops 1) TYP_INSET OWN_MODEL,
         AddPaths (FromSpurs 0) TYP_INSET OWN_MODEL, Optimize]]"
    by (simp add: generatePaths_def exampleConfig_def exampleLayer_def layerOptimizerCalls_def
        upt_conv_Cons)
  have b: "map optimizerCalls (generatePaths exampleConfig [exampleLayer] (- 1) (- 1))
     = [[ClearBoundaries, ClearPaths, AddBoundaries FromOutlines,
         AddPaths (FromInsetLoops 0) TYP_INSET OWN_MODEL, AddPaths (FromInsetLoops 1) TYP_INSET OWN_MODEL,
         AddPaths (FromSpurs 0) TYP_INSET OWN_MODEL,
         AddPaths FromInfillRanges TYP_INFILL OWN_MODEL, Optimize]]"
    by (simp add: generatePaths_def exampleConfig_def exampleLayer_def layerOptimizerCalls_def
        upt_conv_Cons)
  have ne1: "generatePaths ?off [exampleLayer] (- 1) (- 1) \<noteq> []" using a by auto
  have ne2: "generatePaths exampleConfig [exampleLayer] (- 1) (- 1) \<noteq> []" using b by auto
  have c1: "(\<not> get_doInfills ?off \<or> \<not> 0 < get_infillDensity ?off) \<and>
      get_roofLayerCount ?off = 0 \<and> get_floorLayerCount ?off = 0"
    by (simp add: exampleConfig_def)
  have c2: "\<not> ((\<not> get_doInfills exampleConfig \<or> \<not> 0 < get_infillDensity exampleConfig) \<and>
      get_roofLayerCount exampleConfig = 0 \<and> get_floorLayerCount exampleConfig = 0)"
    by (simp add: exampleConfig_def)
  have "AddBoundaries FromInteriorLoops \<in> set (optimizerCalls
      (hd (generatePaths ?off [exampleLayer] (- 1) (- 1))))"
    using generatePaths_interior_boundaries [of ?off "[exampleLayer]" "- 1" "- 1", rule_format,
        OF hd_in_set [OF ne1]] c1 by blast
  moreover have "AddBoundaries FromInteriorLoops \<notin> set (optimizerCalls
      (hd (generatePaths exampleConfig [exampleLayer] (- 1) (- 1))))"
    using generatePaths_interior_boundaries [of exampleConfig "[exampleLayer]" "- 1" "- 1",
        rule_format, OF hd_in_set [OF ne2]] c2 by blast
  ultimately show ?thesis using a b by blast
qed

section \<open>GCoder: polygonLeadInAndLeadOut\<close>

lemma sizeMinus_simple:
  assumes "k \<le> count" and "count < 18446744073709551616"
  shows "sizeMinus count k = count - k"
proof -
  have "count + 18446744073709551616 - k = (count - k) + 18446744073709551616"
    using assms(1) by arith
  then have "sizeMinus count k = (count - k) mod 18446744073709551616"
    by (simp only: sizeMinus_def mod_add_self2)
  moreover have "count - k < 18446744073709551616" using assms(2) by arith
  ultimately show ?thesis by (simp only: mod_less)
qed

text \<open>
  \<^bold>\<open>Claim C10.\<close>  \<open>polygonLeadInAndLeadOut\<close> indexes the polygon at \<open>0\<close>, \<open>1\<close>,
  \<open>count - 2\<close> and \<open>count - 1\<close> before it looks at the extruder.  For a polygon of at
  least two vertices the four accesses are in range and the function returns a pair (for
  a volumetric extruder, the first and the last vertex).  For a polygon of fewer than two
  vertices an access is out of range, whatever the extruder: there is no guard.  The
  vertex count is one that a \<^verbatim>\<open>size_t\<close> holds.
\<close>

theorem polygonLeadInAndLeadOut_bounds:
  assumes "length polygon < 18446744073709551616"
  shows "(2 \<le> length polygon \<longrightarrow>
            polygonAt polygon 0 = Inr (polygon ! 0) \<and>
            polygonAt polygon 1 = Inr (polygon ! 1) \<and>
            polygonAt polygon (sizeMinus (length polygon) 2) = Inr (polygon ! (length polygon - 2)) \<and>
            polygonAt polygon (sizeMinus (length polygon) 1) = Inr (polygon ! (length polygon - 1)) \<and>
            (\<exists>start stop. polygonLeadInAndLeadOut normalise polygon extruder leadIn leadOut
                             = Inr (start, stop)) \<and>
            (isVolumetric extruder \<longrightarrow>
               polygonLeadInAndLeadOut normalise polygon extruder leadIn leadOut
                 = Inr (polygon ! 0, polygon ! (length polygon - 1)))) \<and>
         (length polygon < 2 \<longrightarrow>
            polygonLeadInAndLeadOut normalise polygon extruder leadIn leadOut = Inl OutOfRange)"
proof (intro conjI impI)
  assume two: "2 \<le> length polygon"
  have m2: "sizeMinus (length polygon) 2 = length polygon - 2"
    using two assms by (rule sizeMinus_simple)
  have "1 \<le> length polygon" using two by arith
  then have m1: "sizeMinus (length polygon) 1 = length polygon - 1"
    using assms by (rule sizeMinus_simple)
  have "0 < length polygon" "1 < length polygon"
    using two by arith+
  then show a0: "polygonAt polygon 0 = Inr (polygon ! 0)"
    and a1: "polygonAt polygon 1 = Inr (polygon ! 1)"
    unfolding polygonAt_def by simp_all
  have "length polygon - 2 < length polygon" "length polygon - 1 < length polygon"
    using two by arith+
  then show a2: "polygonAt polygon (sizeMinus (length polygon) 2) = Inr (polygon ! (length polygon - 2))"
    and a3: "polygonAt polygon (sizeMinus (length polygon) 1) = Inr (polygon ! (length polygon - 1))"
    unfolding polygonAt_def m1 m2 by simp_all
  have unf: "polygonLeadInAndLeadOut normalise polygon extruder leadIn leadOut =
     (if isVolumetric extruder then Inr (polygon ! 0, polygon ! (length polygon - 1))
      else
        let ab = normalise (pointMinus (polygon ! 1) (polygon ! 0));
            cd = normalise (pointMinus (polygon ! (length polygon - 1)) (polygon ! (length polygon - 2)))
        in Inr (\<lparr>pt_x = dsub (pt_x (polygon ! 0)) (dmul (pt_x ab) leadIn),
                  pt_y = dsub (pt_y (polygon ! 0)) (dmul (pt_y ab) leadIn)\<rparr>,
                \<lparr>pt_x = dadd (pt_x (polygon ! (length polygon - 1))) (dmul (pt_x cd) leadOut),
                  pt_y = dadd (pt_y (polygon ! (length polygon - 1))) (dmul (pt_y cd) leadOut)\<rparr>))"
    by (simp only: polygonLeadInAndLeadOut_def Let_def a0 a1 a2 a3 sum.case)
  show "\<exists>start stop. polygonLeadInAndLeadOut normalise polygon extruder leadIn leadOut
                             = Inr (start, stop)"
    unfolding unf by (cases "isVolumetric extruder") (simp_all add: Let_def)
  show "polygonLeadInAndLeadOut normalise polygon extruder leadIn leadOut
                 = Inr (polygon ! 0, polygon ! (length polygon - 1))" if "isVolumetric extruder"
    unfolding unf using that by simp
next
  assume small: "length polygon < 2"
  show "polygonLeadInAndLeadOut normalise polygon extruder leadIn leadOut = Inl OutOfRange"
  proof (cases "length polygon = 0")
    case True
    then have "polygonAt polygon 0 = Inl OutOfRange" by (simp add: polygonAt_def)
    then show ?thesis by (simp only: polygonLeadInAndLeadOut_def Let_def sum.case)
  next
    case False
    then have "length polygon = 1" using small by arith
    then have "polygonAt polygon 0 = Inr (polygon ! 0)" "polygonAt polygon 1 = Inl OutOfRange"
      by (simp_all add: polygonAt_def)
    then show ?thesis by (simp only: polygonLeadInAndLeadOut_def Let_def sum.case)
  qed
qed

text \<open>
  The theorem at a triangle, at a single point and at the empty polygon.
\<close>

theorem polygonLeadInAndLeadOut_bounds_witness:
  "polygonLeadInAndLeadOut (\<lambda>p. p)
      [\<lparr>pt_x = 0, pt_y = 0\<rparr>, \<lparr>pt_x = 1, pt_y = 0\<rparr>, \<lparr>pt_x = 1, pt_y = 1\<rparr>]
      (hd (get_extruders exampleConfig)\<lparr>isVolumetric := True\<rparr>) (1/4) (1/3)
     = Inr (\<lparr>pt_x = 0, pt_y = 0\<rparr>, \<lparr>pt_x = 1, pt_y = 1\<rparr>) \<and>
   polygonLeadInAndLeadOut (\<lambda>p. p) [\<lparr>pt_x = 0, pt_y = 0\<rparr>]
      (hd (get_extruders exampleConfig)\<lparr>isVolumetric := True\<rparr>) (1/4) (1/3)
     = Inl OutOfRange \<and>
   polygonLeadInAndLeadOut (\<lambda>p. p) [] (hd (get_extruders exampleConfig)) (1/4) (1/3)
     = Inl OutOfRange"
proof -
  let ?e = "hd (get_extruders exampleConfig)\<lparr>isVolumetric := True\<rparr>"
  let ?p3 = "[\<lparr>pt_x = 0, pt_y = 0\<rparr>, \<lparr>pt_x = 1, pt_y = 0\<rparr>, \<lparr>pt_x = 1, pt_y = 1\<rparr>]"
  let ?p1 = "[\<lparr>pt_x = 0::real, pt_y = 0::real\<rparr>]"
  have v: "isVolumetric ?e" by simp
  have "polygonLeadInAndLeadOut (\<lambda>p. p) ?p3 ?e (1/4) (1/3) = Inr (?p3 ! 0, ?p3 ! (length ?p3 - 1))"
    using polygonLeadInAndLeadOut_bounds [of ?p3 "\<lambda>p. p" ?e "1/4" "1/3"] v by simp
  moreover have "polygonLeadInAndLeadOut (\<lambda>p. p) ?p1 ?e (1/4) (1/3) = Inl OutOfRange"
    using polygonLeadInAndLeadOut_bounds [of ?p1 "\<lambda>p. p" ?e "1/4" "1/3"] by simp
  moreover have "polygonLeadInAndLeadOut (\<lambda>p. p) [] (hd (get_extruders exampleConfig)) (1/4) (1/3)
      = Inl OutOfRange"
    using polygonLeadInAndLeadOut_bounds [of "[]" "\<lambda>p. p" "hd (get_extruders exampleConfig)" "1/4" "1/3"]
    by simp
  ultimately show ?thesis by simp
qed

section \<open>GCoder: extrusion profiles and groups\<close>

text \<open>
  \<^bold>\<open>Claim C8.\<close>  \<open>calcInSetExtrusion\<close> is extensionally equal to its canonical form, which
  assigns the found profile once and scales the feedrate; it is also equal to the
  function with the other of its two assignments removed.
\<close>

theorem calcInSetExtrusion_canonical_eq:
  "calcInSetExtrusion grueCfg extruderId sliceId insetId insetCount extrusion
     = calcInSetExtrusion_canonical grueCfg extruderId sliceId insetId insetCount extrusion \<and>
   calcInSetExtrusion grueCfg extruderId sliceId insetId insetCount extrusion
     = calcInSetExtrusion_without_first grueCfg extruderId sliceId insetId insetCount extrusion"
  by (simp add: calcInSetExtrusion_def calcInSetExtrusion_canonical_def
      calcInSetExtrusion_without_first_def Let_def split: sum.splits option.splits)

text \<open>
  The three functions at the example configuration (scaling factor \<open>2\<close>): the inset
  profile on slice \<open>1\<close>, the first-layer profile on slice \<open>0\<close>, and an extruder index that
  is out of range.
\<close>

theorem calcInSetExtrusion_canonical_eq_witness:
  "calcInSetExtrusion exampleConfig 0 1 0 2 \<lparr>feedrate = 7, extrusionWidth = 9\<rparr>
     = Inr \<lparr>feedrate = 80, extrusionWidth = 1\<rparr> \<and>
   calcInSetExtrusion exampleConfig 0 0 0 2 \<lparr>feedrate = 7, extrusionWidth = 9\<rparr>
     = Inr \<lparr>feedrate = 40, extrusionWidth = 1\<rparr> \<and>
   calcInSetExtrusion exampleConfig 3 1 0 2 \<lparr>feedrate = 7, extrusionWidth = 9\<rparr>
     = Inl OutOfRange"
proof -
  have c: "calcInSetExtrusion_canonical exampleConfig 0 1 0 2 \<lparr>feedrate = 7, extrusionWidth = 9\<rparr>
     = Inr \<lparr>feedrate = 80, extrusionWidth = 1\<rparr>"
    "calcInSetExtrusion_canonical exampleConfig 0 0 0 2 \<lparr>feedrate = 7, extrusionWidth = 9\<rparr>
     = Inr \<lparr>feedrate = 40, extrusionWidth = 1\<rparr>"
    "calcInSetExtrusion_canonical exampleConfig 3 1 0 2 \<lparr>feedrate = 7, extrusionWidth = 9\<rparr>
     = Inl OutOfRange"
    by (simp_all add: calcInSetExtrusion_canonical_def extruderAt_def exampleConfig_def dmul_def)
  show ?thesis
    using calcInSetExtrusion_canonical_eq [of exampleConfig 0 1 0 2 "\<lparr>feedrate = 7, extrusionWidth = 9\<rparr>"]
      calcInSetExtrusion_canonical_eq [of exampleConfig 0 0 0 2 "\<lparr>feedrate = 7, extrusionWidth = 9\<rparr>"]
      calcInSetExtrusion_canonical_eq [of exampleConfig 3 1 0 2 "\<lparr>feedrate = 7, extrusionWidth = 9\<rparr>"]
    by (simp only: c)
qed

section \<open>GCoder: a missing extrusion profile\<close>

subsection \<open>Emitting functions that return normally\<close>

























lemma calcInfillExtrusion_missing:
  assumes "unat extruderId < length (get_extruders grueCfg)"
    and "profileName = (if sliceId = 0
            then firstLayerExtrusionProfile (get_extruders grueCfg ! unat extruderId)
            else infillsExtrusionProfile (get_extruders grueCfg ! unat extruderId))"
    and "get_extrusionProfiles grueCfg profileName = None"
  shows "calcInfillExtrusion grueCfg extruderId sliceId extrusion
           = Inl (GcoderException (''Failed to find extrusion profile '' @ profileName))"
  using assms by (simp add: calcInfillExtrusion_def extruderAt_def Let_def)







subsection \<open>The groups, the slice and the file\<close>




text \<open>
  The whole job on the two example layers.  On slice \<open>0\<close> every group finds the profile
  \<open>firstlayer\<close>; on slice \<open>1\<close> every group looks up \<open>infill\<close> and is skipped, with three
  messages in each log.  The G-code holds the header, slice \<open>0\<close> with its moves, and slice
  \<open>1\<close> with the move in Z and the three count comments.
\<close>

lemma writeGcodeFile_example:
  "writeGcodeFile exampleCallees ''Mon Nov  2 20:52:00 2026'' Map.empty exampleConfig
     exampleLayers ''cube.stl'' exampleState
   = (\<lparr>gout = endl @ ''(Makerbot Industries)'' @ endl
         @ ''(This file contains digital fabrication directives in gcode format)'' @ endl
         @ ''(For your 3D printer)'' @ endl
         @ ''(http://wiki.makerbot.com/gcode)'' @ endl
         @ ''(* Generated by Miracle-Grue 0.0.4.0)'' @ endl
         @ ''(* Mon Nov  2 20:52:00 2026)'' @ endl
         @ ''(* cube.stl)'' @ endl
         @ ''(* 1 extruder)'' @ endl
         @ ''(* Extrude infills: 1)'' @ endl
         @ ''(* Extrude insets: 1)'' @ endl
         @ ''(* Extrude outlines: 1)'' @ endl
         @ endl
         @ ''(Slice 0, 1 Extruder) '' @ endl
         @ ''(Layer Height: '' @ [CHR 0x09] @ ''0.500)'' @ endl
         @ ''(Layer Width: '' @ [CHR 0x09] @ ''0.500)'' @ endl
         @ ''G1 Z (move Z)'' @ endl
         @ ''(outlines: 1)'' @ endl @ ''G1 E-1'' @ endl @ ''G1 X1 Y1 E1'' @ endl
         @ ''(insets: 0)'' @ endl @ ''G1 E-1'' @ endl @ ''G1 E-1'' @ endl
         @ ''(infills: 2)'' @ endl @ ''G1 E-1'' @ endl @ ''G1 X1 Y1 E1'' @ endl
         @ ''G1 X1 Y1 E1'' @ endl @ ''G1 E-1'' @ endl
         @ ''(Slice 1, 1 Extruder) '' @ endl
         @ ''(Layer Height: '' @ [CHR 0x09] @ ''0.500)'' @ endl
         @ ''(Layer Width: '' @ [CHR 0x09] @ ''0.500)'' @ endl
         @ ''G1 Z (move Z)'' @ endl
         @ ''(outlines: 1)'' @ endl
         @ ''(insets: 0)'' @ endl
         @ ''(infills: 2)'' @ endl,
       logInfo = endl @ ''ERROR writing outlines in slice 1 for extruder 0 : Failed to find extrusion profile infill'' @ endl
         @ endl @ ''ERROR writing insets in slice 1 for extruder 0 : Failed to find extrusion profile infill'' @ endl
         @ endl @ ''ERROR writing infills in slice 1 for extruder 0 : Failed to find extrusion profile infill'' @ endl,
       logSevere = endl @ ''ERROR writing outlines in slice 1 for extruder 0 : Failed to find extrusion profile infill'' @ endl
         @ endl @ ''ERROR writing insets in slice 1 for extruder 0 : Failed to find extrusion profile infill'' @ endl
         @ endl @ ''ERROR writing infills in slice 1 for extruder 0 : Failed to find extrusion profile infill'' @ endl,
       gantry = (), progressTotal = 1, progressCurrent = 0, progressPercent = 0\<rparr>, None)"
  by (simp add: writeGcodeFile_def writeGcodeFileRange_def writeStartDotGCode_def
      writeEndDotGCode_def writeGCodeConfig_def liftStream_def writeSlice_def
      writeSliceExtruder_def writeSliceGroups_def writeOutlines_def writeInsets_def
      writeInfills_def writeSupport_def moveZ_def plural_def countProgress_def
      catchGcoderException_def catchGcoderExceptionInfo_def andThen_def emit_def noop_def
      calcInfillExtrusion_def calcInSetExtrusionOfLayer_def extruderAt_def showBool_def
      exampleConfig_def exampleCallees_def exampleLayers_def exampleExtruderLayer_def
      exampleState_def showNat.simps Let_def dadd_def dmul_def fl_half)

text \<open>
  The hypothesis on the anchor cannot be dropped.  The anchor is no group: its lookup
  stands before the first slice, inside no handler, and a missing profile there is an
  exception that leaves \<open>writeGcodeFile\<close> before any group is written.
\<close>

lemma writeAnchor_missing_profile:
  assumes "extruders it = front # others"
    and "layerExtruderId front < length (get_extruders grueCfg)"
    and "struder = get_extruders grueCfg ! layerExtruderId front"
    and "unat (word_of_nat (extruder_id struder) :: 32 word) < length (get_extruders grueCfg)"
    and "profileName = firstLayerExtrusionProfile
           (get_extruders grueCfg ! unat (word_of_nat (extruder_id struder) :: 32 word))"
    and "get_extrusionProfiles grueCfg profileName = None"
  shows "writeAnchor ext grueCfg it st
           = (st, Some (GcoderException (''Failed to find extrusion profile '' @ profileName)))"
proof -
  have "calcInfillExtrusion grueCfg (word_of_nat (extruder_id struder)) 0
          \<lparr>feedrate = 0, extrusionWidth = 0\<rparr>
        = Inl (GcoderException (''Failed to find extrusion profile '' @ profileName))"
    using assms(4) _ assms(6) by (rule calcInfillExtrusion_missing) (simp add: assms(5))
  then show ?thesis
    using assms(1,2) by (simp add: writeAnchor_def Let_def assms(3) [symmetric])
qed

section \<open>GCoder: the header and the clock\<close>

subsection \<open>Emitting functions that only append to the stream\<close>

lemma appendsOnly_emit: "appendsOnly (emit txt)"
  by (simp add: appendsOnly_def emit_def)

lemma appendsOnly_noop: "appendsOnly noop"
  by (simp add: appendsOnly_def noop_def)

lemma appendsOnly_throw: "appendsOnly (\<lambda>st. (st, fault))"
  by (simp add: appendsOnly_def)

lemma appendsOnly_run:
  assumes "appendsOnly e" and "e (st\<lparr>gout := []\<rparr>) = (st1, fault)"
  shows "e (st\<lparr>gout := pre\<rparr>) = (st1\<lparr>gout := pre @ gout st1\<rparr>, fault)"
proof -
  from assms(1) have "e (st\<lparr>gout := pre\<rparr>) =
      (case e (st\<lparr>gout := []\<rparr>) of (st1, fault) \<Rightarrow> (st1\<lparr>gout := pre @ gout st1\<rparr>, fault))"
    unfolding appendsOnly_def by blast
  then show ?thesis using assms(2) by simp
qed

lemma appendsOnly_andThen:
  assumes a: "appendsOnly a" and b: "appendsOnly b"
  shows "appendsOnly (andThen a b)"
  unfolding appendsOnly_def
proof (intro allI)
  fix st :: "'a GCoderState" and pre
  obtain s1 f where a0: "a (st\<lparr>gout := []\<rparr>) = (s1, f)" by (cases "a (st\<lparr>gout := []\<rparr>)")
  have a1: "a (st\<lparr>gout := pre\<rparr>) = (s1\<lparr>gout := pre @ gout s1\<rparr>, f)"
    using a a0 by (rule appendsOnly_run)
  show "andThen a b (st\<lparr>gout := pre\<rparr>) =
     (case andThen a b (st\<lparr>gout := []\<rparr>) of (st1, fault) \<Rightarrow> (st1\<lparr>gout := pre @ gout st1\<rparr>, fault))"
  proof (cases f)
    case (Some fault)
    then show ?thesis by (simp add: andThen_def a0 a1)
  next
    case None
    obtain s2 f2 where b0: "b (s1\<lparr>gout := []\<rparr>) = (s2, f2)" by (cases "b (s1\<lparr>gout := []\<rparr>)")
    have b1: "b (s1\<lparr>gout := pre @ gout s1\<rparr>) = (s2\<lparr>gout := (pre @ gout s1) @ gout s2\<rparr>, f2)"
      using b b0 by (rule appendsOnly_run)
    have "b (s1\<lparr>gout := gout s1\<rparr>) = (s2\<lparr>gout := gout s1 @ gout s2\<rparr>, f2)"
      using b b0 by (rule appendsOnly_run)
    then have b2: "b s1 = (s2\<lparr>gout := gout s1 @ gout s2\<rparr>, f2)" by simp
    show ?thesis by (simp add: andThen_def a0 a1 None b1 b2)
  qed
qed

lemma appendsOnly_forEach:
  assumes "\<And>x. x \<in> set xs \<Longrightarrow> appendsOnly (body x)"
  shows "appendsOnly (forEach body xs)"
  using assms
proof (induction xs)
  case Nil
  have "forEach body [] = noop" by (rule ext) (simp add: noop_def)
  then show ?case by (simp add: appendsOnly_noop)
next
  case (Cons x xs)
  have "forEach body (x # xs) = andThen (body x) (forEach body xs)"
    by (rule ext) (simp add: andThen_def)
  then show ?case using Cons by (simp add: appendsOnly_andThen)
qed

lemma appendsOnly_catch:
  assumes "appendsOnly tryBlock"
  shows "appendsOnly (catchGcoderException errormsg tryBlock)"
  unfolding appendsOnly_def
proof (intro allI)
  fix st :: "'a GCoderState" and pre
  obtain s1 f where t0: "tryBlock (st\<lparr>gout := []\<rparr>) = (s1, f)" by (cases "tryBlock (st\<lparr>gout := []\<rparr>)")
  have t1: "tryBlock (st\<lparr>gout := pre\<rparr>) = (s1\<lparr>gout := pre @ gout s1\<rparr>, f)"
    using assms t0 by (rule appendsOnly_run)
  show "catchGcoderException errormsg tryBlock (st\<lparr>gout := pre\<rparr>) =
     (case catchGcoderException errormsg tryBlock (st\<lparr>gout := []\<rparr>) of
        (st1, fault) \<Rightarrow> (st1\<lparr>gout := pre @ gout st1\<rparr>, fault))"
    by (cases f) (auto simp: catchGcoderException_def t0 t1 split: GcoderFault.splits)
qed

lemma appendsOnly_catchInfo:
  assumes "appendsOnly tryBlock"
  shows "appendsOnly (catchGcoderExceptionInfo errormsg tryBlock)"
  unfolding appendsOnly_def
proof (intro allI)
  fix st :: "'a GCoderState" and pre
  obtain s1 f where t0: "tryBlock (st\<lparr>gout := []\<rparr>) = (s1, f)" by (cases "tryBlock (st\<lparr>gout := []\<rparr>)")
  have t1: "tryBlock (st\<lparr>gout := pre\<rparr>) = (s1\<lparr>gout := pre @ gout s1\<rparr>, f)"
    using assms t0 by (rule appendsOnly_run)
  show "catchGcoderExceptionInfo errormsg tryBlock (st\<lparr>gout := pre\<rparr>) =
     (case catchGcoderExceptionInfo errormsg tryBlock (st\<lparr>gout := []\<rparr>) of
        (st1, fault) \<Rightarrow> (st1\<lparr>gout := pre @ gout st1\<rparr>, fault))"
    by (cases f) (auto simp: catchGcoderExceptionInfo_def t0 t1 split: GcoderFault.splits)
qed

lemma appendsOnly_lookup:
  assumes "\<And>x. appendsOnly (body x)"
  shows "appendsOnly (\<lambda>st. case lookup of Inl fault \<Rightarrow> (st, Some fault) | Inr x \<Rightarrow> body x st)"
  by (cases lookup) (simp_all add: appendsOnly_throw assms)

lemma appendsOnly_liftStream:
  assumes "\<And>ss. f ss = (ss @ fst (f []), snd (f []))"
  shows "appendsOnly (liftStream f)"
proof -
  obtain appended fault where f0: "f [] = (appended, fault)" by (cases "f []")
  have "f ss = (ss @ appended, fault)" for ss using assms [of ss] f0 by simp
  then show ?thesis by (simp add: appendsOnly_def liftStream_def)
qed

lemma writeEndDotGCode_appends:
  "writeEndDotGCode files grueCfg ss
     = (ss @ fst (writeEndDotGCode files grueCfg []), snd (writeEndDotGCode files grueCfg []))"
  by (simp add: writeEndDotGCode_def Let_def split: option.splits prod.splits)

subsection \<open>The writers only append, if the code outside the sources does\<close>

lemma writeInfills_appends:
  assumes "\<And>a b. appendsOnly (snort a b)" and "\<And>a b c d e f. appendsOnly (writePath a b c d e f)"
  shows "appendsOnly (writeInfills snort writePath grueCfg z h w sliceId extruder paths)"
  unfolding writeInfills_def
  by (intro appendsOnly_catch appendsOnly_andThen appendsOnly_emit appendsOnly_lookup
      appendsOnly_forEach assms)

lemma writeSupport_appends:
  assumes "\<And>a b. appendsOnly (snort a b)" and "\<And>a b c d e f. appendsOnly (writePath a b c d e f)"
  shows "appendsOnly (writeSupport snort writePath grueCfg z h w sliceId extruder paths)"
  unfolding writeSupport_def
  by (intro appendsOnly_catch appendsOnly_andThen appendsOnly_emit appendsOnly_lookup
      appendsOnly_forEach assms)

lemma writeOutlines_appends:
  assumes "\<And>a b. appendsOnly (snort a b)" and "\<And>a b c d e f. appendsOnly (writePath a b c d e f)"
  shows "appendsOnly (writeOutlines snort writePath grueCfg z h w sliceId extruder paths)"
  unfolding writeOutlines_def
  by (intro appendsOnly_catch appendsOnly_andThen appendsOnly_emit appendsOnly_lookup
      appendsOnly_forEach assms)

lemma writeInsets_appends:
  assumes "\<And>a b. appendsOnly (snort a b)" and "\<And>a b c d e f. appendsOnly (writePath a b c d e f)"
  shows "appendsOnly (writeInsets snort writePath grueCfg z h w sliceId extruder isFirstLayer paths)"
  unfolding writeInsets_def
  by (intro appendsOnly_catch appendsOnly_andThen appendsOnly_emit appendsOnly_lookup
      appendsOnly_forEach assms)

lemma writeSliceGroups_appends:
  assumes "\<And>a b. appendsOnly (snort a b)" and "\<And>a b c d e f. appendsOnly (writePath a b c d e f)"
  shows "appendsOnly (writeSliceGroups snort writePath grueCfg currentZ currentH currentW
           layerSequence currentExtruder isFirstLayer paths)"
  unfolding writeSliceGroups_def
  by (intro appendsOnly_andThen)
     (simp_all add: appendsOnly_noop writeOutlines_appends writeInsets_appends
        writeInfills_appends writeSupport_appends assms)

lemma writeSliceExtruder_appends:
  assumes "calleesAppend ext"
  shows "appendsOnly (writeSliceExtruder ext grueCfg isFirstLayer currentLayer layerSequence it)"
proof -
  have c: "\<And>a. appendsOnly (gantry_set_current_extruder_index ext a)"
    "\<And>a b c d e f g h i j k l m. appendsOnly (gantry_g1Motion ext a b c d e f g h i j k l m)"
    "\<And>a b. appendsOnly (gantry_snort ext a b)"
    "\<And>a b c d e f. appendsOnly (gcoder_writePath ext a b c d e f)"
    "\<And>a b c d e f. appendsOnly (gcoder_writePaths ext a b c d e f)"
    using assms by (simp_all add: calleesAppend_def)
  show ?thesis
  proof (cases "layerExtruderId it < length (get_extruders grueCfg)")
    case True
    show ?thesis
      unfolding writeSliceExtruder_def Let_def
      by (simp only: True if_True)
         (intro appendsOnly_andThen appendsOnly_catchInfo writeSliceGroups_appends c,
          simp add: moveZ_def c)
  next
    case False
    then show ?thesis by (simp add: writeSliceExtruder_def appendsOnly_throw)
  qed
qed

lemma writeSlice_appends:
  assumes "calleesAppend ext"
  shows "appendsOnly (writeSlice ext grueCfg isFirstLayer currentLayer layerSequence)"
  unfolding writeSlice_def Let_def
  by (intro appendsOnly_andThen appendsOnly_forEach writeSliceExtruder_appends assms)
     (simp_all add: appendsOnly_emit appendsOnly_noop)

lemma writeAnchor_appends:
  assumes "calleesAppend ext"
  shows "appendsOnly (writeAnchor ext grueCfg it)"
proof -
  have c: "\<And>a. appendsOnly (gantry_set_current_extruder_index ext a)"
    "\<And>a b c d e f g h i. appendsOnly (gantry_g1 ext a b c d e f g h i)"
    "\<And>a b. appendsOnly (gantry_snort ext a b)"
    "\<And>a b. appendsOnly (gantry_squirt ext a b)"
    using assms by (simp_all add: calleesAppend_def)
  show ?thesis
  proof (cases "extruders it")
    case Nil
    then show ?thesis by (simp add: writeAnchor_def appendsOnly_throw)
  next
    case (Cons front others)
    show ?thesis
    proof (cases "layerExtruderId front < length (get_extruders grueCfg)")
      case True
      show ?thesis
        unfolding writeAnchor_def Cons list.case Let_def
        by (simp only: True if_True)
           (intro appendsOnly_lookup appendsOnly_andThen c)
    next
      case False
      then show ?thesis by (simp add: writeAnchor_def Cons appendsOnly_throw)
    qed
  qed
qed

lemma writeLayers_appends:
  assumes "calleesAppend ext"
  shows "appendsOnly (writeLayers ext grueCfg pos layerSequence layers)"
proof (induction layers arbitrary: pos layerSequence)
  case Nil
  have "writeLayers ext grueCfg pos layerSequence [] = noop" by (rule ext) (simp add: noop_def)
  then show ?case by (simp add: appendsOnly_noop)
next
  case (Cons it rest)
  have tick: "appendsOnly (progressive_tick ext)" using assms by (simp add: calleesAppend_def)
  have anchor: "appendsOnly
      (if get_doAnchor grueCfg \<and> layerSequence = 0 then writeAnchor ext grueCfg it else noop)"
    by (simp add: writeAnchor_appends assms appendsOnly_noop)
  have "writeLayers ext grueCfg pos layerSequence (it # rest) =
     andThen (progressive_tick ext)
       (andThen
          (if get_doAnchor grueCfg \<and> layerSequence = 0 then writeAnchor ext grueCfg it else noop)
       (andThen (writeSlice ext grueCfg (pos = 0) it layerSequence)
          (writeLayers ext grueCfg (Suc pos) (Suc layerSequence) rest)))"
    by (rule ext) simp
  then show ?case
    by (simp only:) (intro appendsOnly_andThen tick anchor writeSlice_appends assms Cons.IH)
qed

subsection \<open>The clock reading in the output\<close>

lemma writeGCodeConfig_clock:
  "(writeGCodeConfig programName versionStr clockNow1 grueCfg title ss
      = writeGCodeConfig programName versionStr clockNow2 grueCfg title ss)
   = (clockNow1 = clockNow2)"
  by (simp add: writeGCodeConfig_def Let_def)

lemma writeGCodeConfig_parts:
  "\<exists>before after. \<forall>clockNow.
      writeGCodeConfig programName versionStr clockNow grueCfg title ss = before @ clockNow @ after"
proof -
  define before where "before = ss @ endl
         @ ''(Makerbot Industries)'' @ endl
         @ ''(This file contains digital fabrication directives in gcode format)'' @ endl
         @ ''(For your 3D printer)'' @ endl
         @ ''(http://wiki.makerbot.com/gcode)'' @ endl
         @ ''(* Generated by '' @ programName @ '' '' @ versionStr @ '')'' @ endl
         @ ''(* ''"
  define after where "after = '')'' @ endl
         @ ''(* '' @ title @ '')'' @ endl
         @ ''(* '' @ showNat (length (get_extruders grueCfg)) @ '' extruder''
             @ (if length (get_extruders grueCfg) \<noteq> 0 then [] else ''s'') @ '')'' @ endl
         @ ''(* Extrude infills: '' @ showBool (get_doInfills grueCfg) @ '')'' @ endl
         @ ''(* Extrude insets: '' @ showBool (get_doInsets grueCfg) @ '')'' @ endl
         @ ''(* Extrude outlines: '' @ showBool (get_doOutlines grueCfg) @ '')'' @ endl
         @ endl"
  have "writeGCodeConfig programName versionStr clockNow grueCfg title ss = before @ clockNow @ after"
    for clockNow
    by (simp add: writeGCodeConfig_def Let_def before_def after_def)
  then show ?thesis by blast
qed

lemma writeStartDotGCode_parts:
  "\<exists>rest fault. \<forall>clockNow.
      writeStartDotGCode programName versionStr clockNow files grueCfg sourceName stream
      = (writeGCodeConfig programName versionStr clockNow grueCfg sourceName stream @ rest, fault)"
proof (cases "length (get_header grueCfg) > 0")
  case False
  then show ?thesis
    by (intro exI [of _ "[]"] exI [of _ None]) (simp add: writeStartDotGCode_def Let_def)
next
  case True
  show ?thesis
  proof (cases "files (get_header grueCfg)")
    case None
    with True show ?thesis
      by (intro exI [of _ "[]"]
            exI [of _ "Some (GcoderException
                          (''Unable to open gcode header file ['' @ get_header grueCfg @ '']''))"])
         (simp add: writeStartDotGCode_def Let_def)
  next
    case (Some read)
    obtain content readFailed where read: "read = (content, readFailed)" by (cases read)
    show ?thesis
    proof (cases readFailed)
      case True
      with \<open>length (get_header grueCfg) > 0\<close> Some read show ?thesis
        by (intro exI [of _ "''(header ['' @ get_header grueCfg @ ''] begin)'' @ endl @ content"]
              exI [of _ "Some (GcoderException
                          (''Error reading gcode header file ['' @ get_header grueCfg @ '']''))"])
           (simp add: writeStartDotGCode_def Let_def)
    next
      case False
      with \<open>length (get_header grueCfg) > 0\<close> Some read show ?thesis
        by (intro exI [of _ "''(header ['' @ get_header grueCfg @ ''] begin)'' @ endl @ content
               @ ''(header ['' @ get_header grueCfg @ ''] end)'' @ endl @ endl"]
              exI [of _ None])
           (simp add: writeStartDotGCode_def Let_def)
    qed
  qed
qed

text \<open>
  What \<open>writeGcodeFile\<close> writes is the configuration block, which holds the clock reading,
  followed by text that does not depend on the clock.
\<close>

lemma writeGcodeFileRange_parts:
  fixes st :: "'g GCoderState" and ext :: "('g, 'p) Callees"
  assumes "calleesAppend ext"
  shows "\<exists>rest. \<forall>clockNow.
     gout (fst (writeGcodeFileRange ext clockNow files grueCfg layerpaths title beginPos endPos st))
     = writeGCodeConfig (getMiracleGrueProgramName ext) (getMiracleGrueVersionStr ext) clockNow
         grueCfg title (gout st) @ rest"
proof -
  define layers where "layers = take (endPos - beginPos) (drop beginPos layerpaths)"
  define tail :: "'g Emitter" where "tail =
       (if beginPos \<le> endPos \<and> endPos \<le> length layerpaths then
          andThen (\<lambda>st. (st\<lparr>progressTotal := 1 + countProgress layers,
                             progressCurrent := 0, progressPercent := 0\<rparr>, None))
         (andThen (progressive_initProgress ext ''gcode'' (length layers))
         (andThen (writeLayers ext grueCfg beginPos 0 layers)
         (andThen
            (if get_doFanCommand grueCfg
             then emit (''M127 T'' @ showNat (get_defaultExtruder grueCfg) @
                        '' (Turn off the fan)'' @ endl)
             else noop)
            (liftStream (writeEndDotGCode files grueCfg)))))
        else (\<lambda>st. (st, Some OutOfRange)))"
  have init: "appendsOnly (progressive_initProgress ext a b)" for a b
    using assms by (simp add: calleesAppend_def)
  have prog: "appendsOnly (\<lambda>st :: 'g GCoderState. (st\<lparr>progressTotal := 1 + countProgress layers,
                             progressCurrent := 0, progressPercent := 0\<rparr>, None))"
    by (simp add: appendsOnly_def)
  have fan: "appendsOnly (if get_doFanCommand grueCfg
             then emit (''M127 T'' @ showNat (get_defaultExtruder grueCfg) @
                        '' (Turn off the fan)'' @ endl)
             else (noop :: 'g Emitter))"
    by (simp add: appendsOnly_emit appendsOnly_noop)
  have footer: "appendsOnly (liftStream (writeEndDotGCode files grueCfg) :: 'g Emitter)"
    by (rule appendsOnly_liftStream) (rule writeEndDotGCode_appends)
  have tail: "appendsOnly tail"
  proof (cases "beginPos \<le> endPos \<and> endPos \<le> length layerpaths")
    case True
    show ?thesis
      unfolding tail_def
      by (simp only: True simp_thms if_True)
         (intro appendsOnly_andThen prog init writeLayers_appends assms fan footer)
  next
    case False
    then show ?thesis unfolding tail_def by (simp only: if_False appendsOnly_throw)
  qed
  have run: "writeGcodeFileRange ext clockNow files grueCfg layerpaths title beginPos endPos
      = andThen (liftStream (writeStartDotGCode (getMiracleGrueProgramName ext)
                      (getMiracleGrueVersionStr ext) clockNow files grueCfg title)) tail"
    for clockNow
    by (rule ext) (simp add: writeGcodeFileRange_def tail_def layers_def Let_def)
  from writeStartDotGCode_parts [of "getMiracleGrueProgramName ext" "getMiracleGrueVersionStr ext"
      files grueCfg title "gout st"]
  obtain r1 hf where h: "\<And>clockNow. writeStartDotGCode (getMiracleGrueProgramName ext)
        (getMiracleGrueVersionStr ext) clockNow files grueCfg title (gout st)
      = (writeGCodeConfig (getMiracleGrueProgramName ext) (getMiracleGrueVersionStr ext) clockNow
           grueCfg title (gout st) @ r1, hf)"
    by blast
  obtain s1 f where t0: "tail (st\<lparr>gout := []\<rparr>) = (s1, f)" by (cases "tail (st\<lparr>gout := []\<rparr>)")
  have t1: "tail (st\<lparr>gout := pre\<rparr>) = (s1\<lparr>gout := pre @ gout s1\<rparr>, f)" for pre
    using tail t0 by (rule appendsOnly_run)
  show ?thesis
  proof (cases hf)
    case (Some fault)
    have "gout (fst (writeGcodeFileRange ext clockNow files grueCfg layerpaths title beginPos endPos st))
     = writeGCodeConfig (getMiracleGrueProgramName ext) (getMiracleGrueVersionStr ext) clockNow
         grueCfg title (gout st) @ r1" for clockNow
      by (simp add: run andThen_def liftStream_def h Some)
    then show ?thesis by blast
  next
    case None
    have "gout (fst (writeGcodeFileRange ext clockNow files grueCfg layerpaths title beginPos endPos st))
     = writeGCodeConfig (getMiracleGrueProgramName ext) (getMiracleGrueVersionStr ext) clockNow
         grueCfg title (gout st) @ (r1 @ gout s1)" for clockNow
      by (simp add: run andThen_def liftStream_def h None t1)
    then show ?thesis by blast
  qed
qed

text \<open>
  \<^bold>\<open>Claim C1 (as amended).\<close>  The G-code text that \<open>writeGcodeFile\<close> writes, for any layer
  paths, configuration, title, header and footer file, is a function of these and of
  the reading of the clock: the clock string appears in it, between two texts that do
  not depend on the clock (first conjunct), and two runs on the same inputs write the
  same text exactly when they read the same clock string (second conjunct).  The code
  outside the sources is required only to append to the stream.
\<close>

theorem writeGcodeFile_clock:
  fixes st :: "'g GCoderState" and ext :: "('g, 'p) Callees"
  assumes "calleesAppend ext"
  shows "(\<exists>before after. \<forall>clockNow.
            gout (fst (writeGcodeFileRange ext clockNow files grueCfg layerpaths title
                         beginPos endPos st))
            = before @ clockNow @ after) \<and>
         ((gout (fst (writeGcodeFileRange ext clockNow1 files grueCfg layerpaths title
                        beginPos endPos st))
           = gout (fst (writeGcodeFileRange ext clockNow2 files grueCfg layerpaths title
                          beginPos endPos st)))
          = (clockNow1 = clockNow2))"
proof -
  from writeGcodeFileRange_parts [OF assms, of files grueCfg layerpaths title beginPos endPos st]
  obtain rest where r: "\<And>clockNow.
     gout (fst (writeGcodeFileRange ext clockNow files grueCfg layerpaths title beginPos endPos st))
     = writeGCodeConfig (getMiracleGrueProgramName ext) (getMiracleGrueVersionStr ext) clockNow
         grueCfg title (gout st) @ rest"
    by blast
  from writeGCodeConfig_parts [of "getMiracleGrueProgramName ext" "getMiracleGrueVersionStr ext"
      grueCfg title "gout st"]
  obtain before after where p: "\<And>clockNow.
      writeGCodeConfig (getMiracleGrueProgramName ext) (getMiracleGrueVersionStr ext) clockNow
         grueCfg title (gout st) = before @ clockNow @ after"
    by blast
  have "gout (fst (writeGcodeFileRange ext clockNow files grueCfg layerpaths title
                         beginPos endPos st))
            = before @ clockNow @ (after @ rest)" for clockNow
    by (simp add: r p)
  then have 1: "\<exists>before after. \<forall>clockNow.
            gout (fst (writeGcodeFileRange ext clockNow files grueCfg layerpaths title
                         beginPos endPos st))
            = before @ clockNow @ after"
    by blast
  have 2: "(gout (fst (writeGcodeFileRange ext clockNow1 files grueCfg layerpaths title
                        beginPos endPos st))
           = gout (fst (writeGcodeFileRange ext clockNow2 files grueCfg layerpaths title
                          beginPos endPos st)))
          = (clockNow1 = clockNow2)"
    by (simp only: r append_same_eq writeGCodeConfig_clock)
  from 1 2 show ?thesis by (rule conjI)
qed

text \<open>
  The theorem at the example job: two runs that differ in the clock reading by one
  second write different G-code.
\<close>

theorem writeGcodeFile_clock_witness:
  "gout (fst (writeGcodeFile exampleCallees ''Mon Nov  2 20:52:00 2026'' Map.empty exampleConfig
                exampleLayers ''cube.stl'' exampleState))
   \<noteq> gout (fst (writeGcodeFile exampleCallees ''Mon Nov  2 20:52:01 2026'' Map.empty exampleConfig
                  exampleLayers ''cube.stl'' exampleState))"
proof -
  have callees: "calleesAppend exampleCallees"
    by (simp add: calleesAppend_def exampleCallees_def appendsOnly_emit appendsOnly_noop)
  show ?thesis
    unfolding writeGcodeFile_def
    by (simp only: writeGcodeFile_clock [OF callees, THEN conjunct2]) simp
qed

text \<open>
  \<^bold>\<open>Claim C1 (as stated) is false.\<close>  Two runs of \<open>writeGCodeConfig\<close> on the same
  configuration and title, one second apart, write different text.
\<close>

theorem writeGCodeConfig_depends_on_clock:
  "writeGCodeConfig ''Miracle-Grue'' ''0.0.4.0'' ''Mon Nov  2 20:52:00 2026'' exampleConfig ''cube.stl'' []
     \<noteq> writeGCodeConfig ''Miracle-Grue'' ''0.0.4.0'' ''Mon Nov  2 20:52:01 2026'' exampleConfig ''cube.stl'' []"
  by (simp only: writeGCodeConfig_clock) simp

end
